theory Spec2Isabelle
  imports Complex_Main
begin

section \<open>Data model of gd\_math.c\<close>

text \<open>
  The goddard math library works on \<^verbatim>\<open>f32\<close> values, on \<^verbatim>\<open>Mat4f\<close> objects
  (\<^verbatim>\<open>f32[4][4]\<close>) that are always passed by pointer, and on \<^verbatim>\<open>struct GdVec3f\<close>.

  \<^item> A finite \<^verbatim>\<open>f32\<close> value is a real number. The arithmetic on it is modelled at two
    levels of detail. In \<^verbatim>\<open>gd_normalize_vec3f\<close> and in the statements of
    \<^verbatim>\<open>gd_mat4f_lookat\<close> up to its unit forward axis, whose results depend on a test of
    a computed value against a constant, every operation is the IEEE-754 binary32
    one: the exact result rounded to the nearest binary32 value, ties to even, with
    the subnormal range, underflow to zero and overflow to infinity (section
    \<open>Binary32 arithmetic\<close>). In the matrix functions and in the rest of the look-at
    builders \<open>+\<close>, \<open>-\<close>, \<open>*\<close> and \<open>sqrt\<close> are exact: there is no rounding, overflow or
    NaN. A division is written only where the source has excluded a zero divisor
    beforehand; \<^verbatim>\<open>gd_mat4f_lookat\<close>, which divides unguarded, returns \<open>None\<close> where the
    divisor is zero.
  \<^item> Matrices live in a store, indexed by a pointer, a row and a column, and are
    written one element at a time as the source does, so that a call whose
    destination aliases a source is a call with two equal pointers.
  \<^item> Vectors and the quaternion array are local values of every function modelled
    here, passed and returned by value.
\<close>

type_synonym f32 = real
type_synonym s32 = int

text \<open>
  Pointers to \<^verbatim>\<open>Mat4f\<close> objects. \<open>Buf n\<close> is a buffer owned by the caller. The two
  other pointers are the addresses of the local matrices \<^verbatim>\<open>res\<close> of
  \<^verbatim>\<open>gd_mult_mat4f\<close> and \<^verbatim>\<open>rMat\<close> of \<^verbatim>\<open>gd_absrot_mat4\<close>, which the source hands to
  callees with \<^verbatim>\<open>&res\<close> and \<^verbatim>\<open>&rMat\<close>; no caller can hold them.
\<close>

datatype ptr = Buf nat | Local_res | Local_rMat

type_synonym store = "ptr \<Rightarrow> nat \<Rightarrow> nat \<Rightarrow> f32"

text \<open>The assignment \<^verbatim>\<open>(*p)[i][j] = v\<close>.\<close>

definition wr :: "store \<Rightarrow> ptr \<Rightarrow> nat \<Rightarrow> nat \<Rightarrow> f32 \<Rightarrow> store" where
  "wr h p i j v = (\<lambda>q a b. if q = p \<and> a = i \<and> b = j then v else h q a b)"

text \<open>The sixteen elements of the matrix at \<open>p\<close>, row by row.\<close>

definition mat4 :: "store \<Rightarrow> ptr \<Rightarrow> f32 list list" where
  "mat4 h p =
     [[h p 0 0, h p 0 1, h p 0 2, h p 0 3],
      [h p 1 0, h p 1 1, h p 1 2, h p 1 3],
      [h p 2 0, h p 2 1, h p 2 2, h p 2 3],
      [h p 3 0, h p 3 1, h p 3 2, h p 3 3]]"

record GdVec3f =
  vec_x :: f32
  vec_y :: f32
  vec_z :: f32

text \<open>
  \<^verbatim>\<open>struct InvMat4\<close> of gd\_types.h (not among the sources; its shape is read off
  the accesses \<^verbatim>\<open>inv.r3.c3\<close> ... \<^verbatim>\<open>inv.r0.c0\<close>): four rows of four \<^verbatim>\<open>f32\<close>.
\<close>

record Row4 =
  c0 :: f32
  c1 :: f32
  c2 :: f32
  c3 :: f32

record InvMat4 =
  r0 :: Row4
  r1 :: Row4
  r2 :: Row4
  r3 :: Row4

text \<open>
  Modelled from the spec: \<^verbatim>\<open>fatal_printf\<close> and \<^verbatim>\<open>fatal_print\<close> (debug\_utils.h) are not
  among the sources. The spec's fatal-error reporter "must not return" and is used
  exactly twice; a call to it ends the function with the value \<open>Inl\<close> of the message.
\<close>

datatype fatal = Bad_axis_num | Non_singular_matrix

text \<open>
  Modelled from the spec: the macros \<^verbatim>\<open>sqr\<close> and \<^verbatim>\<open>absf\<close> (macros.h) are not among the
  sources. The spec writes the magnitude as \<open>sqrt(x\<^sup>2+y\<^sup>2+z\<^sup>2)\<close> where the source has
  \<^verbatim>\<open>sqrtf(sqr(x) + sqr(y) + sqr(z))\<close>, and \<open>|determinant|\<close> where it has \<^verbatim>\<open>absf\<close>.
\<close>

definition sqr :: "f32 \<Rightarrow> f32" where
  "sqr v = v * v"

definition absf :: "f32 \<Rightarrow> f32" where
  "absf v = (if v < 0 then - v else v)"

definition FALSE :: s32 where
  "FALSE = 0"

definition TRUE :: s32 where
  "TRUE = 1"

text \<open>
  The angle adapter \<^verbatim>\<open>degrees_to_angle\<close>, \<^verbatim>\<open>sins\<close>, \<^verbatim>\<open>coss\<close> and the axis selectors
  \<^verbatim>\<open>GD_X_AXIS\<close>, \<^verbatim>\<open>GD_Y_AXIS\<close>, \<^verbatim>\<open>GD_Z_AXIS\<close> are declared outside the sources: they
  are parameters of the functions that use them.
\<close>

record angle_adapter =
  degrees_to_angle :: "f32 \<Rightarrow> f32"
  sins :: "f32 \<Rightarrow> f32"
  coss :: "f32 \<Rightarrow> f32"

record axis_enum =
  GD_X_AXIS :: s32
  GD_Y_AXIS :: s32
  GD_Z_AXIS :: s32

text \<open>The loop \<^verbatim>\<open>for (i = lo; i < hi; i++) body\<close> over a state.\<close>

function for_loop :: "nat \<Rightarrow> nat \<Rightarrow> (nat \<Rightarrow> 's \<Rightarrow> 's) \<Rightarrow> 's \<Rightarrow> 's" where
  "for_loop i hi body s = (if i < hi then for_loop (i + 1) hi body (body i s) else s)"
  by pat_completeness auto
termination
  by (relation "measure (\<lambda>(i, hi, body, s). hi - i)") auto

declare for_loop.simps [simp del]

section \<open>Binary32 arithmetic\<close>

text \<open>
  The binary32 format has 24 significant bits. Its normal numbers have a magnitude
  from \<open>2\<^sup>-\<^sup>1\<^sup>2\<^sup>6\<close> up to, but excluding, \<open>2\<^sup>1\<^sup>2\<^sup>8\<close>; below \<open>2\<^sup>-\<^sup>1\<^sup>2\<^sup>6\<close> the subnormal numbers
  are the multiples of \<open>2\<^sup>-\<^sup>1\<^sup>4\<^sup>9\<close>. Every operation gives the exact result rounded to
  the nearest value of the format, as IEEE-754 prescribes for \<open>+\<close>, \<open>-\<close>, \<open>*\<close>, \<open>/\<close> and
  the square root, with gradual underflow. The operands are finite numbers: NaN and
  infinite inputs are not modelled.
\<close>

definition f32_min_normal :: real where
  "f32_min_normal = 1 / 2 ^ 126"

definition f32_subnormal_step :: real where
  "f32_subnormal_step = 1 / 2 ^ 149"

definition f32_huge :: real where
  "f32_huge = 2 ^ 128"

text \<open>Rounding to the nearest integer, a tie going to the even one.\<close>

definition round_even :: "real \<Rightarrow> int" where
  "round_even t =
     (let f = \<lfloor>t\<rfloor>; r = t - of_int f in
      if r < 1 / 2 then f
      else if 1 / 2 < r then f + 1
      else if even f then f else f + 1)"

text \<open>
  The distance between two neighbouring binary32 values around \<open>v\<close>, and the value
  nearest to \<open>v\<close> on that grid. \<open>f32_rnd\<close> leaves the exponent unbounded above: a
  result whose rounded magnitude reaches \<open>2\<^sup>1\<^sup>2\<^sup>8\<close> is an overflow, which the operations
  below report.
\<close>

definition f32_ulp :: "real \<Rightarrow> real" where
  "f32_ulp v =
     (if \<bar>v\<bar> < f32_min_normal then f32_subnormal_step
      else 2 powr (of_int \<lfloor>log 2 \<bar>v\<bar>\<rfloor> - 23))"

definition f32_rnd :: "real \<Rightarrow> f32" where
  "f32_rnd v = of_int (round_even (v / f32_ulp v)) * f32_ulp v"

text \<open>
  The value of an expression that cannot be negative, a square or a sum of such: a
  finite number or \<open>+\<infinity>\<close>. \<open>f32_nonneg v\<close> is the binary32 result of an operation
  whose exact result is \<open>v\<close>.
\<close>

datatype f32_value = Finite f32 | Pos_inf

definition f32_nonneg :: "real \<Rightarrow> f32_value" where
  "f32_nonneg v = (if f32_huge \<le> f32_rnd v then Pos_inf else Finite (f32_rnd v))"

definition f32_add :: "f32_value \<Rightarrow> f32_value \<Rightarrow> f32_value" where
  "f32_add a b =
     (case a of
        Pos_inf \<Rightarrow> Pos_inf
      | Finite u \<Rightarrow> (case b of Pos_inf \<Rightarrow> Pos_inf | Finite v \<Rightarrow> f32_nonneg (u + v)))"

definition f32_gt :: "f32_value \<Rightarrow> f32 \<Rightarrow> bool" where
  "f32_gt a b = (case a of Pos_inf \<Rightarrow> True | Finite u \<Rightarrow> u > b)"

definition f32_lt :: "f32_value \<Rightarrow> f32 \<Rightarrow> bool" where
  "f32_lt a b = (case a of Pos_inf \<Rightarrow> False | Finite u \<Rightarrow> u < b)"

text \<open>
  The difference of two finite values; \<open>None\<close> when it overflows, the result then
  being an infinity.
\<close>

definition f32_sub :: "f32 \<Rightarrow> f32 \<Rightarrow> f32 option" where
  "f32_sub a b = (if f32_huge \<le> \<bar>f32_rnd (a - b)\<bar> then None else Some (f32_rnd (a - b)))"

text \<open>
  \<^verbatim>\<open>1.0f / sqrtf(mag)\<close> for a \<^verbatim>\<open>mag\<close> that is not zero: the square root is rounded,
  then the quotient. The square root of \<open>+\<infinity>\<close> is \<open>+\<infinity>\<close> and its inverse is 0.
\<close>

definition f32_inv_sqrtf :: "f32_value \<Rightarrow> f32" where
  "f32_inv_sqrtf mag = (case mag of Pos_inf \<Rightarrow> 0 | Finite m \<Rightarrow> f32_rnd (1 / f32_rnd (sqrt m)))"

section \<open>Vector kernel\<close>

text \<open>
  \<^verbatim>\<open>sqr(vec->x) + sqr(vec->y) + sqr(vec->z)\<close>: three products and two sums, each
  rounded, added from left to right.
\<close>

definition f32_squared_magnitude :: "f32 \<Rightarrow> f32 \<Rightarrow> f32 \<Rightarrow> f32_value" where
  "f32_squared_magnitude a b c =
     f32_add (f32_add (f32_nonneg (sqr a)) (f32_nonneg (sqr b))) (f32_nonneg (sqr c))"

text \<open>
  \<^verbatim>\<open>gd_normalize_vec3f\<close> changes \<^verbatim>\<open>*vec\<close> in place and returns a status: the model
  returns the status and the new vector. The division is reached only with
  \<open>mag \<noteq> 0\<close>. The source has no test for a squared magnitude that overflowed: the
  scale factor is then 0.
\<close>

definition gd_normalize_vec3f :: "GdVec3f \<Rightarrow> s32 \<times> GdVec3f" where
  "gd_normalize_vec3f vec =
     (let mag = f32_squared_magnitude (vec_x vec) (vec_y vec) (vec_z vec) in
      if mag = Finite 0 then
        (FALSE, vec\<lparr>vec_x := 0, vec_y := 0, vec_z := 0\<rparr>)
      else
        let mag = f32_inv_sqrtf mag;
            vec = vec\<lparr>vec_x := f32_rnd (vec_x vec * mag)\<rparr>;
            vec = vec\<lparr>vec_y := f32_rnd (vec_y vec * mag)\<rparr>;
            vec = vec\<lparr>vec_z := f32_rnd (vec_z vec * mag)\<rparr>
        in (TRUE, vec))"

definition gd_cross_vec3f :: "GdVec3f \<Rightarrow> GdVec3f \<Rightarrow> GdVec3f" where
  "gd_cross_vec3f a b =
     \<lparr>vec_x = vec_y a * vec_z b - vec_z a * vec_y b,
      vec_y = vec_z a * vec_x b - vec_x a * vec_z b,
      vec_z = vec_x a * vec_y b - vec_y a * vec_x b\<rparr>"

section \<open>Inverse and determinant engine\<close>

definition gd_2x2_det :: "f32 \<Rightarrow> f32 \<Rightarrow> f32 \<Rightarrow> f32 \<Rightarrow> f32" where
  "gd_2x2_det a b c d = a * d - b * c"

definition gd_3x3_det ::
  "f32 \<Rightarrow> f32 \<Rightarrow> f32 \<Rightarrow> f32 \<Rightarrow> f32 \<Rightarrow> f32 \<Rightarrow> f32 \<Rightarrow> f32 \<Rightarrow> f32 \<Rightarrow> f32" where
  "gd_3x3_det r0c0 r0c1 r0c2 r1c0 r1c1 r1c2 r2c0 r2c1 r2c2 =
     r0c0 * gd_2x2_det r1c1 r1c2 r2c1 r2c2
     - r1c0 * gd_2x2_det r0c1 r0c2 r2c1 r2c2
     + r2c0 * gd_2x2_det r0c1 r0c2 r1c1 r1c2"

text \<open>
  The sixteen assignments \<^verbatim>\<open>inv.r3.c3 = (*src)[0][0]; ... inv.r0.c0 = (*src)[3][3];\<close>
  that open both \<^verbatim>\<open>gd_adjunct_mat4f\<close> and \<^verbatim>\<open>gd_mat4f_det\<close>: element \<open>[i][j]\<close> goes
  to row \<open>3 - j\<close>, column \<open>3 - i\<close> of the local structure.
\<close>

definition load_InvMat4 :: "store \<Rightarrow> ptr \<Rightarrow> InvMat4" where
  "load_InvMat4 h src =
     \<lparr>r0 = \<lparr>c0 = h src 3 3, c1 = h src 2 3, c2 = h src 1 3, c3 = h src 0 3\<rparr>,
      r1 = \<lparr>c0 = h src 3 2, c1 = h src 2 2, c2 = h src 1 2, c3 = h src 0 2\<rparr>,
      r2 = \<lparr>c0 = h src 3 1, c1 = h src 2 1, c2 = h src 1 1, c3 = h src 0 1\<rparr>,
      r3 = \<lparr>c0 = h src 3 0, c1 = h src 2 0, c2 = h src 1 0, c3 = h src 0 0\<rparr>\<rparr>"

definition gd_adjunct_mat4f :: "ptr \<Rightarrow> ptr \<Rightarrow> store \<Rightarrow> store" where
  "gd_adjunct_mat4f src dst h =
     (let inv = load_InvMat4 h src;
        h = wr h dst 0 0 (gd_3x3_det (c2 (r2 inv)) (c1 (r2 inv)) (c0 (r2 inv)) (c2 (r1 inv)) (c1 (r1 inv)) (c0 (r1 inv)) (c2 (r0 inv)) (c1 (r0 inv)) (c0 (r0 inv)));
        h = wr h dst 1 0 (- gd_3x3_det (c2 (r3 inv)) (c1 (r3 inv)) (c0 (r3 inv)) (c2 (r1 inv)) (c1 (r1 inv)) (c0 (r1 inv)) (c2 (r0 inv)) (c1 (r0 inv)) (c0 (r0 inv)));
        h = wr h dst 2 0 (gd_3x3_det (c2 (r3 inv)) (c1 (r3 inv)) (c0 (r3 inv)) (c2 (r2 inv)) (c1 (r2 inv)) (c0 (r2 inv)) (c2 (r0 inv)) (c1 (r0 inv)) (c0 (r0 inv)));
        h = wr h dst 3 0 (- gd_3x3_det (c2 (r3 inv)) (c1 (r3 inv)) (c0 (r3 inv)) (c2 (r2 inv)) (c1 (r2 inv)) (c0 (r2 inv)) (c2 (r1 inv)) (c1 (r1 inv)) (c0 (r1 inv)));
        h = wr h dst 0 1 (- gd_3x3_det (c3 (r2 inv)) (c1 (r2 inv)) (c0 (r2 inv)) (c3 (r1 inv)) (c1 (r1 inv)) (c0 (r1 inv)) (c3 (r0 inv)) (c1 (r0 inv)) (c0 (r0 inv)));
        h = wr h dst 1 1 (gd_3x3_det (c3 (r3 inv)) (c1 (r3 inv)) (c0 (r3 inv)) (c3 (r1 inv)) (c1 (r1 inv)) (c0 (r1 inv)) (c3 (r0 inv)) (c1 (r0 inv)) (c0 (r0 inv)));
        h = wr h dst 2 1 (- gd_3x3_det (c3 (r3 inv)) (c1 (r3 inv)) (c0 (r3 inv)) (c3 (r2 inv)) (c1 (r2 inv)) (c0 (r2 inv)) (c3 (r0 inv)) (c1 (r0 inv)) (c0 (r0 inv)));
        h = wr h dst 3 1 (gd_3x3_det (c3 (r3 inv)) (c1 (r3 inv)) (c0 (r3 inv)) (c3 (r2 inv)) (c1 (r2 inv)) (c0 (r2 inv)) (c3 (r1 inv)) (c1 (r1 inv)) (c0 (r1 inv)));
        h = wr h dst 0 2 (gd_3x3_det (c3 (r2 inv)) (c2 (r2 inv)) (c0 (r2 inv)) (c3 (r1 inv)) (c2 (r1 inv)) (c0 (r1 inv)) (c3 (r0 inv)) (c2 (r0 inv)) (c0 (r0 inv)));
        h = wr h dst 1 2 (- gd_3x3_det (c3 (r3 inv)) (c2 (r3 inv)) (c0 (r3 inv)) (c3 (r1 inv)) (c2 (r1 inv)) (c0 (r1 inv)) (c3 (r0 inv)) (c2 (r0 inv)) (c0 (r0 inv)));
        h = wr h dst 2 2 (gd_3x3_det (c3 (r3 inv)) (c2 (r3 inv)) (c0 (r3 inv)) (c3 (r2 inv)) (c2 (r2 inv)) (c0 (r2 inv)) (c3 (r0 inv)) (c2 (r0 inv)) (c0 (r0 inv)));
        h = wr h dst 3 2 (- gd_3x3_det (c3 (r3 inv)) (c2 (r3 inv)) (c0 (r3 inv)) (c3 (r2 inv)) (c2 (r2 inv)) (c0 (r2 inv)) (c3 (r1 inv)) (c2 (r1 inv)) (c0 (r1 inv)));
        h = wr h dst 0 3 (- gd_3x3_det (c3 (r2 inv)) (c2 (r2 inv)) (c1 (r2 inv)) (c3 (r1 inv)) (c2 (r1 inv)) (c1 (r1 inv)) (c3 (r0 inv)) (c2 (r0 inv)) (c1 (r0 inv)));
        h = wr h dst 1 3 (gd_3x3_det (c3 (r3 inv)) (c2 (r3 inv)) (c1 (r3 inv)) (c3 (r1 inv)) (c2 (r1 inv)) (c1 (r1 inv)) (c3 (r0 inv)) (c2 (r0 inv)) (c1 (r0 inv)));
        h = wr h dst 2 3 (- gd_3x3_det (c3 (r3 inv)) (c2 (r3 inv)) (c1 (r3 inv)) (c3 (r2 inv)) (c2 (r2 inv)) (c1 (r2 inv)) (c3 (r0 inv)) (c2 (r0 inv)) (c1 (r0 inv)));
        h = wr h dst 3 3 (gd_3x3_det (c3 (r3 inv)) (c2 (r3 inv)) (c1 (r3 inv)) (c3 (r2 inv)) (c2 (r2 inv)) (c1 (r2 inv)) (c3 (r1 inv)) (c2 (r1 inv)) (c1 (r1 inv)))
      in h)"

definition gd_mat4f_det :: "ptr \<Rightarrow> store \<Rightarrow> f32" where
  "gd_mat4f_det mtx h =
     (let inv = load_InvMat4 h mtx;
          det = (c3 (r3 inv)
                   * gd_3x3_det (c2 (r2 inv)) (c1 (r2 inv)) (c0 (r2 inv))
                                (c2 (r1 inv)) (c1 (r1 inv)) (c0 (r1 inv))
                                (c2 (r0 inv)) (c1 (r0 inv)) (c0 (r0 inv))
                 - c3 (r2 inv)
                   * gd_3x3_det (c2 (r3 inv)) (c1 (r3 inv)) (c0 (r3 inv))
                                (c2 (r1 inv)) (c1 (r1 inv)) (c0 (r1 inv))
                                (c2 (r0 inv)) (c1 (r0 inv)) (c0 (r0 inv)))
                + c3 (r1 inv)
                   * gd_3x3_det (c2 (r3 inv)) (c1 (r3 inv)) (c0 (r3 inv))
                                (c2 (r2 inv)) (c1 (r2 inv)) (c0 (r2 inv))
                                (c2 (r0 inv)) (c1 (r0 inv)) (c0 (r0 inv))
                - c3 (r0 inv)
                   * gd_3x3_det (c2 (r3 inv)) (c1 (r3 inv)) (c0 (r3 inv))
                                (c2 (r2 inv)) (c1 (r2 inv)) (c0 (r2 inv))
                                (c2 (r1 inv)) (c1 (r1 inv)) (c0 (r1 inv))
      in det)"

text \<open>The loop body \<^verbatim>\<open>(*dst)[i][j] /= determinant\<close>.\<close>

definition divide_element :: "ptr \<Rightarrow> f32 \<Rightarrow> nat \<Rightarrow> nat \<Rightarrow> store \<Rightarrow> store" where
  "divide_element dst determinant i j h = wr h dst i j (h dst i j / determinant)"

text \<open>
  \<^verbatim>\<open>gd_inverse_mat4f\<close>. The comparison is with the constant \<^verbatim>\<open>1e-5\<close>. The loops are
  reached only past the fatal call, that is with \<open>1e-5 \<le> |determinant|\<close>, so the
  divisor is not zero.
\<close>

definition gd_inverse_mat4f :: "ptr \<Rightarrow> ptr \<Rightarrow> store \<Rightarrow> fatal + store" where
  "gd_inverse_mat4f src dst h =
     (let h = gd_adjunct_mat4f src dst h;
          determinant = gd_mat4f_det dst h
      in if absf determinant < 1 / 10 ^ 5 then Inl Non_singular_matrix
         else Inr (for_loop 0 4 (\<lambda>i. for_loop 0 4 (\<lambda>j. divide_element dst determinant i j)) h))"

section \<open>Matrix kernel\<close>

definition gd_set_identity_mat4 :: "ptr \<Rightarrow> store \<Rightarrow> store" where
  "gd_set_identity_mat4 mtx h =
     (let h = wr h mtx 0 0 1;
          h = wr h mtx 0 1 0;
          h = wr h mtx 0 2 0;
          h = wr h mtx 0 3 0;
          h = wr h mtx 1 0 0;
          h = wr h mtx 1 1 1;
          h = wr h mtx 1 2 0;
          h = wr h mtx 1 3 0;
          h = wr h mtx 2 0 0;
          h = wr h mtx 2 1 0;
          h = wr h mtx 2 2 1;
          h = wr h mtx 2 3 0;
          h = wr h mtx 3 0 0;
          h = wr h mtx 3 1 0;
          h = wr h mtx 3 2 0;
          h = wr h mtx 3 3 1
      in h)"

text \<open>The assignment \<^verbatim>\<open>(*dst)[i][j] = (*src)[a][b]\<close>.\<close>

definition assign_element :: "ptr \<Rightarrow> nat \<Rightarrow> nat \<Rightarrow> ptr \<Rightarrow> nat \<Rightarrow> nat \<Rightarrow> store \<Rightarrow> store" where
  "assign_element dst i j src a b h = wr h dst i j (h src a b)"

definition gd_copy_mat4f :: "ptr \<Rightarrow> ptr \<Rightarrow> store \<Rightarrow> store" where
  "gd_copy_mat4f src dst h =
     (let h = assign_element dst 0 0 src 0 0 h;
          h = assign_element dst 0 1 src 0 1 h;
          h = assign_element dst 0 2 src 0 2 h;
          h = assign_element dst 0 3 src 0 3 h;
          h = assign_element dst 1 0 src 1 0 h;
          h = assign_element dst 1 1 src 1 1 h;
          h = assign_element dst 1 2 src 1 2 h;
          h = assign_element dst 1 3 src 1 3 h;
          h = assign_element dst 2 0 src 2 0 h;
          h = assign_element dst 2 1 src 2 1 h;
          h = assign_element dst 2 2 src 2 2 h;
          h = assign_element dst 2 3 src 2 3 h;
          h = assign_element dst 3 0 src 3 0 h;
          h = assign_element dst 3 1 src 3 1 h;
          h = assign_element dst 3 2 src 3 2 h;
          h = assign_element dst 3 3 src 3 3 h
      in h)"

text \<open>
  The macro \<^verbatim>\<open>GD_MAT4_DOT_PROD(A, B, R, row, col)\<close>: one assignment and three
  \<^verbatim>\<open>+=\<close>, each reading \<^verbatim>\<open>A\<close>, \<^verbatim>\<open>B\<close> and \<^verbatim>\<open>R\<close> from memory.
\<close>

definition GD_MAT4_DOT_PROD :: "ptr \<Rightarrow> ptr \<Rightarrow> ptr \<Rightarrow> nat \<Rightarrow> nat \<Rightarrow> store \<Rightarrow> store" where
  "GD_MAT4_DOT_PROD A B R row col h =
     (let h = wr h R row col (h A row 0 * h B 0 col);
          h = wr h R row col (h R row col + h A row 1 * h B 1 col);
          h = wr h R row col (h R row col + h A row 2 * h B 2 col);
          h = wr h R row col (h R row col + h A row 3 * h B 3 col)
      in h)"

definition GD_MAT4_MULTIPLY :: "ptr \<Rightarrow> ptr \<Rightarrow> ptr \<Rightarrow> store \<Rightarrow> store" where
  "GD_MAT4_MULTIPLY A B R h =
     (let h = GD_MAT4_DOT_PROD A B R 0 0 h;
          h = GD_MAT4_DOT_PROD A B R 0 1 h;
          h = GD_MAT4_DOT_PROD A B R 0 2 h;
          h = GD_MAT4_DOT_PROD A B R 0 3 h;
          h = GD_MAT4_DOT_PROD A B R 1 0 h;
          h = GD_MAT4_DOT_PROD A B R 1 1 h;
          h = GD_MAT4_DOT_PROD A B R 1 2 h;
          h = GD_MAT4_DOT_PROD A B R 1 3 h;
          h = GD_MAT4_DOT_PROD A B R 2 0 h;
          h = GD_MAT4_DOT_PROD A B R 2 1 h;
          h = GD_MAT4_DOT_PROD A B R 2 2 h;
          h = GD_MAT4_DOT_PROD A B R 2 3 h;
          h = GD_MAT4_DOT_PROD A B R 3 0 h;
          h = GD_MAT4_DOT_PROD A B R 3 1 h;
          h = GD_MAT4_DOT_PROD A B R 3 2 h;
          h = GD_MAT4_DOT_PROD A B R 3 3 h
      in h)"

text \<open>\<^verbatim>\<open>gd_mult_mat4f\<close>: the product goes to the local \<^verbatim>\<open>res\<close>, then to \<^verbatim>\<open>dst\<close>.\<close>

definition gd_mult_mat4f :: "ptr \<Rightarrow> ptr \<Rightarrow> ptr \<Rightarrow> store \<Rightarrow> store" where
  "gd_mult_mat4f mA mB dst h =
     (let h = GD_MAT4_MULTIPLY mA mB Local_res h;
          h = gd_copy_mat4f Local_res dst h
      in h)"

text \<open>
  \<^verbatim>\<open>gd_shift_mat_up\<close>. The local array \<^verbatim>\<open>temp\<close> is written at 0, 1, 2 before it is
  read there, so its contents at entry (here zeros) do not reach the result.
\<close>

definition gd_shift_mat_up :: "ptr \<Rightarrow> store \<Rightarrow> store" where
  "gd_shift_mat_up mtx h =
     (let temp = for_loop 0 3 (\<lambda>i temp. temp(i := h mtx 0 (i + 1))) (\<lambda>_. 0);
          h = for_loop 1 4 (\<lambda>i. for_loop 1 4 (\<lambda>j. assign_element mtx (i - 1) (j - 1) mtx i j)) h;
          h = wr h mtx 0 3 0;
          h = wr h mtx 1 3 0;
          h = wr h mtx 2 3 0;
          h = wr h mtx 3 3 1;
          h = for_loop 0 3 (\<lambda>i h. wr h mtx 3 i (temp i)) h
      in h)"

section \<open>Rotation and orientation builders\<close>

text \<open>
  \<^verbatim>\<open>gd_create_quat_rot_mat\<close>. The array \<^verbatim>\<open>quat\<close> is only read; the parameter
  \<^verbatim>\<open>unused\<close> is left out.
\<close>

definition quat_rot_body :: "(nat \<Rightarrow> f32) \<Rightarrow> (nat \<Rightarrow> f32) \<Rightarrow> ptr \<Rightarrow> nat \<Rightarrow> store \<Rightarrow> store" where
  "quat_rot_body quat sqQuat mtx i h =
     (let j = i + 1;
          j = (if j \<ge> 4 then 1 else j);
          k = j + 1;
          k = (if k \<ge> 4 then 1 else k);
          twoIJ = 2 * quat i * quat j;
          two0K = 2 * quat k * quat 0;
          h = wr h mtx j i (twoIJ - two0K);
          h = wr h mtx i j (twoIJ + two0K);
          h = wr h mtx i i (sqQuat i + sqQuat 0 - sqQuat j - sqQuat k);
          h = wr h mtx i 0 0
      in h)"

definition gd_create_quat_rot_mat :: "(nat \<Rightarrow> f32) \<Rightarrow> ptr \<Rightarrow> store \<Rightarrow> store" where
  "gd_create_quat_rot_mat quat mtx h =
     (let sqQuat = for_loop 0 4 (\<lambda>i sqQuat. sqQuat(i := sqr (quat i))) (\<lambda>_. 0);
          h = for_loop 1 4 (quat_rot_body quat sqQuat mtx) h;
          h = wr h mtx 0 0 1;
          h = gd_shift_mat_up mtx h
      in h)"

definition gd_create_rot_matrix :: "ptr \<Rightarrow> GdVec3f \<Rightarrow> f32 \<Rightarrow> f32 \<Rightarrow> store \<Rightarrow> store" where
  "gd_create_rot_matrix mtx vec s c h =
     (let rev = \<lparr>vec_x = vec_z vec, vec_y = vec_y vec, vec_z = vec_x vec\<rparr>;
          oneMinusCos = 1 - c;
          omcYX = oneMinusCos * vec_y rev * vec_x rev;
          omcZX = oneMinusCos * vec_z rev * vec_x rev;
          omcZY = oneMinusCos * vec_z rev * vec_y rev;
          h = wr h mtx 0 0 (oneMinusCos * sqr (vec_z rev) + c);
          h = wr h mtx 1 1 (oneMinusCos * sqr (vec_y rev) + c);
          h = wr h mtx 2 2 (oneMinusCos * sqr (vec_x rev) + c);
          rev = rev\<lparr>vec_x := vec_x rev * s\<rparr>;
          rev = rev\<lparr>vec_y := vec_y rev * s\<rparr>;
          rev = rev\<lparr>vec_z := vec_z rev * s\<rparr>;
          h = wr h mtx 0 1 (omcZY + vec_x rev);
          h = wr h mtx 0 2 (omcZX - vec_y rev);
          h = wr h mtx 1 0 (omcZY - vec_x rev);
          h = wr h mtx 1 2 (omcYX + vec_z rev);
          h = wr h mtx 2 0 (omcZX + vec_y rev);
          h = wr h mtx 2 1 (omcYX - vec_z rev);
          h = wr h mtx 0 3 0;
          h = wr h mtx 1 3 0;
          h = wr h mtx 2 3 0;
          h = wr h mtx 3 0 0;
          h = wr h mtx 3 1 0;
          h = wr h mtx 3 2 0;
          h = wr h mtx 3 3 1
      in h)"

definition gd_create_rot_mat_angular ::
  "angle_adapter \<Rightarrow> ptr \<Rightarrow> GdVec3f \<Rightarrow> f32 \<Rightarrow> store \<Rightarrow> store" where
  "gd_create_rot_mat_angular T mtx vec deg h =
     (let ang = degrees_to_angle T (deg * 2) in
      gd_create_rot_matrix mtx vec (sins T ang) (coss T ang) h)"

text \<open>
  \<^verbatim>\<open>gd_absrot_mat4\<close>. The \<^verbatim>\<open>switch\<close> either fills the local \<^verbatim>\<open>rot\<close> or, in its
  \<^verbatim>\<open>default\<close> case, calls \<^verbatim>\<open>fatal_printf\<close>.
\<close>

definition absrot_axis :: "axis_enum \<Rightarrow> s32 \<Rightarrow> fatal + GdVec3f" where
  "absrot_axis E axisnum =
     (if axisnum = GD_X_AXIS E then Inr \<lparr>vec_x = 1, vec_y = 0, vec_z = 0\<rparr>
      else if axisnum = GD_Y_AXIS E then Inr \<lparr>vec_x = 0, vec_y = 1, vec_z = 0\<rparr>
      else if axisnum = GD_Z_AXIS E then Inr \<lparr>vec_x = 0, vec_y = 0, vec_z = 1\<rparr>
      else Inl Bad_axis_num)"

definition gd_absrot_mat4 ::
  "angle_adapter \<Rightarrow> axis_enum \<Rightarrow> ptr \<Rightarrow> s32 \<Rightarrow> f32 \<Rightarrow> store \<Rightarrow> fatal + store" where
  "gd_absrot_mat4 T E mtx axisnum ang h =
     (case absrot_axis E axisnum of
        Inl e \<Rightarrow> Inl e
      | Inr rot \<Rightarrow>
          let h = gd_create_rot_mat_angular T Local_rMat rot (ang / 2) h;
              h = gd_mult_mat4f mtx Local_rMat mtx h
          in Inr h)"

section \<open>Look-at builders\<close>

text \<open>
  The first three statements of \<^verbatim>\<open>gd_mat4f_lookat\<close>: the raw direction \<^verbatim>\<open>d\<close>. A
  difference that overflows leaves an infinite component, from which the source
  computes NaN: the model has \<open>None\<close> there.
\<close>

definition lookat_raw_direction :: "f32 \<Rightarrow> f32 \<Rightarrow> f32 \<Rightarrow> f32 \<Rightarrow> f32 \<Rightarrow> f32 \<Rightarrow> GdVec3f option" where
  "lookat_raw_direction xFrom yFrom zFrom xTo yTo zTo =
     (case f32_sub xTo xFrom of
        None \<Rightarrow> None
      | Some dz \<Rightarrow>
     (case f32_sub yTo yFrom of
        None \<Rightarrow> None
      | Some dy \<Rightarrow>
     (case f32_sub zTo zFrom of
        None \<Rightarrow> None
      | Some dx \<Rightarrow> Some \<lparr>vec_x = dx, vec_y = dy, vec_z = dz\<rparr>)))"

text \<open>\<^verbatim>\<open>absf(d.z) + absf(d.y) + absf(d.x)\<close>, the first value of \<^verbatim>\<open>invLength\<close>.\<close>

definition lookat_abs_sum :: "GdVec3f \<Rightarrow> f32_value" where
  "lookat_abs_sum d =
     f32_add (f32_add (Finite (absf (vec_z d))) (Finite (absf (vec_y d)))) (Finite (absf (vec_x d)))"

text \<open>
  The statements of \<^verbatim>\<open>gd_mat4f_lookat\<close> up to the end of its first \<^verbatim>\<open>if\<close>: the
  direction \<^verbatim>\<open>d\<close> as it stands before the unit forward axis is computed.
\<close>

definition lookat_direction :: "f32 \<Rightarrow> f32 \<Rightarrow> f32 \<Rightarrow> f32 \<Rightarrow> f32 \<Rightarrow> f32 \<Rightarrow> GdVec3f option" where
  "lookat_direction xFrom yFrom zFrom xTo yTo zTo =
     (case lookat_raw_direction xFrom yFrom zFrom xTo yTo zTo of
        None \<Rightarrow> None
      | Some d \<Rightarrow>
          let invLength = lookat_abs_sum d
          in if f32_gt invLength 10000 \<or> f32_lt invLength 10 then
               let d = snd (gd_normalize_vec3f d);
                   d = d\<lparr>vec_x := f32_rnd (vec_x d * 10000)\<rparr>;
                   d = d\<lparr>vec_y := f32_rnd (vec_y d * 10000)\<rparr>;
                   d = d\<lparr>vec_z := f32_rnd (vec_z d * 10000)\<rparr>
               in Some d
             else Some d)"

text \<open>
  \<^verbatim>\<open>1.0f / sqrtf(v)\<close> in exact arithmetic, where the source has no test before it: no
  real number is the result when \<open>sqrtf(v)\<close> is zero.
\<close>

definition inv_sqrtf :: "f32 \<Rightarrow> f32 option" where
  "inv_sqrtf v = (if sqrt v = 0 then None else Some (1 / sqrt v))"

text \<open>
  The unit forward axis is computed in binary32 arithmetic from the direction, and
  stored as the third column without another operation. The two other axes and the
  translation row are computed from it in exact arithmetic.
\<close>

definition gd_mat4f_lookat ::
  "ptr \<Rightarrow> f32 \<Rightarrow> f32 \<Rightarrow> f32 \<Rightarrow> f32 \<Rightarrow> f32 \<Rightarrow> f32 \<Rightarrow> f32 \<Rightarrow> f32 \<Rightarrow> f32 \<Rightarrow> store \<Rightarrow> store option" where
  "gd_mat4f_lookat mtx xFrom yFrom zFrom xTo yTo zTo zColY yColY xColY h =
     (case lookat_direction xFrom yFrom zFrom xTo yTo zTo of
        None \<Rightarrow> None
      | Some d \<Rightarrow>
     (let mag = f32_squared_magnitude (vec_z d) (vec_y d) (vec_x d) in
      if mag = Finite 0 then None
      else
     (let invLength = - f32_inv_sqrtf mag;
          d = d\<lparr>vec_z := f32_rnd (vec_z d * invLength)\<rparr>;
          d = d\<lparr>vec_y := f32_rnd (vec_y d * invLength)\<rparr>;
          d = d\<lparr>vec_x := f32_rnd (vec_x d * invLength)\<rparr>;
          colX = \<lparr>vec_x = zColY * vec_y d - yColY * vec_z d,
                  vec_y = xColY * vec_z d - zColY * vec_x d,
                  vec_z = yColY * vec_x d - xColY * vec_y d\<rparr>
      in
     (case inv_sqrtf (sqr (vec_z colX) + sqr (vec_y colX) + sqr (vec_x colX)) of
        None \<Rightarrow> None
      | Some invLength \<Rightarrow>
     (let colX = colX\<lparr>vec_z := vec_z colX * invLength\<rparr>;
          colX = colX\<lparr>vec_y := vec_y colX * invLength\<rparr>;
          colX = colX\<lparr>vec_x := vec_x colX * invLength\<rparr>;
          zColY = vec_y d * vec_x colX - vec_x d * vec_y colX;
          yColY = vec_x d * vec_z colX - vec_z d * vec_x colX;
          xColY = vec_z d * vec_y colX - vec_y d * vec_z colX
      in
     (case inv_sqrtf (sqr zColY + sqr yColY + sqr xColY) of
        None \<Rightarrow> None
      | Some invLength \<Rightarrow>
     (let zColY = zColY * invLength;
          yColY = yColY * invLength;
          xColY = xColY * invLength;
          h = wr h mtx 0 0 (vec_z colX);
          h = wr h mtx 1 0 (vec_y colX);
          h = wr h mtx 2 0 (vec_x colX);
          h = wr h mtx 3 0 (- (xFrom * vec_z colX + yFrom * vec_y colX + zFrom * vec_x colX));
          h = wr h mtx 0 1 zColY;
          h = wr h mtx 1 1 yColY;
          h = wr h mtx 2 1 xColY;
          h = wr h mtx 3 1 (- (xFrom * zColY + yFrom * yColY + zFrom * xColY));
          h = wr h mtx 0 2 (vec_z d);
          h = wr h mtx 1 2 (vec_y d);
          h = wr h mtx 2 2 (vec_x d);
          h = wr h mtx 3 2 (- (xFrom * vec_z d + yFrom * vec_y d + zFrom * vec_x d));
          h = wr h mtx 0 3 0;
          h = wr h mtx 1 3 0;
          h = wr h mtx 2 3 0;
          h = wr h mtx 3 3 1
      in Some h)))))))"

text \<open>
  The horizontal magnitude \<^verbatim>\<open>hMag\<close> of \<^verbatim>\<open>gd_create_origin_lookat\<close>, computed from
  the normalised copy \<^verbatim>\<open>unit\<close> of \<^verbatim>\<open>*vec\<close>.
\<close>

definition origin_lookat_unit :: "GdVec3f \<Rightarrow> GdVec3f" where
  "origin_lookat_unit vec =
     (let unit = \<lparr>vec_x = vec_x vec, vec_y = vec_y vec, vec_z = vec_z vec\<rparr>
      in snd (gd_normalize_vec3f unit))"

definition origin_lookat_hMag :: "GdVec3f \<Rightarrow> f32" where
  "origin_lookat_hMag vec =
     (let unit = origin_lookat_unit vec in sqrt (sqr (vec_x unit) + sqr (vec_z unit)))"

definition gd_create_origin_lookat :: "ptr \<Rightarrow> GdVec3f \<Rightarrow> store \<Rightarrow> store" where
  "gd_create_origin_lookat mtx vec h =
     (let unit = origin_lookat_unit vec;
          hMag = origin_lookat_hMag vec;
          h = gd_set_identity_mat4 mtx h
      in if hMag \<noteq> 0 then
           let invertedHMag = 1 / hMag;
               units = vec_y unit * vec_x unit;
               h = wr h mtx 0 0 (- vec_z unit * invertedHMag);
               h = wr h mtx 1 0 (- units * invertedHMag);
               h = wr h mtx 2 0 (- vec_x unit);
               h = wr h mtx 3 0 0;
               h = wr h mtx 0 1 0;
               h = wr h mtx 1 1 hMag;
               h = wr h mtx 2 1 (- vec_y unit);
               h = wr h mtx 3 1 0;
               units = vec_y unit * vec_z unit;
               h = wr h mtx 0 2 (vec_x unit * invertedHMag);
               h = wr h mtx 1 2 (- units * invertedHMag);
               h = wr h mtx 2 2 (- vec_z unit);
               h = wr h mtx 3 2 0;
               h = wr h mtx 0 3 0;
               h = wr h mtx 1 3 0;
               h = wr h mtx 2 3 0;
               h = wr h mtx 3 3 1
           in h
         else
           let h = wr h mtx 0 0 0;
               h = wr h mtx 1 0 1;
               h = wr h mtx 2 0 0;
               h = wr h mtx 3 0 0;
               h = wr h mtx 0 1 0;
               h = wr h mtx 1 1 0;
               h = wr h mtx 2 1 1;
               h = wr h mtx 3 1 0;
               h = wr h mtx 0 2 1;
               h = wr h mtx 1 2 0;
               h = wr h mtx 2 2 0;
               h = wr h mtx 3 2 0;
               h = wr h mtx 0 3 0;
               h = wr h mtx 1 3 0;
               h = wr h mtx 2 3 0;
               h = wr h mtx 3 3 1
           in h)"

section \<open>Reference definitions\<close>

text \<open>
  The definitions of this section do not come from the source. They write down the
  mathematical objects that the specification names, so that the functions above can
  be compared with them.
\<close>

text \<open>
  The specification's product: "standard 4\<times>4 product \<open>dst = a\<cdot>b\<close> using a row/column
  dot product over 4 terms each", on matrices given as four rows of four elements.
\<close>

definition mat_mul :: "f32 list list \<Rightarrow> f32 list list \<Rightarrow> f32 list list" where
  "mat_mul a b =
     map (\<lambda>i. map (\<lambda>j. a ! i ! 0 * b ! 0 ! j + a ! i ! 1 * b ! 1 ! j
                          + a ! i ! 2 * b ! 2 ! j + a ! i ! 3 * b ! 3 ! j) [0, 1, 2, 3])
       [0, 1, 2, 3]"

text \<open>The specification's identity: "diagonal of 1s, else 0".\<close>

definition identity_rows :: "f32 list list" where
  "identity_rows = [[1, 0, 0, 0], [0, 1, 0, 0], [0, 0, 1, 0], [0, 0, 0, 1]]"

text \<open>
  The row shift as the specification words it: "cyclically moves row 0's first three
  components to become the new row 3, shifting rows 1..3 up by one position; resets
  the last column to \<open>(0,0,0,1)\<close>".
\<close>

definition shift_rows_up :: "f32 list list \<Rightarrow> f32 list list" where
  "shift_rows_up m =
     [[m ! 1 ! 0, m ! 1 ! 1, m ! 1 ! 2, 0],
      [m ! 2 ! 0, m ! 2 ! 1, m ! 2 ! 2, 0],
      [m ! 3 ! 0, m ! 3 ! 1, m ! 3 ! 2, 0],
      [m ! 0 ! 0, m ! 0 ! 1, m ! 0 ! 2, 1]]"

text \<open>The upper-left 3\<times>3 block of the matrix at \<open>p\<close>.\<close>

definition block3 :: "store \<Rightarrow> ptr \<Rightarrow> f32 list list" where
  "block3 h p =
     [[h p 0 0, h p 0 1, h p 0 2],
      [h p 1 0, h p 1 1, h p 1 2],
      [h p 2 0, h p 2 1, h p 2 2]]"

text \<open>
  The specification's closed form \<open>R = (1-c)\<cdot>axis\<cdot>axis\<^sup>t + c\<cdot>I + s\<cdot>[axis]\<^sub>\<times>\<close>, where
  \<open>[axis]\<^sub>\<times>\<close> is the cross-product matrix: \<open>[a]\<^sub>\<times> v = a \<times> v\<close>.
\<close>

definition vec_comp :: "GdVec3f \<Rightarrow> nat \<Rightarrow> f32" where
  "vec_comp v i = (if i = 0 then vec_x v else if i = 1 then vec_y v else vec_z v)"

definition cross_matrix :: "GdVec3f \<Rightarrow> f32 list list" where
  "cross_matrix a =
     [[0, - vec_z a, vec_y a],
      [vec_z a, 0, - vec_x a],
      [- vec_y a, vec_x a, 0]]"

definition rodrigues :: "GdVec3f \<Rightarrow> f32 \<Rightarrow> f32 \<Rightarrow> f32 list list" where
  "rodrigues axis s c =
     map (\<lambda>i. map (\<lambda>j. (1 - c) * (vec_comp axis i * vec_comp axis j)
                          + c * (if i = j then 1 else 0)
                          + s * (cross_matrix axis ! i ! j)) [0, 1, 2])
       [0, 1, 2]"

definition transpose3 :: "f32 list list \<Rightarrow> f32 list list" where
  "transpose3 m = map (\<lambda>i. map (\<lambda>j. m ! j ! i) [0, 1, 2]) [0, 1, 2]"

text \<open>
  The specification's magnitude of a vector, \<open>sqrt(x\<^sup>2+y\<^sup>2+z\<^sup>2)\<close>, as a real number:
  the measure of what the binary32 code has computed.
\<close>

definition euclidean_norm :: "GdVec3f \<Rightarrow> real" where
  "euclidean_norm v = sqrt (vec_x v * vec_x v + vec_y v * vec_y v + vec_z v * vec_z v)"

section \<open>Concrete inputs\<close>

text \<open>A store in which every matrix is \<open>k\<close> times the identity.\<close>

definition scaled_identity :: "f32 \<Rightarrow> store" where
  "scaled_identity k = (\<lambda>p i j. if i = j then k else 0)"

text \<open>A store in which every matrix is all zeros.\<close>

definition zero_store :: store where
  "zero_store = (\<lambda>p i j. 0)"

text \<open>A store in which every matrix has the sixteen distinct elements \<open>4 i + j\<close>.\<close>

definition counting_store :: store where
  "counting_store = (\<lambda>p i j. 4 * real i + real j)"

text \<open>The unit quaternion \<open>[1, 0, 0, 0]\<close>.\<close>

definition unit_quat :: "nat \<Rightarrow> f32" where
  "unit_quat i = (if i = 0 then 1 else 0)"

text \<open>An angle adapter whose native angle is the degree, and the axis selectors 0, 1, 2.\<close>

definition degree_adapter :: angle_adapter where
  "degree_adapter =
     \<lparr>degrees_to_angle = (\<lambda>deg. deg),
      sins = (\<lambda>a. sin (a * pi / 180)),
      coss = (\<lambda>a. cos (a * pi / 180))\<rparr>"

definition axes_012 :: axis_enum where
  "axes_012 = \<lparr>GD_X_AXIS = 0, GD_Y_AXIS = 1, GD_Z_AXIS = 2\<rparr>"

section \<open>Reading the store after a function\<close>

lemma wr_apply [simp]:
  "wr h p i j v q a b = (if q = p \<and> a = i \<and> b = j then v else h q a b)"
  by (simp add: wr_def)

lemma divide_element_apply [simp]:
  "divide_element dst d i j h q a b =
     (if q = dst \<and> a = i \<and> b = j then h dst i j / d else h q a b)"
  by (simp add: divide_element_def)

lemma assign_element_apply [simp]:
  "assign_element dst i j src a b h q a' b' =
     (if q = dst \<and> a' = i \<and> b' = j then h src a b else h q a' b')"
  by (simp add: assign_element_def)

lemma mat4_cong: "h p = h' q \<Longrightarrow> mat4 h p = mat4 h' q"
  by (simp add: mat4_def)

text \<open>The loops of the source have constant bounds: they unroll.\<close>

lemma for_loop_0_4: "for_loop 0 4 body s = body 3 (body 2 (body 1 (body 0 s)))"
  by (simp add: for_loop.simps numeral_2_eq_2 numeral_3_eq_3)

lemma for_loop_1_4:
  "for_loop 1 4 body s = body 3 (body 2 (body 1 s))"
  "for_loop (Suc 0) 4 body s = body 3 (body 2 (body 1 s))"
  by (simp_all add: for_loop.simps numeral_2_eq_2 numeral_3_eq_3)

lemma for_loop_0_3: "for_loop 0 3 body s = body 2 (body 1 (body 0 s))"
  by (simp add: for_loop.simps numeral_2_eq_2 numeral_3_eq_3)

lemmas nat_lits = numeral_2_eq_2 [symmetric] numeral_3_eq_3 [symmetric]

subsection \<open>Adjugate, determinant, inverse\<close>

lemma adjunct_alias: "mat4 (gd_adjunct_mat4f p p h) p = mat4 (gd_adjunct_mat4f p q h) q"
  by (simp add: gd_adjunct_mat4f_def mat4_def Let_def)

text \<open>
  The matrix written by \<^verbatim>\<open>gd_adjunct_mat4f\<close> is the adjugate of the source, and
  \<^verbatim>\<open>gd_mat4f_det\<close> its determinant: \<open>M \<cdot> adj M = det M \<cdot> I\<close>.
\<close>

lemma adjunct_is_adjugate:
  "mat_mul (mat4 h src) (mat4 (gd_adjunct_mat4f src dst h) dst)
     = map (map (\<lambda>v. gd_mat4f_det src h * v)) identity_rows"
  by (simp add: mat_mul_def mat4_def gd_adjunct_mat4f_def gd_mat4f_det_def load_InvMat4_def
      identity_rows_def gd_3x3_det_def gd_2x2_det_def Let_def algebra_simps)

lemma adjunct_frame: "q \<noteq> dst \<Longrightarrow> gd_adjunct_mat4f src dst h q = h q"
  by (simp add: gd_adjunct_mat4f_def Let_def fun_eq_iff)

lemma det_mat4_cong: "mat4 h p = mat4 h' q \<Longrightarrow> gd_mat4f_det p h = gd_mat4f_det q h'"
  by (simp add: mat4_def gd_mat4f_det_def load_InvMat4_def)

lemma inverse_loop_mat4:
  "mat4 (for_loop 0 4 (\<lambda>i. for_loop 0 4 (\<lambda>j. divide_element dst d i j)) h) dst
     = map (map (\<lambda>v. v / d)) (mat4 h dst)"
  by (simp add: for_loop_0_4 mat4_def)

lemma inverse_loop_frame:
  "p \<noteq> dst \<Longrightarrow> for_loop 0 4 (\<lambda>i. for_loop 0 4 (\<lambda>j. divide_element dst d i j)) h p = h p"
  by (simp add: for_loop_0_4 fun_eq_iff)

lemma scaled_identity_mat4:
  "mat4 (scaled_identity k) p = [[k, 0, 0, 0], [0, k, 0, 0], [0, 0, k, 0], [0, 0, 0, k]]"
  by (simp add: mat4_def scaled_identity_def)

lemma scaled_identity_det: "gd_mat4f_det p (scaled_identity k) = k * k * k * k"
  by (simp add: gd_mat4f_det_def load_InvMat4_def scaled_identity_def gd_3x3_det_def
      gd_2x2_det_def)

lemma scaled_identity_adjunct:
  "mat4 (gd_adjunct_mat4f src dst (scaled_identity k)) dst = mat4 (scaled_identity (k * k * k)) dst"
  by (simp add: gd_adjunct_mat4f_def mat4_def Let_def load_InvMat4_def scaled_identity_def
      gd_3x3_det_def gd_2x2_det_def)

lemma scaled_identity_adjunct_det:
  "gd_mat4f_det dst (gd_adjunct_mat4f src dst (scaled_identity k))
     = (k * k * k) * (k * k * k) * (k * k * k) * (k * k * k)"
  by (simp only: det_mat4_cong [OF scaled_identity_adjunct] scaled_identity_det)

subsection \<open>Product and copy\<close>

lemma dot_prod_apply:
  "R \<noteq> A \<Longrightarrow> R \<noteq> B \<Longrightarrow>
   GD_MAT4_DOT_PROD A B R row col h q a b =
     (if q = R \<and> a = row \<and> b = col
      then h A row 0 * h B 0 col + h A row 1 * h B 1 col
           + h A row 2 * h B 2 col + h A row 3 * h B 3 col
      else h q a b)"
  by (simp add: GD_MAT4_DOT_PROD_def Let_def)

lemma multiply_mat4:
  "R \<noteq> A \<Longrightarrow> R \<noteq> B \<Longrightarrow> mat4 (GD_MAT4_MULTIPLY A B R h) R = mat_mul (mat4 h A) (mat4 h B)"
  by (simp add: GD_MAT4_MULTIPLY_def Let_def dot_prod_apply mat4_def mat_mul_def)

lemma multiply_frame:
  "R \<noteq> A \<Longrightarrow> R \<noteq> B \<Longrightarrow> q \<noteq> R \<Longrightarrow> GD_MAT4_MULTIPLY A B R h q = h q"
  by (simp add: GD_MAT4_MULTIPLY_def Let_def dot_prod_apply fun_eq_iff)

lemma copy_mat4: "mat4 (gd_copy_mat4f src dst h) dst = mat4 h src"
  by (cases "src = dst") (simp_all add: gd_copy_mat4f_def Let_def mat4_def)

lemma copy_frame: "q \<noteq> dst \<Longrightarrow> gd_copy_mat4f src dst h q = h q"
  by (simp add: gd_copy_mat4f_def Let_def fun_eq_iff)

lemma mult_mat4:
  "mA \<noteq> Local_res \<Longrightarrow> mB \<noteq> Local_res \<Longrightarrow>
   mat4 (gd_mult_mat4f mA mB dst h) dst = mat_mul (mat4 h mA) (mat4 h mB)"
  by (simp add: gd_mult_mat4f_def Let_def copy_mat4 multiply_mat4)

lemma mult_frame:
  "mA \<noteq> Local_res \<Longrightarrow> mB \<noteq> Local_res \<Longrightarrow> q \<noteq> Local_res \<Longrightarrow> q \<noteq> dst \<Longrightarrow>
   gd_mult_mat4f mA mB dst h q = h q"
  by (simp add: gd_mult_mat4f_def Let_def copy_frame multiply_frame)

subsection \<open>Rotation builders\<close>

lemma rot_matrix_frame: "q \<noteq> mtx \<Longrightarrow> gd_create_rot_matrix mtx vec s c h q = h q"
  by (simp add: gd_create_rot_matrix_def Let_def fun_eq_iff)

lemma rot_matrix_mat4:
  "mat4 (gd_create_rot_matrix mtx vec s c h) mtx =
     [[(1 - c) * sqr (vec_x vec) + c, (1 - c) * vec_x vec * vec_y vec + vec_z vec * s,
       (1 - c) * vec_x vec * vec_z vec - vec_y vec * s, 0],
      [(1 - c) * vec_x vec * vec_y vec - vec_z vec * s, (1 - c) * sqr (vec_y vec) + c,
       (1 - c) * vec_y vec * vec_z vec + vec_x vec * s, 0],
      [(1 - c) * vec_x vec * vec_z vec + vec_y vec * s,
       (1 - c) * vec_y vec * vec_z vec - vec_x vec * s, (1 - c) * sqr (vec_z vec) + c, 0],
      [0, 0, 0, 1]]"
  by (simp add: gd_create_rot_matrix_def Let_def mat4_def)

lemma rot_matrix_block3:
  "block3 (gd_create_rot_matrix mtx vec s c h) mtx = transpose3 (rodrigues vec s c)"
  by (simp add: gd_create_rot_matrix_def Let_def block3_def transpose3_def rodrigues_def
      vec_comp_def cross_matrix_def sqr_def algebra_simps)

text \<open>The reference cross-product matrix agrees with \<^verbatim>\<open>gd_cross_vec3f\<close>.\<close>

lemma cross_matrix_is_cross:
  "map (\<lambda>i. cross_matrix a ! i ! 0 * vec_x v + cross_matrix a ! i ! 1 * vec_y v
              + cross_matrix a ! i ! 2 * vec_z v) [0, 1, 2]
   = [vec_x (gd_cross_vec3f a v), vec_y (gd_cross_vec3f a v), vec_z (gd_cross_vec3f a v)]"
  by (simp add: cross_matrix_def gd_cross_vec3f_def)

lemma rot_mat_angular_quarter_x:
  "mat4 (gd_create_rot_mat_angular degree_adapter mtx \<lparr>vec_x = 1, vec_y = 0, vec_z = 0\<rparr> (90 / 2) h) mtx
     = [[1, 0, 0, 0], [0, 0, 1, 0], [0, - 1, 0, 0], [0, 0, 0, 1]]"
  by (simp add: gd_create_rot_mat_angular_def Let_def degree_adapter_def rot_matrix_mat4 sqr_def)

lemma absrot_axis_cases:
  assumes "distinct [GD_X_AXIS E, GD_Y_AXIS E, GD_Z_AXIS E]"
  shows "axisnum = GD_X_AXIS E \<Longrightarrow> absrot_axis E axisnum = Inr \<lparr>vec_x = 1, vec_y = 0, vec_z = 0\<rparr>"
    and "axisnum = GD_Y_AXIS E \<Longrightarrow> absrot_axis E axisnum = Inr \<lparr>vec_x = 0, vec_y = 1, vec_z = 0\<rparr>"
    and "axisnum = GD_Z_AXIS E \<Longrightarrow> absrot_axis E axisnum = Inr \<lparr>vec_x = 0, vec_y = 0, vec_z = 1\<rparr>"
  using assms by (auto simp: absrot_axis_def)

lemma absrot_fatal:
  "axisnum \<noteq> GD_X_AXIS E \<Longrightarrow> axisnum \<noteq> GD_Y_AXIS E \<Longrightarrow> axisnum \<noteq> GD_Z_AXIS E \<Longrightarrow>
   gd_absrot_mat4 T E mtx axisnum ang h = Inl Bad_axis_num"
  by (simp add: gd_absrot_mat4_def absrot_axis_def)

lemma rot_mat_angular_any_buffer:
  "mat4 (gd_create_rot_mat_angular T p rot deg h) p = mat4 (gd_create_rot_mat_angular T q rot deg g) q"
  by (simp add: gd_create_rot_mat_angular_def Let_def rot_matrix_mat4)

lemma absrot_ok:
  assumes "absrot_axis E axisnum = Inr rot"
  shows "\<exists>h'. gd_absrot_mat4 T E (Buf n) axisnum ang h = Inr h'
           \<and> mat4 h' (Buf n) =
               mat_mul (mat4 h (Buf n)) (mat4 (gd_create_rot_mat_angular T (Buf m) rot (ang / 2) g) (Buf m))
           \<and> (\<forall>k. k \<noteq> n \<longrightarrow> h' (Buf k) = h (Buf k))"
proof -
  let ?h1 = "gd_create_rot_mat_angular T Local_rMat rot (ang / 2) h"
  let ?h2 = "gd_mult_mat4f (Buf n) Local_rMat (Buf n) ?h1"
  have f: "?h1 (Buf k) = h (Buf k)" for k
    by (simp add: gd_create_rot_mat_angular_def Let_def rot_matrix_frame)
  have "mat4 ?h2 (Buf n) = mat_mul (mat4 ?h1 (Buf n)) (mat4 ?h1 Local_rMat)"
    by (rule mult_mat4) simp_all
  also have "mat4 ?h1 (Buf n) = mat4 h (Buf n)"
    by (rule mat4_cong) (rule f)
  also have "mat4 ?h1 Local_rMat = mat4 (gd_create_rot_mat_angular T (Buf m) rot (ang / 2) g) (Buf m)"
    by (rule rot_mat_angular_any_buffer)
  finally have p: "mat4 ?h2 (Buf n) =
      mat_mul (mat4 h (Buf n)) (mat4 (gd_create_rot_mat_angular T (Buf m) rot (ang / 2) g) (Buf m))" .
  have "?h2 (Buf k) = h (Buf k)" if "k \<noteq> n" for k
    using that by (simp add: mult_frame f)
  with p assms show ?thesis
    by (simp add: gd_absrot_mat4_def Let_def)
qed

subsection \<open>Row shift and quaternion builder\<close>

lemma shift_mat4:
  "mat4 (gd_shift_mat_up mtx h) mtx =
     [[h mtx 1 1, h mtx 1 2, h mtx 1 3, 0],
      [h mtx 2 1, h mtx 2 2, h mtx 2 3, 0],
      [h mtx 3 1, h mtx 3 2, h mtx 3 3, 0],
      [h mtx 0 1, h mtx 0 2, h mtx 0 3, 1]]"
  by (simp add: gd_shift_mat_up_def Let_def for_loop_1_4 for_loop_0_3 mat4_def nat_lits)

lemma quat_mat4:
  "mat4 (gd_create_quat_rot_mat quat mtx h) mtx =
     [[sqr (quat 1) + sqr (quat 0) - sqr (quat 2) - sqr (quat 3),
       2 * quat 1 * quat 2 + 2 * quat 3 * quat 0,
       2 * quat 3 * quat 1 - 2 * quat 2 * quat 0, 0],
      [2 * quat 1 * quat 2 - 2 * quat 3 * quat 0,
       sqr (quat 2) + sqr (quat 0) - sqr (quat 3) - sqr (quat 1),
       2 * quat 2 * quat 3 + 2 * quat 1 * quat 0, 0],
      [2 * quat 3 * quat 1 + 2 * quat 2 * quat 0,
       2 * quat 2 * quat 3 - 2 * quat 1 * quat 0,
       sqr (quat 3) + sqr (quat 0) - sqr (quat 1) - sqr (quat 2), 0],
      [h mtx 0 1, h mtx 0 2, h mtx 0 3, 1]]"
  by (simp add: gd_create_quat_rot_mat_def Let_def shift_mat4 for_loop_1_4 for_loop_0_4
      quat_rot_body_def nat_lits)

subsection \<open>Rounding to binary32\<close>

lemma round_even_err: "\<bar>of_int (round_even t) - t\<bar> \<le> 1 / 2"
proof -
  have "of_int \<lfloor>t\<rfloor> \<le> t" "t < of_int \<lfloor>t\<rfloor> + 1" by linarith+
  then show ?thesis
    by (auto simp: round_even_def Let_def)
qed

lemma round_even_of_int [simp]: "round_even (of_int n) = n"
  by (simp add: round_even_def Let_def)

lemma grid_err:
  fixes g :: real
  assumes "0 < g" and "\<bar>k - v / g\<bar> \<le> 1 / 2"
  shows "\<bar>k * g - v\<bar> \<le> g / 2"
proof -
  have "k * g - v = (k - v / g) * g"
    using assms(1) by (simp add: field_simps)
  then have "\<bar>k * g - v\<bar> = \<bar>k - v / g\<bar> * g"
    using assms(1) by (simp only: abs_mult abs_of_pos)
  also have "\<dots> \<le> 1 / 2 * g"
    by (rule mult_right_mono) (use assms in simp_all)
  finally show ?thesis by simp
qed

lemma f32_ulp_pos: "0 < f32_ulp v"
  by (simp add: f32_ulp_def f32_subnormal_step_def)

lemma f32_rnd_half_ulp: "\<bar>f32_rnd v - v\<bar> \<le> f32_ulp v / 2"
  unfolding f32_rnd_def by (rule grid_err [OF f32_ulp_pos round_even_err])

lemma f32_min_normal_pos: "0 < f32_min_normal"
  by (simp add: f32_min_normal_def)

lemma f32_ulp_normal:
  assumes "f32_min_normal \<le> \<bar>v\<bar>"
  shows "f32_ulp v \<le> \<bar>v\<bar> / 2 ^ 23"
proof -
  have pos: "0 < \<bar>v\<bar>" using assms f32_min_normal_pos by linarith
  have "of_int \<lfloor>log 2 \<bar>v\<bar>\<rfloor> \<le> log 2 \<bar>v\<bar>" by simp
  then have "(2::real) powr (of_int \<lfloor>log 2 \<bar>v\<bar>\<rfloor>) \<le> 2 powr (log 2 \<bar>v\<bar>)"
    by (intro powr_mono) simp_all
  also have "\<dots> = \<bar>v\<bar>" using pos by simp
  finally have "2 powr (of_int \<lfloor>log 2 \<bar>v\<bar>\<rfloor>) \<le> \<bar>v\<bar>" .
  moreover have "(2::real) powr (of_int \<lfloor>log 2 \<bar>v\<bar>\<rfloor> - 23) = 2 powr (of_int \<lfloor>log 2 \<bar>v\<bar>\<rfloor>) / 2 ^ 23"
    by (simp add: powr_diff)
  ultimately show ?thesis
    using assms by (simp add: f32_ulp_def divide_right_mono)
qed

text \<open>The standard model: relative error \<open>2\<^sup>-\<^sup>2\<^sup>4\<close>, or absolute error \<open>2\<^sup>-\<^sup>1\<^sup>5\<^sup>0\<close>.\<close>

lemma f32_rnd_err: "\<bar>f32_rnd v - v\<bar> \<le> \<bar>v\<bar> / 2 ^ 24 + f32_subnormal_step / 2"
proof (cases "\<bar>v\<bar> < f32_min_normal")
  case True
  then have "f32_ulp v = f32_subnormal_step" by (simp add: f32_ulp_def)
  with f32_rnd_half_ulp [of v] have "\<bar>f32_rnd v - v\<bar> \<le> f32_subnormal_step / 2" by simp
  moreover have "0 \<le> \<bar>v\<bar> / 2 ^ 24" by simp
  ultimately show ?thesis by linarith
next
  case False
  then have "f32_min_normal \<le> \<bar>v\<bar>" by simp
  then have "f32_ulp v \<le> \<bar>v\<bar> / 2 ^ 23" by (rule f32_ulp_normal)
  with f32_rnd_half_ulp [of v] have "\<bar>f32_rnd v - v\<bar> \<le> \<bar>v\<bar> / 2 ^ 24" by simp
  moreover have "0 \<le> f32_subnormal_step / 2" by (simp add: f32_subnormal_step_def)
  ultimately show ?thesis by linarith
qed

lemma round_even_zero [simp]: "round_even 0 = 0"
  by (simp add: round_even_def)

lemma f32_rnd_zero [simp]: "f32_rnd 0 = 0"
  by (simp add: f32_rnd_def)


subsection \<open>Error analysis of the normalisation\<close>

lemma f32_subnormal_step_pos: "0 < f32_subnormal_step"
  by (simp add: f32_subnormal_step_def)

lemma f32_subnormal_step_small: "f32_subnormal_step \<le> 1 / 2 ^ 24"
  by (simp add: f32_subnormal_step_def)

lemma f32_min_normal_step: "f32_min_normal = 2 ^ 23 * f32_subnormal_step"
  by (simp add: f32_min_normal_def f32_subnormal_step_def)

lemma f32_min_normal_le_one: "f32_min_normal \<le> 1"
  by (simp add: f32_min_normal_def)

lemma f32_nonneg_Finite: "f32_nonneg v = Finite w \<Longrightarrow> w = f32_rnd v \<and> w < f32_huge"
  by (auto simp: f32_nonneg_def split: if_splits)

lemma f32_add_Finite:
  "f32_add a b = Finite w \<Longrightarrow> \<exists>p q. a = Finite p \<and> b = Finite q \<and> w = f32_rnd (p + q) \<and> w < f32_huge"
  by (auto simp: f32_add_def dest: f32_nonneg_Finite split: f32_value.splits)

lemma f32_rnd_err': "\<bar>f32_rnd v - v\<bar> \<le> \<bar>v\<bar> / 16777216 + f32_subnormal_step / 2"
  using f32_rnd_err [of v] by simp

lemma squared_magnitude_err:
  assumes "f32_squared_magnitude a b c = Finite m"
  shows "\<bar>m - (a * a + b * b + c * c)\<bar>
           \<le> 9 * (a * a + b * b + c * c) / 2 ^ 24 + 3 * f32_subnormal_step"
    and "m < f32_huge"
proof -
  from assms obtain s C where s: "f32_add (f32_nonneg (sqr a)) (f32_nonneg (sqr b)) = Finite s"
    and C: "f32_nonneg (sqr c) = Finite C" and m: "m = f32_rnd (s + C)" and h: "m < f32_huge"
    unfolding f32_squared_magnitude_def by (blast dest: f32_add_Finite)
  from s obtain A B where A: "f32_nonneg (sqr a) = Finite A" and B: "f32_nonneg (sqr b) = Finite B"
    and s': "s = f32_rnd (A + B)"
    by (blast dest: f32_add_Finite)
  define X Y Z where "X = a * a" and "Y = b * b" and "Z = c * c"
  from A B C have abc: "A = f32_rnd X" "B = f32_rnd Y" "C = f32_rnd Z"
    by (auto dest: f32_nonneg_Finite simp: sqr_def X_def Y_def Z_def)
  define g where "g = f32_subnormal_step"
  have g: "0 < g" unfolding g_def by (rule f32_subnormal_step_pos)
  have sq: "0 \<le> X" "0 \<le> Y" "0 \<le> Z" by (simp_all add: X_def Y_def Z_def)
  have eA: "\<bar>A - X\<bar> \<le> X / 16777216 + g / 2"
    using f32_rnd_err' [of X] sq by (simp add: abc g_def)
  have eB: "\<bar>B - Y\<bar> \<le> Y / 16777216 + g / 2"
    using f32_rnd_err' [of Y] sq by (simp add: abc g_def)
  have eC: "\<bar>C - Z\<bar> \<le> Z / 16777216 + g / 2"
    using f32_rnd_err' [of Z] sq by (simp add: abc g_def)
  have es: "\<bar>s - (A + B)\<bar> \<le> \<bar>A + B\<bar> / 16777216 + g / 2"
    using f32_rnd_err' [of "A + B"] by (simp add: s' g_def)
  have em: "\<bar>m - (s + C)\<bar> \<le> \<bar>s + C\<bar> / 16777216 + g / 2"
    using f32_rnd_err' [of "s + C"] by (simp add: m g_def)
  have bA: "\<bar>A\<bar> \<le> 2 * X + g" using eA sq by argo
  have bB: "\<bar>B\<bar> \<le> 2 * Y + g" using eB sq by argo
  have bC: "\<bar>C\<bar> \<le> 2 * Z + g" using eC sq by argo
  have bAB: "\<bar>A + B\<bar> \<le> 2 * (X + Y) + 2 * g" using bA bB by argo
  have bs: "\<bar>s\<bar> \<le> 4 * (X + Y) + 5 * g" using es bAB g sq by argo
  have bsC: "\<bar>s + C\<bar> \<le> 4 * (X + Y + Z) + 6 * g" using bs bC sq by argo
  have "\<bar>m - (X + Y + Z)\<bar> \<le> 9 * (X + Y + Z) / 16777216 + 3 * g"
    using em es eA eB eC bsC bAB g sq by argo
  then show "\<bar>m - (a * a + b * b + c * c)\<bar>
           \<le> 9 * (a * a + b * b + c * c) / 2 ^ 24 + 3 * f32_subnormal_step"
    by (simp add: g_def X_def Y_def Z_def)
  show "m < f32_huge" by (rule h)
qed


lemma square_perturbed:
  fixes x y e :: real
  assumes d: "\<bar>x - y\<bar> \<le> \<bar>y\<bar> / 16777216 + e" and e: "0 \<le> e" "e \<le> 1 / 16777216"
    and y: "y * y \<le> 2"
  shows "\<bar>x * x - y * y\<bar> \<le> 15 / 16777216"
proof -
  have "y\<^sup>2 \<le> 2\<^sup>2" using y by (simp add: power2_eq_square)
  then have "\<bar>y\<bar> \<le> \<bar>2::real\<bar>" by (simp only: abs_le_square_iff)
  then have y2: "\<bar>y\<bar> \<le> 2" by simp
  have d3: "\<bar>x - y\<bar> \<le> 3 / 16777216" using d e y2 by argo
  have s5: "\<bar>(x - y) + 2 * y\<bar> \<le> 5" using d3 y2 by argo
  have "x * x - y * y = (x - y) * ((x - y) + 2 * y)" by (simp add: algebra_simps)
  then have "\<bar>x * x - y * y\<bar> = \<bar>x - y\<bar> * \<bar>(x - y) + 2 * y\<bar>" by (simp only: abs_mult)
  also have "\<dots> \<le> 3 / 16777216 * 5"
    by (rule mult_mono [OF d3 s5]) simp_all
  finally show ?thesis by simp
qed

lemma sum_squares_perturbed:
  fixes x1 x2 x3 y1 y2 y3 e :: real
  assumes "\<bar>x1 - y1\<bar> \<le> \<bar>y1\<bar> / 16777216 + e" "\<bar>x2 - y2\<bar> \<le> \<bar>y2\<bar> / 16777216 + e"
    "\<bar>x3 - y3\<bar> \<le> \<bar>y3\<bar> / 16777216 + e"
    and e: "0 \<le> e" "e \<le> 1 / 16777216"
    and y: "y1 * y1 + y2 * y2 + y3 * y3 \<le> 2"
  shows "\<bar>(x1 * x1 + x2 * x2 + x3 * x3) - (y1 * y1 + y2 * y2 + y3 * y3)\<bar> \<le> 45 / 16777216"
proof -
  have sq: "0 \<le> y1 * y1" "0 \<le> y2 * y2" "0 \<le> y3 * y3" by simp_all
  then have y1: "y1 * y1 \<le> 2" and y2: "y2 * y2 \<le> 2" and y3: "y3 * y3 \<le> 2"
    using y by linarith+
  have "\<bar>x1 * x1 - y1 * y1\<bar> \<le> 15 / 16777216"
    by (rule square_perturbed [OF assms(1) e y1])
  moreover have "\<bar>x2 * x2 - y2 * y2\<bar> \<le> 15 / 16777216"
    by (rule square_perturbed [OF assms(2) e y2])
  moreover have "\<bar>x3 * x3 - y3 * y3\<bar> \<le> 15 / 16777216"
    by (rule square_perturbed [OF assms(3) e y3])
  ultimately show ?thesis by argo
qed

lemma sqrt_ge_small:
  fixes N m :: real
  assumes "N \<le> m" "0 \<le> N" "N \<le> 1"
  shows "N \<le> sqrt m"
proof -
  have "sqrt N \<le> 1" using assms by simp
  then have "sqrt N * sqrt N \<le> sqrt N * 1"
    using assms by (intro mult_left_mono) simp_all
  then have "N \<le> sqrt N" using assms by simp
  also have "sqrt N \<le> sqrt m" using assms by simp
  finally show ?thesis .
qed

lemma sqrt_two_128: "sqrt (2 ^ 128) = 2 ^ 64"
  by (rule real_sqrt_unique) simp_all

lemma sqrt_near_one:
  assumes "0 \<le> t"
  shows "\<bar>sqrt t - 1\<bar> \<le> \<bar>t - 1\<bar>"
proof -
  have "t - 1 = (sqrt t - 1) * (sqrt t + 1)"
    using assms by (simp add: algebra_simps)
  then have "\<bar>t - 1\<bar> = \<bar>sqrt t - 1\<bar> * (sqrt t + 1)"
    using assms by (simp add: abs_mult)
  moreover have "\<bar>sqrt t - 1\<bar> * 1 \<le> \<bar>sqrt t - 1\<bar> * (sqrt t + 1)"
    by (rule mult_left_mono) (use assms in simp_all)
  ultimately show ?thesis by simp
qed

text \<open>The scale factor \<open>r\<close> against the exact \<open>1 / sqrt m\<close>.\<close>

lemma scale_factor_err:
  assumes n: "f32_min_normal \<le> m" and h: "m < f32_huge"
  defines "r \<equiv> f32_rnd (1 / f32_rnd (sqrt m))"
  shows "0 \<le> r" and "1 - 5 / 16777216 \<le> r * sqrt m" and "r * sqrt m \<le> 1 + 5 / 16777216"
proof -
  define g where "g = f32_subnormal_step"
  define q where "q = sqrt m"
  define t where "t = f32_rnd q"
  define v where "v = 1 / t"
  have r: "r = f32_rnd v" by (simp add: r_def v_def t_def q_def)
  have g: "0 < g" unfolding g_def by (rule f32_subnormal_step_pos)
  have N: "f32_min_normal = 8388608 * g" by (simp add: f32_min_normal_step g_def)
  have qN: "8388608 * g \<le> q"
    using sqrt_ge_small [OF n _ f32_min_normal_le_one] f32_min_normal_pos by (simp add: q_def N)
  have "q < sqrt (2 ^ 128)"
    unfolding q_def using h by (simp only: real_sqrt_less_iff f32_huge_def)
  then have q64: "q < 18446744073709551616" by (simp add: sqrt_two_128)
  have et: "\<bar>t - q\<bar> \<le> \<bar>q\<bar> / 16777216 + g / 2"
    unfolding t_def g_def by (rule f32_rnd_err')
  have t_lo: "q * (1 - 2 / 16777216) \<le> t" and t_hi: "t \<le> q * (1 + 2 / 16777216)"
    using et qN g by argo+
  have tpos: "0 < t" using t_lo qN g by argo
  have "t \<le> 36893488147419103232" using t_hi q64 qN g by argo
  then have "1 / 36893488147419103232 \<le> 1 / t"
    using tpos by (intro divide_left_mono) simp_all
  moreover have "8388608 * g \<le> 1 / 36893488147419103232"
    by (simp add: g_def f32_subnormal_step_def)
  ultimately have vN: "8388608 * g \<le> v" unfolding v_def by linarith
  have vt: "v * t = 1" using tpos by (simp add: v_def)
  have ev: "\<bar>r - v\<bar> \<le> \<bar>v\<bar> / 16777216 + g / 2"
    unfolding r g_def by (rule f32_rnd_err')
  have ev2: "\<bar>r - v\<bar> \<le> 2 * v / 16777216" using ev vN g by argo
  show rpos: "0 \<le> r" using ev2 vN g by argo
  have "\<bar>r - v\<bar> * t \<le> 2 * v / 16777216 * t"
    using ev2 tpos by (intro mult_right_mono) simp_all
  also have "2 * v / 16777216 * t = 2 / 16777216" using vt by simp
  also have "\<bar>r - v\<bar> * t = \<bar>r * t - 1\<bar>"
  proof -
    have "r * t - 1 = (r - v) * t" using vt by (simp add: algebra_simps)
    then show ?thesis using tpos by (simp only: abs_mult abs_of_pos)
  qed
  finally have rt: "\<bar>r * t - 1\<bar> \<le> 2 / 16777216" .
  have "r * (q * (1 - 2 / 16777216)) \<le> r * t" "r * t \<le> r * (q * (1 + 2 / 16777216))"
    by (rule mult_left_mono [OF t_lo rpos], rule mult_left_mono [OF t_hi rpos])
  then have "(r * q) * (1 - 2 / 16777216) \<le> r * t" "r * t \<le> (r * q) * (1 + 2 / 16777216)"
    by (simp_all add: mult.assoc)
  with rt show "1 - 5 / 16777216 \<le> r * sqrt m" "r * sqrt m \<le> 1 + 5 / 16777216"
    unfolding q_def by argo+
qed


lemma normalized_squares:
  assumes m: "f32_squared_magnitude a b c = Finite m" and n: "f32_min_normal \<le> m"
  defines "r \<equiv> f32_rnd (1 / f32_rnd (sqrt m))"
  shows "\<bar>(f32_rnd (a * r) * f32_rnd (a * r) + f32_rnd (b * r) * f32_rnd (b * r)
            + f32_rnd (c * r) * f32_rnd (c * r)) - 1\<bar> \<le> 72 / 16777216"
proof -
  define g where "g = f32_subnormal_step"
  define S where "S = a * a + b * b + c * c"
  define R2 where "R2 = (r * sqrt m) * (r * sqrt m)"
  define P where "P = (a * r) * (a * r) + (b * r) * (b * r) + (c * r) * (c * r)"
  have g: "0 < g" unfolding g_def by (rule f32_subnormal_step_pos)
  have gs: "g / 2 \<le> 1 / 16777216"
    using f32_subnormal_step_small g by (simp add: g_def)
  have mg: "8388608 * g \<le> m" using n by (simp add: f32_min_normal_step g_def)
  have mpos: "0 < m" using mg g by argo
  have S0: "0 \<le> S" by (simp add: S_def)
  have h: "m < f32_huge" by (rule squared_magnitude_err(2) [OF m])
  have "\<bar>m - S\<bar> \<le> 9 * S / 16777216 + 3 * g"
    using squared_magnitude_err(1) [OF m] by (simp add: S_def g_def)
  then have S_hi: "S \<le> m * (1 + 16 / 16777216)" and S_lo: "m * (1 - 16 / 16777216) \<le> S"
    using mg g S0 by argo+
  have rpos: "0 \<le> r" and lo: "1 - 5 / 16777216 \<le> r * sqrt m" and hi: "r * sqrt m \<le> 1 + 5 / 16777216"
    unfolding r_def by (rule scale_factor_err [OF n h])+
  have R2_hi: "R2 \<le> (1 + 5 / 16777216) * (1 + 5 / 16777216)"
    unfolding R2_def using lo hi by (intro mult_mono) simp_all
  have R2_lo: "(1 - 5 / 16777216) * (1 - 5 / 16777216) \<le> R2"
    unfolding R2_def using lo hi by (intro mult_mono) simp_all
  have R2_eq: "r * r * m = R2"
  proof -
    have "R2 = r * r * (sqrt m * sqrt m)" by (simp add: R2_def algebra_simps)
    then show ?thesis using mpos by simp
  qed
  have P_eq: "P = r * r * S" by (simp add: P_def S_def algebra_simps)
  have rr: "0 \<le> r * r" by simp
  have "r * r * S \<le> r * r * (m * (1 + 16 / 16777216))"
    by (rule mult_left_mono [OF S_hi rr])
  then have P_hi: "P \<le> R2 * (1 + 16 / 16777216)"
    by (simp add: P_eq R2_eq [symmetric] algebra_simps)
  have "r * r * (m * (1 - 16 / 16777216)) \<le> r * r * S"
    by (rule mult_left_mono [OF S_lo rr])
  then have P_lo: "R2 * (1 - 16 / 16777216) \<le> P"
    by (simp add: P_eq R2_eq [symmetric] algebra_simps)
  have P1: "\<bar>P - 1\<bar> \<le> 27 / 16777216" using P_hi P_lo R2_hi R2_lo by argo
  then have P2: "(a * r) * (a * r) + (b * r) * (b * r) + (c * r) * (c * r) \<le> 2"
    unfolding P_def by argo
  have "\<bar>(f32_rnd (a * r) * f32_rnd (a * r) + f32_rnd (b * r) * f32_rnd (b * r)
            + f32_rnd (c * r) * f32_rnd (c * r)) - P\<bar> \<le> 45 / 16777216"
    unfolding P_def
  proof (rule sum_squares_perturbed [OF _ _ _ _ gs P2])
    show "\<bar>f32_rnd (a * r) - a * r\<bar> \<le> \<bar>a * r\<bar> / 16777216 + g / 2"
      unfolding g_def by (rule f32_rnd_err')
    show "\<bar>f32_rnd (b * r) - b * r\<bar> \<le> \<bar>b * r\<bar> / 16777216 + g / 2"
      unfolding g_def by (rule f32_rnd_err')
    show "\<bar>f32_rnd (c * r) - c * r\<bar> \<le> \<bar>c * r\<bar> / 16777216 + g / 2"
      unfolding g_def by (rule f32_rnd_err')
    show "0 \<le> g / 2" using g by simp
  qed
  with P1 show ?thesis by argo
qed


subsection \<open>Evaluating the rounding\<close>

lemma round_even_numeral [simp]: "round_even (numeral n) = numeral n"
  using round_even_of_int [of "numeral n"] by simp

lemma round_even_one [simp]: "round_even 1 = 1"
  using round_even_of_int [of 1] by simp

lemma f32_rnd_subnormal:
  "\<bar>v\<bar> < f32_min_normal \<Longrightarrow>
   f32_rnd v = of_int (round_even (v / f32_subnormal_step)) * f32_subnormal_step"
  by (simp add: f32_rnd_def f32_ulp_def)

lemma f32_rnd_binade:
  assumes p: "p = 2 powr (of_int k)" and lo: "p \<le> \<bar>v\<bar>" and hi: "\<bar>v\<bar> < 2 * p"
    and n: "f32_min_normal \<le> \<bar>v\<bar>"
  shows "f32_rnd v = of_int (round_even (v * 8388608 / p)) * p / 8388608"
proof -
  have pos: "0 < \<bar>v\<bar>" using n f32_min_normal_pos by linarith
  have "(2::real) powr (of_int k + 1) = 2 * p" by (simp add: p powr_add)
  with lo hi have "\<lfloor>log 2 \<bar>v\<bar>\<rfloor> = k"
    using pos by (simp add: floor_log_eq_powr_iff p)
  then have "f32_ulp v = 2 powr (of_int k - 23)"
    using n by (simp add: f32_ulp_def)
  also have "\<dots> = p / 8388608" by (simp add: powr_diff p)
  finally have u: "f32_ulp v = p / 8388608" .
  show ?thesis by (simp add: f32_rnd_def u)
qed

lemma round_even_neg_numeral [simp]: "round_even (- numeral n) = - numeral n"
  using round_even_of_int [of "- numeral n"] by simp

lemma f32_rnd_3: "f32_rnd 3 = 3"
  by (simp add: f32_rnd_binade [where k = 1 and p = 2] f32_min_normal_def)

lemma f32_rnd_4: "f32_rnd 4 = 4"
  by (simp add: f32_rnd_binade [where k = 2 and p = 4] f32_min_normal_def)

lemma f32_rnd_5: "f32_rnd 5 = 5"
  by (simp add: f32_rnd_binade [where k = 2 and p = 4] f32_min_normal_def)

lemma f32_rnd_7: "f32_rnd 7 = 7"
  by (simp add: f32_rnd_binade [where k = 2 and p = 4] f32_min_normal_def)

lemma f32_rnd_9: "f32_rnd 9 = 9"
  by (simp add: f32_rnd_binade [where k = 3 and p = 8] f32_min_normal_def)

lemma f32_rnd_16: "f32_rnd 16 = 16"
  by (simp add: f32_rnd_binade [where k = 4 and p = 16] f32_min_normal_def)

lemma f32_rnd_25: "f32_rnd 25 = 25"
  by (simp add: f32_rnd_binade [where k = 4 and p = 16] f32_min_normal_def)

lemma f32_rnd_256: "f32_rnd 256 = 256"
  by (simp add: f32_rnd_binade [where k = 8 and p = 256] f32_min_normal_def)

lemma f32_rnd_minus_1: "f32_rnd (- 1) = - 1"
  by (simp add: f32_rnd_binade [where k = 0 and p = 1] f32_min_normal_def)

lemma f32_rnd_sixteenth: "f32_rnd (1 / 16) = 1 / 16"
  by (simp add: f32_rnd_binade [where k = "- 4" and p = "1 / 16"] f32_min_normal_def powr_minus)

lemma f32_rnd_fifth: "f32_rnd (1 / 5) = 13421773 / 67108864"
  by (simp add: f32_rnd_binade [where k = "- 3" and p = "1 / 8"] f32_min_normal_def powr_minus
      round_even_def Let_def)

lemma f32_rnd_5_fifths: "f32_rnd (5 * (13421773 / 67108864)) = 1"
  by (simp add: f32_rnd_binade [where k = 0 and p = 1] f32_min_normal_def
      round_even_def Let_def)

lemma f32_rnd_4_fifths: "f32_rnd (4 * (13421773 / 67108864)) = 13421773 / 16777216"
  by (simp add: f32_rnd_binade [where k = "- 1" and p = "1 / 2"] f32_min_normal_def powr_minus)

lemma f32_rnd_3_fifths: "f32_rnd (3 * (13421773 / 67108864)) = 5033165 / 8388608"
  by (simp add: f32_rnd_binade [where k = "- 1" and p = "1 / 2"] f32_min_normal_def powr_minus
      round_even_def Let_def)

lemma f32_rnd_8000: "f32_rnd (13421773 / 16777216 * 10000) = 8000"
  by (simp add: f32_rnd_binade [where k = 12 and p = 4096] f32_min_normal_def
      round_even_def Let_def)

lemma f32_rnd_6000: "f32_rnd (5033165 / 8388608 * 10000) = 6000"
  by (simp add: f32_rnd_binade [where k = 12 and p = 4096] f32_min_normal_def
      round_even_def Let_def)

lemma f32_rnd_two_100: "f32_rnd (2 ^ 100) = 2 ^ 100"
  by (simp add: f32_rnd_binade [where k = 100 and p = "2 ^ 100"] f32_min_normal_def)

lemma f32_rnd_two_200: "f32_rnd (2 ^ 200) = 2 ^ 200"
  by (simp add: f32_rnd_binade [where k = 200 and p = "2 ^ 200"] f32_min_normal_def)

lemma f32_rnd_two_minus_100: "f32_rnd (1 / 2 ^ 100) = 1 / 2 ^ 100"
  by (simp add: f32_rnd_binade [where k = "- 100" and p = "1 / 2 ^ 100"] f32_min_normal_def
      powr_minus)

lemma f32_rnd_two_minus_200: "f32_rnd (1 / 2 ^ 200) = 0"
  by (simp add: f32_rnd_subnormal f32_min_normal_def f32_subnormal_step_def round_even_def Let_def)

lemmas f32_rnd_values = f32_rnd_3 f32_rnd_4 f32_rnd_5 f32_rnd_7 f32_rnd_9 f32_rnd_16 f32_rnd_25
  f32_rnd_256 f32_rnd_minus_1 f32_rnd_sixteenth f32_rnd_fifth f32_rnd_5_fifths f32_rnd_4_fifths
  f32_rnd_3_fifths f32_rnd_8000 f32_rnd_6000 f32_rnd_two_100 f32_rnd_two_200
  f32_rnd_two_minus_100 f32_rnd_two_minus_200

lemmas f32_ops = f32_squared_magnitude_def f32_add_def f32_nonneg_def f32_sub_def f32_huge_def
  f32_inv_sqrtf_def f32_gt_def f32_lt_def sqr_def absf_def

lemma squared_magnitude_0_0_0: "f32_squared_magnitude 0 0 0 = Finite 0"
  by (simp add: f32_ops)

lemma squared_magnitude_3_4_0: "f32_squared_magnitude 3 4 0 = Finite 25"
  by (simp add: f32_ops f32_rnd_values)

lemma squared_magnitude_0_4_3: "f32_squared_magnitude 0 4 3 = Finite 25"
  by (simp add: f32_ops f32_rnd_values)

lemma squared_magnitude_0_5_0: "f32_squared_magnitude 0 5 0 = Finite 25"
  by (simp add: f32_ops f32_rnd_values)

lemma squared_magnitude_16_0_0: "f32_squared_magnitude 16 0 0 = Finite 256"
  by (simp add: f32_ops f32_rnd_values)

lemma square_two_100: "(2 ^ 100 * 2 ^ 100 :: real) = 2 ^ 200"
  by (simp add: power_add [symmetric])

lemma square_two_minus_100: "(1 / 2 ^ 100 * (1 / 2 ^ 100) :: real) = 1 / 2 ^ 200"
  by (simp add: power_add [symmetric])

lemma squared_magnitude_huge: "f32_squared_magnitude (2 ^ 100) 0 0 = Pos_inf"
  by (simp only: f32_squared_magnitude_def sqr_def square_two_100 f32_rnd_two_200
      f32_nonneg_def mult_zero_left f32_rnd_zero)
    (simp add: f32_add_def f32_huge_def)

lemma squared_magnitude_huge_z: "f32_squared_magnitude 0 0 (2 ^ 100) = Pos_inf"
  by (simp only: f32_squared_magnitude_def sqr_def square_two_100 f32_rnd_two_200
      f32_nonneg_def mult_zero_left f32_rnd_zero)
    (simp add: f32_add_def f32_nonneg_def f32_huge_def)

lemma squared_magnitude_tiny: "f32_squared_magnitude (1 / 2 ^ 100) 0 0 = Finite 0"
  by (simp only: f32_squared_magnitude_def sqr_def square_two_minus_100 f32_rnd_two_minus_200
      f32_nonneg_def mult_zero_left f32_rnd_zero)
    (simp add: f32_add_def f32_nonneg_def f32_huge_def)

lemma squared_magnitude_tiny_z: "f32_squared_magnitude 0 0 (1 / 2 ^ 100) = Finite 0"
  by (simp only: f32_squared_magnitude_def sqr_def square_two_minus_100 f32_rnd_two_minus_200
      f32_nonneg_def mult_zero_left f32_rnd_zero)
    (simp add: f32_add_def f32_nonneg_def f32_huge_def)

lemma f32_add_exact:
  "f32_rnd (u + v) = w \<Longrightarrow> w < f32_huge \<Longrightarrow> f32_add (Finite u) (Finite v) = Finite w"
  by (simp add: f32_add_def f32_nonneg_def)

lemma f32_sub_exact:
  "f32_rnd (a - b) = w \<Longrightarrow> \<bar>w\<bar> < f32_huge \<Longrightarrow> f32_sub a b = Some w"
  by (simp add: f32_sub_def)

lemma two_100_finite: "\<bar>2 ^ 100\<bar> < f32_huge" "(2 ^ 100 :: real) < f32_huge"
  by (simp_all add: f32_huge_def)

lemma two_minus_100_finite: "\<bar>1 / 2 ^ 100\<bar> < f32_huge" "(1 / 2 ^ 100 :: real) < f32_huge"
  by (simp_all add: f32_huge_def)

lemma zero_finite: "\<bar>0\<bar> < f32_huge" "0 < f32_huge"
  by (simp_all add: f32_huge_def)

lemma f32_sub_0_0: "f32_sub 0 0 = Some 0"
  by (rule f32_sub_exact [OF _ zero_finite(1)]) simp

lemma f32_sub_two_100: "f32_sub (2 ^ 100) 0 = Some (2 ^ 100)"
  by (rule f32_sub_exact [OF _ two_100_finite(1)]) (simp only: diff_zero f32_rnd_two_100)

lemma f32_sub_two_minus_100: "f32_sub (1 / 2 ^ 100) 0 = Some (1 / 2 ^ 100)"
  by (rule f32_sub_exact [OF _ two_minus_100_finite(1)])
    (simp only: diff_zero f32_rnd_two_minus_100)

lemma f32_add_0_0: "f32_add (Finite 0) (Finite 0) = Finite 0"
  by (rule f32_add_exact [OF _ zero_finite(2)]) simp

lemma f32_add_two_100: "f32_add (Finite (2 ^ 100)) (Finite 0) = Finite (2 ^ 100)"
  by (rule f32_add_exact [OF _ two_100_finite(2)]) (simp only: add_0_right f32_rnd_two_100)

lemma f32_add_two_minus_100: "f32_add (Finite (1 / 2 ^ 100)) (Finite 0) = Finite (1 / 2 ^ 100)"
  by (rule f32_add_exact [OF _ two_minus_100_finite(2)])
    (simp only: add_0_right f32_rnd_two_minus_100)

lemma absf_two_100: "absf (2 ^ 100) = 2 ^ 100"
  by (simp add: absf_def)

lemma absf_two_minus_100: "absf (1 / 2 ^ 100) = 1 / 2 ^ 100"
  by (simp add: absf_def)

lemma absf_0: "absf 0 = 0"
  by (simp add: absf_def)

lemma nonzero_25: "(25::real) \<noteq> 0"
  by simp

lemma nonzero_256: "(256::real) \<noteq> 0"
  by simp

lemma sqrt_25: "sqrt 25 = 5"
  by (rule real_sqrt_unique) simp_all

lemma sqrt_256: "sqrt 256 = 16"
  by (rule real_sqrt_unique) simp_all

subsection \<open>Normalisation\<close>

lemma normalize_zero:
  "f32_squared_magnitude a b c = Finite 0 \<Longrightarrow>
   gd_normalize_vec3f \<lparr>vec_x = a, vec_y = b, vec_z = c\<rparr>
     = (FALSE, \<lparr>vec_x = 0, vec_y = 0, vec_z = 0\<rparr>)"
  by (simp add: gd_normalize_vec3f_def)

lemma normalize_scaled:
  "f32_squared_magnitude a b c \<noteq> Finite 0 \<Longrightarrow>
   gd_normalize_vec3f \<lparr>vec_x = a, vec_y = b, vec_z = c\<rparr>
     = (TRUE, \<lparr>vec_x = f32_rnd (a * f32_inv_sqrtf (f32_squared_magnitude a b c)),
               vec_y = f32_rnd (b * f32_inv_sqrtf (f32_squared_magnitude a b c)),
               vec_z = f32_rnd (c * f32_inv_sqrtf (f32_squared_magnitude a b c))\<rparr>)"
  by (simp add: gd_normalize_vec3f_def Let_def)

lemma normalize_overflow:
  "f32_squared_magnitude a b c = Pos_inf \<Longrightarrow>
   gd_normalize_vec3f \<lparr>vec_x = a, vec_y = b, vec_z = c\<rparr>
     = (TRUE, \<lparr>vec_x = 0, vec_y = 0, vec_z = 0\<rparr>)"
  by (simp add: normalize_scaled f32_inv_sqrtf_def)

lemma normalize_finite:
  "f32_squared_magnitude a b c = Finite m \<Longrightarrow> m \<noteq> 0 \<Longrightarrow>
   gd_normalize_vec3f \<lparr>vec_x = a, vec_y = b, vec_z = c\<rparr>
     = (TRUE, \<lparr>vec_x = f32_rnd (a * f32_rnd (1 / f32_rnd (sqrt m))),
               vec_y = f32_rnd (b * f32_rnd (1 / f32_rnd (sqrt m))),
               vec_z = f32_rnd (c * f32_rnd (1 / f32_rnd (sqrt m)))\<rparr>)"
  by (simp add: normalize_scaled f32_inv_sqrtf_def)

lemma min_normal_nonzero: "f32_min_normal \<le> m \<Longrightarrow> m \<noteq> 0"
  using f32_min_normal_pos by linarith

lemma norm_near_one:
  assumes "\<bar>(x * x + y * y + z * z) - 1\<bar> \<le> e"
  shows "\<bar>euclidean_norm \<lparr>vec_x = x, vec_y = y, vec_z = z\<rparr> - 1\<bar> \<le> e"
proof -
  have "0 \<le> x * x + y * y + z * z" by simp
  then have "\<bar>sqrt (x * x + y * y + z * z) - 1\<bar> \<le> \<bar>(x * x + y * y + z * z) - 1\<bar>"
    by (rule sqrt_near_one)
  with assms show ?thesis by (simp add: euclidean_norm_def)
qed

lemma normalize_unit:
  assumes m: "f32_squared_magnitude a b c = Finite m" and n: "f32_min_normal \<le> m"
  shows "\<bar>euclidean_norm (snd (gd_normalize_vec3f \<lparr>vec_x = a, vec_y = b, vec_z = c\<rparr>)) - 1\<bar>
           \<le> 1 / 10 ^ 5"
proof -
  have "\<bar>euclidean_norm (snd (gd_normalize_vec3f \<lparr>vec_x = a, vec_y = b, vec_z = c\<rparr>)) - 1\<bar>
          \<le> 72 / 16777216"
    unfolding normalize_finite [OF m min_normal_nonzero [OF n]] snd_conv
    by (rule norm_near_one [OF normalized_squares [OF m n]])
  then show ?thesis by simp
qed

lemma f32_nonneg_bounded:
  assumes "\<bar>v\<bar> \<le> K" and "2 * K + 1 \<le> f32_huge"
  shows "f32_nonneg v = Finite (f32_rnd v)" and "\<bar>f32_rnd v\<bar> \<le> 2 * K + 1"
proof -
  define g where "g = f32_subnormal_step"
  have g: "0 < g" "g \<le> 1"
    using f32_subnormal_step_pos f32_subnormal_step_small by (simp_all add: g_def)
  have e: "\<bar>f32_rnd v - v\<bar> \<le> \<bar>v\<bar> / 16777216 + g / 2"
    unfolding g_def by (rule f32_rnd_err')
  with assms(1) g show b: "\<bar>f32_rnd v\<bar> \<le> 2 * K + 1" by argo
  from e assms g have "f32_rnd v < f32_huge" by argo
  then show "f32_nonneg v = Finite (f32_rnd v)" by (simp add: f32_nonneg_def)
qed

lemma squared_magnitude_in_range:
  assumes X: "a * a \<le> K" "b * b \<le> K" "c * c \<le> K" and K: "20 * K + 13 \<le> f32_huge"
    and lo: "536870912 * f32_subnormal_step \<le> a * a + b * b + c * c"
  shows "\<exists>m. f32_squared_magnitude a b c = Finite m \<and> f32_min_normal \<le> m"
proof -
  define g where "g = f32_subnormal_step"
  have g: "0 < g" unfolding g_def by (rule f32_subnormal_step_pos)
  have K0: "0 \<le> K" using X(1) zero_le_square [of a] by linarith
  have aX: "\<bar>sqr a\<bar> \<le> K" "\<bar>sqr b\<bar> \<le> K" "\<bar>sqr c\<bar> \<le> K"
    using X by (simp_all add: sqr_def)
  have K1: "2 * K + 1 \<le> f32_huge" using K K0 by argo
  note A = f32_nonneg_bounded [OF aX(1) K1]
  note B = f32_nonneg_bounded [OF aX(2) K1]
  note C = f32_nonneg_bounded [OF aX(3) K1]
  have AB: "\<bar>f32_rnd (sqr a) + f32_rnd (sqr b)\<bar> \<le> 4 * K + 2" using A(2) B(2) by argo
  have K2: "2 * (4 * K + 2) + 1 \<le> f32_huge" using K K0 by argo
  note s = f32_nonneg_bounded [OF AB K2]
  have sC: "\<bar>f32_rnd (f32_rnd (sqr a) + f32_rnd (sqr b)) + f32_rnd (sqr c)\<bar> \<le> 10 * K + 6"
    using s(2) C(2) by argo
  have K3: "2 * (10 * K + 6) + 1 \<le> f32_huge" using K K0 by argo
  note m = f32_nonneg_bounded [OF sC K3]
  define m where "m = f32_rnd (f32_rnd (f32_rnd (sqr a) + f32_rnd (sqr b)) + f32_rnd (sqr c))"
  have fin: "f32_squared_magnitude a b c = Finite m"
    by (simp add: f32_squared_magnitude_def f32_add_def A(1) B(1) C(1) s(1) m(1) m_def)
  have "\<bar>m - (a * a + b * b + c * c)\<bar>
           \<le> 9 * (a * a + b * b + c * c) / 16777216 + 3 * g"
    using squared_magnitude_err(1) [OF fin] by (simp add: g_def)
  with lo g have "8388608 * g \<le> m" unfolding g_def by argo
  then have "f32_min_normal \<le> m" by (simp add: f32_min_normal_step g_def)
  with fin show ?thesis by blast
qed

lemma square_le:
  fixes a :: real
  assumes "\<bar>a\<bar> \<le> B"
  shows "a * a \<le> B * B"
proof -
  have "a * a = \<bar>a\<bar> * \<bar>a\<bar>" by simp
  also have "\<dots> \<le> B * B" by (rule mult_mono) (use assms in simp_all)
  finally show ?thesis .
qed

lemma square_ge:
  fixes a :: real
  assumes "0 \<le> L" and "L \<le> \<bar>a\<bar>"
  shows "L * L \<le> a * a"
proof -
  have "L * L \<le> \<bar>a\<bar> * \<bar>a\<bar>" by (rule mult_mono) (use assms in simp_all)
  then show ?thesis by simp
qed

lemma squared_magnitude_normal:
  assumes hi: "\<bar>a\<bar> \<le> 2 ^ 60" "\<bar>b\<bar> \<le> 2 ^ 60" "\<bar>c\<bar> \<le> 2 ^ 60"
    and lo: "1 / 2 ^ 60 \<le> \<bar>a\<bar> \<or> 1 / 2 ^ 60 \<le> \<bar>b\<bar> \<or> 1 / 2 ^ 60 \<le> \<bar>c\<bar>"
  shows "\<exists>m. f32_squared_magnitude a b c = Finite m \<and> f32_min_normal \<le> m"
proof (rule squared_magnitude_in_range [where K = "2 ^ 60 * 2 ^ 60"])
  show "a * a \<le> 2 ^ 60 * 2 ^ 60" by (rule square_le [OF hi(1)])
  show "b * b \<le> 2 ^ 60 * 2 ^ 60" by (rule square_le [OF hi(2)])
  show "c * c \<le> 2 ^ 60 * 2 ^ 60" by (rule square_le [OF hi(3)])
  show "20 * (2 ^ 60 * 2 ^ 60) + 13 \<le> f32_huge" by (simp add: f32_huge_def)
  have L: "536870912 * f32_subnormal_step = 1 / 2 ^ 60 * (1 / 2 ^ 60)"
    by (simp add: f32_subnormal_step_def)
  have sq: "0 \<le> a * a" "0 \<le> b * b" "0 \<le> c * c" by simp_all
  from lo have "1 / 2 ^ 60 * (1 / 2 ^ 60) \<le> a * a \<or> 1 / 2 ^ 60 * (1 / 2 ^ 60) \<le> b * b
      \<or> 1 / 2 ^ 60 * (1 / 2 ^ 60) \<le> c * c"
    using square_ge [of "1 / 2 ^ 60" a] square_ge [of "1 / 2 ^ 60" b] square_ge [of "1 / 2 ^ 60" c]
    by auto
  with sq show "536870912 * f32_subnormal_step \<le> a * a + b * b + c * c"
    unfolding L by linarith
qed

lemma normalize_in_range:
  assumes hi: "\<bar>a\<bar> \<le> 2 ^ 60" "\<bar>b\<bar> \<le> 2 ^ 60" "\<bar>c\<bar> \<le> 2 ^ 60"
    and lo: "1 / 2 ^ 60 \<le> \<bar>a\<bar> \<or> 1 / 2 ^ 60 \<le> \<bar>b\<bar> \<or> 1 / 2 ^ 60 \<le> \<bar>c\<bar>"
  shows "fst (gd_normalize_vec3f \<lparr>vec_x = a, vec_y = b, vec_z = c\<rparr>) = TRUE"
    and "\<bar>euclidean_norm (snd (gd_normalize_vec3f \<lparr>vec_x = a, vec_y = b, vec_z = c\<rparr>)) - 1\<bar>
           \<le> 1 / 10 ^ 5"
proof -
  from squared_magnitude_normal [OF hi lo] obtain m
    where m: "f32_squared_magnitude a b c = Finite m" and n: "f32_min_normal \<le> m"
    by blast
  show "fst (gd_normalize_vec3f \<lparr>vec_x = a, vec_y = b, vec_z = c\<rparr>) = TRUE"
    by (simp only: normalize_finite [OF m min_normal_nonzero [OF n]] fst_conv)
  show "\<bar>euclidean_norm (snd (gd_normalize_vec3f \<lparr>vec_x = a, vec_y = b, vec_z = c\<rparr>)) - 1\<bar>
           \<le> 1 / 10 ^ 5"
    by (rule normalize_unit [OF m n])
qed

lemma sqrt_ten_power_8: "sqrt 100000000 = 10000"
  by (rule real_sqrt_unique) simp_all

lemma rescaled_norm:
  fixes x y z :: real
  assumes s: "\<bar>(x * x + y * y + z * z) - 1\<bar> \<le> 72 / 16777216"
  shows "\<bar>euclidean_norm \<lparr>vec_x = f32_rnd (x * 10000), vec_y = f32_rnd (y * 10000),
             vec_z = f32_rnd (z * 10000)\<rparr> - 10000\<bar> \<le> 1 / 10"
proof -
  define g where "g = f32_subnormal_step"
  define X Y Z where "X = f32_rnd (x * 10000)" and "Y = f32_rnd (y * 10000)"
    and "Z = f32_rnd (z * 10000)"
  define u v w where "u = X / 10000" and "v = Y / 10000" and "w = Z / 10000"
  define T where "T = u * u + v * v + w * w"
  have g: "0 < g" unfolding g_def by (rule f32_subnormal_step_pos)
  have gs: "g / 20000 \<le> 1 / 16777216"
    using f32_subnormal_step_small g by (simp add: g_def)
  have ab: "\<bar>x * 10000\<bar> = 10000 * \<bar>x\<bar>" "\<bar>y * 10000\<bar> = 10000 * \<bar>y\<bar>"
    "\<bar>z * 10000\<bar> = 10000 * \<bar>z\<bar>"
    by (simp_all add: abs_mult)
  have "\<bar>X - x * 10000\<bar> \<le> \<bar>x * 10000\<bar> / 16777216 + g / 2"
    unfolding X_def g_def by (rule f32_rnd_err')
  then have eX: "\<bar>u - x\<bar> \<le> \<bar>x\<bar> / 16777216 + g / 20000"
    unfolding u_def ab by argo
  have "\<bar>Y - y * 10000\<bar> \<le> \<bar>y * 10000\<bar> / 16777216 + g / 2"
    unfolding Y_def g_def by (rule f32_rnd_err')
  then have eY: "\<bar>v - y\<bar> \<le> \<bar>y\<bar> / 16777216 + g / 20000"
    unfolding v_def ab by argo
  have "\<bar>Z - z * 10000\<bar> \<le> \<bar>z * 10000\<bar> / 16777216 + g / 2"
    unfolding Z_def g_def by (rule f32_rnd_err')
  then have eZ: "\<bar>w - z\<bar> \<le> \<bar>z\<bar> / 16777216 + g / 20000"
    unfolding w_def ab by argo
  have two: "x * x + y * y + z * z \<le> 2" using s by argo
  have g0: "0 \<le> g / 20000" using g by simp
  have "\<bar>(u * u + v * v + w * w) - (x * x + y * y + z * z)\<bar> \<le> 45 / 16777216"
    by (rule sum_squares_perturbed [OF eX eY eZ g0 gs two])
  with s have T1: "\<bar>T - 1\<bar> \<le> 117 / 16777216" unfolding T_def by argo
  have T0: "0 \<le> T" by (simp add: T_def)
  have "\<bar>sqrt T - 1\<bar> \<le> \<bar>T - 1\<bar>" by (rule sqrt_near_one [OF T0])
  with T1 have q: "\<bar>10000 * sqrt T - 10000\<bar> \<le> 1 / 10" by argo
  have "X * X + Y * Y + Z * Z = 100000000 * T"
    by (simp add: T_def u_def v_def w_def algebra_simps)
  then have "sqrt (X * X + Y * Y + Z * Z) = 10000 * sqrt T"
    by (simp only: real_sqrt_mult sqrt_ten_power_8)
  with q show ?thesis
    by (simp add: euclidean_norm_def X_def Y_def Z_def)
qed

lemma normalize_0_5_0:
  "gd_normalize_vec3f \<lparr>vec_x = 0, vec_y = 5, vec_z = 0\<rparr>
     = (TRUE, \<lparr>vec_x = 0, vec_y = 1, vec_z = 0\<rparr>)"
  by (simp only: normalize_finite [OF squared_magnitude_0_5_0 nonzero_25] sqrt_25 f32_rnd_5
      f32_rnd_fifth f32_rnd_5_fifths mult_zero_left f32_rnd_zero)

lemma normalize_0_4_3:
  "gd_normalize_vec3f \<lparr>vec_x = 0, vec_y = 4, vec_z = 3\<rparr>
     = (TRUE, \<lparr>vec_x = 0, vec_y = 13421773 / 16777216, vec_z = 5033165 / 8388608\<rparr>)"
  by (simp only: normalize_finite [OF squared_magnitude_0_4_3 nonzero_25] sqrt_25 f32_rnd_5
      f32_rnd_fifth f32_rnd_4_fifths f32_rnd_3_fifths mult_zero_left f32_rnd_zero)

subsection \<open>The direction of the look-at matrix\<close>

lemma lookat_raw_components:
  "lookat_raw_direction xFrom yFrom zFrom xTo yTo zTo = Some raw \<Longrightarrow>
   raw = \<lparr>vec_x = f32_rnd (zTo - zFrom), vec_y = f32_rnd (yTo - yFrom),
          vec_z = f32_rnd (xTo - xFrom)\<rparr>"
  by (auto simp: lookat_raw_direction_def f32_sub_def split: option.splits if_splits)

lemma lookat_inside:
  assumes "lookat_raw_direction xFrom yFrom zFrom xTo yTo zTo = Some raw"
    and "lookat_abs_sum raw = Finite s" and "10 \<le> s" and "s \<le> 10000"
  shows "lookat_direction xFrom yFrom zFrom xTo yTo zTo = Some raw"
  using assms by (simp add: lookat_direction_def f32_gt_def f32_lt_def)

lemma lookat_outside:
  assumes "lookat_raw_direction xFrom yFrom zFrom xTo yTo zTo = Some raw"
    and "lookat_abs_sum raw = Pos_inf
         \<or> (\<exists>s. lookat_abs_sum raw = Finite s \<and> (s < 10 \<or> 10000 < s))"
  shows "lookat_direction xFrom yFrom zFrom xTo yTo zTo
           = Some \<lparr>vec_x = f32_rnd (vec_x (snd (gd_normalize_vec3f raw)) * 10000),
                   vec_y = f32_rnd (vec_y (snd (gd_normalize_vec3f raw)) * 10000),
                   vec_z = f32_rnd (vec_z (snd (gd_normalize_vec3f raw)) * 10000)\<rparr>"
  using assms by (auto simp: lookat_direction_def Let_def f32_gt_def f32_lt_def)

lemma rescaled_unit:
  assumes m: "f32_squared_magnitude (vec_x raw) (vec_y raw) (vec_z raw) = Finite m"
    and n: "f32_min_normal \<le> m"
  shows "\<bar>euclidean_norm
            \<lparr>vec_x = f32_rnd (vec_x (snd (gd_normalize_vec3f raw)) * 10000),
             vec_y = f32_rnd (vec_y (snd (gd_normalize_vec3f raw)) * 10000),
             vec_z = f32_rnd (vec_z (snd (gd_normalize_vec3f raw)) * 10000)\<rparr> - 10000\<bar> \<le> 1 / 10"
proof (cases raw)
  case (fields a b c)
  from m n have m': "f32_squared_magnitude a b c = Finite m"
    by (simp add: fields)
  show ?thesis
    unfolding fields normalize_finite [OF m' min_normal_nonzero [OF n]] snd_conv
      GdVec3f.simps
    by (rule rescaled_norm [OF normalized_squares [OF m' n]])
qed

lemma rescaled_in_range:
  assumes hi: "\<bar>vec_x raw\<bar> \<le> 2 ^ 60" "\<bar>vec_y raw\<bar> \<le> 2 ^ 60" "\<bar>vec_z raw\<bar> \<le> 2 ^ 60"
    and lo: "1 / 2 ^ 60 \<le> \<bar>vec_x raw\<bar> \<or> 1 / 2 ^ 60 \<le> \<bar>vec_y raw\<bar>
             \<or> 1 / 2 ^ 60 \<le> \<bar>vec_z raw\<bar>"
  shows "\<bar>euclidean_norm
            \<lparr>vec_x = f32_rnd (vec_x (snd (gd_normalize_vec3f raw)) * 10000),
             vec_y = f32_rnd (vec_y (snd (gd_normalize_vec3f raw)) * 10000),
             vec_z = f32_rnd (vec_z (snd (gd_normalize_vec3f raw)) * 10000)\<rparr> - 10000\<bar> \<le> 1 / 10"
proof -
  from squared_magnitude_normal [OF hi lo] obtain m
    where "f32_squared_magnitude (vec_x raw) (vec_y raw) (vec_z raw) = Finite m"
      and "f32_min_normal \<le> m"
    by blast
  then show ?thesis by (rule rescaled_unit)
qed

lemma rescaled_zero:
  assumes "f32_squared_magnitude (vec_x raw) (vec_y raw) (vec_z raw) = Finite 0
           \<or> f32_squared_magnitude (vec_x raw) (vec_y raw) (vec_z raw) = Pos_inf"
  shows "\<lparr>vec_x = f32_rnd (vec_x (snd (gd_normalize_vec3f raw)) * 10000),
          vec_y = f32_rnd (vec_y (snd (gd_normalize_vec3f raw)) * 10000),
          vec_z = f32_rnd (vec_z (snd (gd_normalize_vec3f raw)) * 10000)\<rparr>
           = \<lparr>vec_x = 0, vec_y = 0, vec_z = 0\<rparr>"
proof (cases raw)
  case (fields a b c)
  from assms have "f32_squared_magnitude a b c = Finite 0 \<or> f32_squared_magnitude a b c = Pos_inf"
    by (simp add: fields)
  then show ?thesis
    unfolding fields by (auto simp: normalize_zero normalize_overflow)
qed

lemma lookat_zero_direction:
  "lookat_direction xFrom yFrom zFrom xTo yTo zTo = Some \<lparr>vec_x = 0, vec_y = 0, vec_z = 0\<rparr> \<Longrightarrow>
   gd_mat4f_lookat mtx xFrom yFrom zFrom xTo yTo zTo zColY yColY xColY h = None"
  by (simp add: gd_mat4f_lookat_def squared_magnitude_0_0_0)

lemma lookat_forward_axis:
  assumes "gd_mat4f_lookat mtx xFrom yFrom zFrom xTo yTo zTo zColY yColY xColY h = Some h'"
  shows "\<exists>d m. lookat_direction xFrom yFrom zFrom xTo yTo zTo = Some d
           \<and> f32_squared_magnitude (vec_z d) (vec_y d) (vec_x d) = Finite m \<and> m \<noteq> 0
           \<and> [h' mtx 0 2, h' mtx 1 2, h' mtx 2 2]
               = [f32_rnd (vec_z d * - f32_rnd (1 / f32_rnd (sqrt m))),
                  f32_rnd (vec_y d * - f32_rnd (1 / f32_rnd (sqrt m))),
                  f32_rnd (vec_x d * - f32_rnd (1 / f32_rnd (sqrt m)))]"
proof -
  from assms obtain d where d: "lookat_direction xFrom yFrom zFrom xTo yTo zTo = Some d"
    by (cases "lookat_direction xFrom yFrom zFrom xTo yTo zTo") (simp_all add: gd_mat4f_lookat_def)
  show ?thesis
  proof (cases "f32_squared_magnitude (vec_z d) (vec_y d) (vec_x d)")
    case Pos_inf
    with assms d have False
      by (simp add: gd_mat4f_lookat_def Let_def f32_inv_sqrtf_def inv_sqrtf_def sqr_def)
    then show ?thesis ..
  next
    case (Finite m)
    with assms d have nz: "m \<noteq> 0"
      by (auto simp: gd_mat4f_lookat_def)
    from assms d Finite nz
    have "[h' mtx 0 2, h' mtx 1 2, h' mtx 2 2]
               = [f32_rnd (vec_z d * - f32_rnd (1 / f32_rnd (sqrt m))),
                  f32_rnd (vec_y d * - f32_rnd (1 / f32_rnd (sqrt m))),
                  f32_rnd (vec_x d * - f32_rnd (1 / f32_rnd (sqrt m)))]"
      by (auto simp: gd_mat4f_lookat_def Let_def f32_inv_sqrtf_def split: option.splits)
    with d Finite nz show ?thesis by blast
  qed
qed

section \<open>The claims\<close>

subsection \<open>C1: inverse round trip\<close>

text \<open>
  C1 says that for every non-singular matrix \<open>M\<close> the product of \<open>M\<close> and
  \<^verbatim>\<open>gd_inverse_mat4f(M)\<close>, computed by \<^verbatim>\<open>gd_mult_mat4f\<close>, is the identity, and that a
  singular matrix such as the all-zeros matrix reaches the fatal path.
  The second half holds. The first does not: the function divides the adjugate by the
  determinant of the adjugate, which is the cube of the determinant of \<open>M\<close>. For
  \<open>M = 2 I\<close>, of determinant 16, the adjugate is \<open>8 I\<close>, its determinant is 4096, the
  result is \<open>I / 512\<close> and the product with \<open>M\<close> is \<open>I / 256\<close>. Every number of this
  run is a power of two, so \<^verbatim>\<open>f32\<close> arithmetic computes it without rounding.
\<close>

theorem gd_inverse_mat4f_twice_identity:
  "mat4 (scaled_identity 2) (Buf 0) = [[2, 0, 0, 0], [0, 2, 0, 0], [0, 0, 2, 0], [0, 0, 0, 2]]
   \<and> gd_mat4f_det (Buf 0) (scaled_identity 2) = 16
   \<and> \<not> isl (gd_inverse_mat4f (Buf 0) (Buf 1) (scaled_identity 2))
   \<and> mat4 (projr (gd_inverse_mat4f (Buf 0) (Buf 1) (scaled_identity 2))) (Buf 1)
       = [[1 / 512, 0, 0, 0], [0, 1 / 512, 0, 0], [0, 0, 1 / 512, 0], [0, 0, 0, 1 / 512]]
   \<and> mat4 (gd_mult_mat4f (Buf 0) (Buf 1) (Buf 2)
              (projr (gd_inverse_mat4f (Buf 0) (Buf 1) (scaled_identity 2)))) (Buf 2)
       = [[1 / 256, 0, 0, 0], [0, 1 / 256, 0, 0], [0, 0, 1 / 256, 0], [0, 0, 0, 1 / 256]]
   \<and> mat4 (gd_mult_mat4f (Buf 0) (Buf 1) (Buf 2)
              (projr (gd_inverse_mat4f (Buf 0) (Buf 1) (scaled_identity 2)))) (Buf 2)
       \<noteq> identity_rows
   \<and> gd_inverse_mat4f (Buf 0) (Buf 1) zero_store = Inl Non_singular_matrix"
proof -
  let ?M = "scaled_identity 2"
  let ?a = "gd_adjunct_mat4f (Buf 0) (Buf 1) ?M"
  let ?h = "for_loop 0 4 (\<lambda>i. for_loop 0 4 (\<lambda>j. divide_element (Buf 1) 4096 i j)) ?a"
  have d: "gd_mat4f_det (Buf 1) ?a = 4096"
    by (simp add: scaled_identity_adjunct_det)
  have inv: "gd_inverse_mat4f (Buf 0) (Buf 1) ?M = Inr ?h"
    using d by (simp add: gd_inverse_mat4f_def Let_def absf_def)
  have r: "mat4 ?h (Buf 1)
       = [[1 / 512, 0, 0, 0], [0, 1 / 512, 0, 0], [0, 0, 1 / 512, 0], [0, 0, 0, 1 / 512]]"
    by (simp add: inverse_loop_mat4 scaled_identity_adjunct scaled_identity_mat4)
  have "mat4 ?h (Buf 0) = mat4 ?M (Buf 0)"
    by (rule mat4_cong) (simp add: inverse_loop_frame adjunct_frame)
  then have m: "mat4 ?h (Buf 0) = [[2, 0, 0, 0], [0, 2, 0, 0], [0, 0, 2, 0], [0, 0, 0, 2]]"
    by (simp only: scaled_identity_mat4)
  have p: "mat4 (gd_mult_mat4f (Buf 0) (Buf 1) (Buf 2) ?h) (Buf 2)
       = [[1 / 256, 0, 0, 0], [0, 1 / 256, 0, 0], [0, 0, 1 / 256, 0], [0, 0, 0, 1 / 256]]"
    using r m by (simp add: mult_mat4 mat_mul_def)
  have z: "gd_inverse_mat4f (Buf 0) (Buf 1) zero_store = Inl Non_singular_matrix"
    by (simp add: gd_inverse_mat4f_def Let_def gd_adjunct_mat4f_def gd_mat4f_det_def
        load_InvMat4_def zero_store_def gd_3x3_det_def gd_2x2_det_def absf_def)
  show ?thesis
    using inv r p z by (simp add: scaled_identity_mat4 scaled_identity_det identity_rows_def)
qed

subsection \<open>C5: what the inverse computes\<close>

text \<open>
  C5: for every input matrix, \<^verbatim>\<open>gd_inverse_mat4f\<close> first computes the adjugate into the
  destination, then the determinant of that adjugate (read from the destination, not
  from the original matrix); it reaches the fatal path if and only if the absolute
  value of that determinant is below \<open>1e-5\<close>, in which case there is no result store;
  otherwise each of the sixteen elements of the destination is the adjugate's element
  divided by that determinant, and no other matrix is changed by the division.
\<close>

theorem gd_inverse_mat4f_adjugate_determinant:
  "(gd_inverse_mat4f src dst h = Inl Non_singular_matrix
      \<longleftrightarrow> absf (gd_mat4f_det dst (gd_adjunct_mat4f src dst h)) < 1 / 10 ^ 5)
   \<and> (\<not> absf (gd_mat4f_det dst (gd_adjunct_mat4f src dst h)) < 1 / 10 ^ 5 \<longrightarrow>
        (\<exists>h'. gd_inverse_mat4f src dst h = Inr h'
           \<and> mat4 h' dst = map (map (\<lambda>v. v / gd_mat4f_det dst (gd_adjunct_mat4f src dst h)))
                             (mat4 (gd_adjunct_mat4f src dst h) dst)
           \<and> (\<forall>p. p \<noteq> dst \<longrightarrow> h' p = gd_adjunct_mat4f src dst h p)))"
  by (simp add: gd_inverse_mat4f_def Let_def inverse_loop_mat4 inverse_loop_frame)

theorem gd_inverse_mat4f_adjugate_determinant_witness:
  "gd_mat4f_det (Buf 0) (scaled_identity 2) = 16
   \<and> gd_mat4f_det (Buf 1) (gd_adjunct_mat4f (Buf 0) (Buf 1) (scaled_identity 2)) = 4096
   \<and> \<not> absf (gd_mat4f_det (Buf 1) (gd_adjunct_mat4f (Buf 0) (Buf 1) (scaled_identity 2))) < 1 / 10 ^ 5
   \<and> (\<exists>h'. gd_inverse_mat4f (Buf 0) (Buf 1) (scaled_identity 2) = Inr h'
         \<and> mat4 h' (Buf 1)
             = [[1 / 512, 0, 0, 0], [0, 1 / 512, 0, 0], [0, 0, 1 / 512, 0], [0, 0, 0, 1 / 512]])"
proof -
  have d: "gd_mat4f_det (Buf 1) (gd_adjunct_mat4f (Buf 0) (Buf 1) (scaled_identity 2)) = 4096"
    by (simp add: scaled_identity_adjunct_det)
  have a: "mat4 (gd_adjunct_mat4f (Buf 0) (Buf 1) (scaled_identity 2)) (Buf 1)
             = [[8, 0, 0, 0], [0, 8, 0, 0], [0, 0, 8, 0], [0, 0, 0, 8]]"
    by (simp add: scaled_identity_adjunct scaled_identity_mat4)
  show ?thesis
    using gd_inverse_mat4f_adjugate_determinant [of "Buf 0" "Buf 1" "scaled_identity 2"] d a
    by (auto simp: absf_def scaled_identity_det)
qed

subsection \<open>C10: destination aliasing the source\<close>

text \<open>
  C10: \<^verbatim>\<open>gd_adjunct_mat4f\<close> and \<^verbatim>\<open>gd_mat4f_det\<close> read the sixteen elements of their source
  into the local structure before anything is written. So for every store and every
  matrix \<open>p\<close>, the adjugate written over \<open>p\<close> itself is the adjugate written to any
  other destination \<open>q\<close>, the determinants read back are equal, and
  \<^verbatim>\<open>gd_inverse_mat4f\<close> called in place has the same outcome (the same fatal error or the
  same sixteen elements) as with the destination \<open>q\<close>.
\<close>

theorem gd_adjunct_mat4f_alias:
  "mat4 (gd_adjunct_mat4f p p h) p = mat4 (gd_adjunct_mat4f p q h) q
   \<and> gd_mat4f_det p (gd_adjunct_mat4f p p h) = gd_mat4f_det q (gd_adjunct_mat4f p q h)
   \<and> map_sum id (\<lambda>h'. mat4 h' p) (gd_inverse_mat4f p p h)
       = map_sum id (\<lambda>h'. mat4 h' q) (gd_inverse_mat4f p q h)"
proof -
  have a: "mat4 (gd_adjunct_mat4f p p h) p = mat4 (gd_adjunct_mat4f p q h) q"
    by (rule adjunct_alias)
  have d: "gd_mat4f_det p (gd_adjunct_mat4f p p h) = gd_mat4f_det q (gd_adjunct_mat4f p q h)"
    by (rule det_mat4_cong [OF a])
  have i: "map_sum id (\<lambda>h'. mat4 h' p) (gd_inverse_mat4f p p h)
       = map_sum id (\<lambda>h'. mat4 h' q) (gd_inverse_mat4f p q h)"
    by (simp add: gd_inverse_mat4f_def Let_def d inverse_loop_mat4 a)
  from a d i show ?thesis by simp
qed

theorem gd_adjunct_mat4f_alias_witness:
  "mat4 (gd_adjunct_mat4f (Buf 0) (Buf 0) counting_store) (Buf 0)
     = mat4 (gd_adjunct_mat4f (Buf 0) (Buf 1) counting_store) (Buf 1)
   \<and> map_sum id (\<lambda>h'. mat4 h' (Buf 0)) (gd_inverse_mat4f (Buf 0) (Buf 0) (scaled_identity 2))
       = Inr [[1 / 512, 0, 0, 0], [0, 1 / 512, 0, 0], [0, 0, 1 / 512, 0], [0, 0, 0, 1 / 512]]
   \<and> map_sum id (\<lambda>h'. mat4 h' (Buf 1)) (gd_inverse_mat4f (Buf 0) (Buf 1) (scaled_identity 2))
       = Inr [[1 / 512, 0, 0, 0], [0, 1 / 512, 0, 0], [0, 0, 1 / 512, 0], [0, 0, 0, 1 / 512]]"
proof -
  have d: "gd_mat4f_det (Buf 1) (gd_adjunct_mat4f (Buf 0) (Buf 1) (scaled_identity 2)) = 4096"
    by (simp add: scaled_identity_adjunct_det)
  have "map_sum id (\<lambda>h'. mat4 h' (Buf 1)) (gd_inverse_mat4f (Buf 0) (Buf 1) (scaled_identity 2))
       = Inr [[1 / 512, 0, 0, 0], [0, 1 / 512, 0, 0], [0, 0, 1 / 512, 0], [0, 0, 0, 1 / 512]]"
    using d by (simp add: gd_inverse_mat4f_def Let_def absf_def inverse_loop_mat4
        scaled_identity_adjunct scaled_identity_mat4)
  then show ?thesis
    using gd_adjunct_mat4f_alias [of "Buf 0" counting_store "Buf 1"]
      gd_adjunct_mat4f_alias [of "Buf 0" "scaled_identity 2" "Buf 1"]
    by simp
qed

subsection \<open>C3: the row shift\<close>

text \<open>
  C3 says that \<^verbatim>\<open>gd_shift_mat_up\<close> makes row 0's first three components the new row 3
  and shifts rows 1..3 up by one position. At the matrix of elements \<open>4 i + j\<close> the
  function returns the rows \<open>(5,6,7,0)\<close>, \<open>(9,10,11,0)\<close>, \<open>(13,14,15,0)\<close>, \<open>(1,2,3,1)\<close>,
  where the claim gives \<open>(4,5,6,0)\<close>, \<open>(8,9,10,0)\<close>, \<open>(12,13,14,0)\<close>, \<open>(0,1,2,1)\<close>.
\<close>

theorem gd_shift_mat_up_not_row_shift:
  "mat4 (gd_shift_mat_up (Buf 0) counting_store) (Buf 0)
     = [[5, 6, 7, 0], [9, 10, 11, 0], [13, 14, 15, 0], [1, 2, 3, 1]]
   \<and> shift_rows_up (mat4 counting_store (Buf 0))
     = [[4, 5, 6, 0], [8, 9, 10, 0], [12, 13, 14, 0], [0, 1, 2, 1]]
   \<and> mat4 (gd_shift_mat_up (Buf 0) counting_store) (Buf 0)
     \<noteq> shift_rows_up (mat4 counting_store (Buf 0))"
proof -
  have c: "mat4 (gd_shift_mat_up (Buf 0) counting_store) (Buf 0)
     = [[5, 6, 7, 0], [9, 10, 11, 0], [13, 14, 15, 0], [1, 2, 3, 1]]"
    by (simp add: shift_mat4 counting_store_def)
  have s: "shift_rows_up (mat4 counting_store (Buf 0))
     = [[4, 5, 6, 0], [8, 9, 10, 0], [12, 13, 14, 0], [0, 1, 2, 1]]"
    by (simp add: shift_rows_up_def mat4_def counting_store_def)
  show ?thesis
    by (simp add: c s)
qed

text \<open>
  C3 as amended: for every matrix, \<^verbatim>\<open>gd_shift_mat_up\<close> moves the 3\<times>3 block of rows
  1..3 and columns 1..3 up by one row and left by one column (element \<open>[i+1][j+1]\<close>
  goes to \<open>[i][j]\<close>), makes the last three components of row 0 (columns 1..3) the
  first three components of the new row 3, and resets the last column to
  \<open>(0,0,0,1)\<close>.
\<close>

theorem gd_shift_mat_up_diagonal:
  "mat4 (gd_shift_mat_up mtx h) mtx =
     [[h mtx 1 1, h mtx 1 2, h mtx 1 3, 0],
      [h mtx 2 1, h mtx 2 2, h mtx 2 3, 0],
      [h mtx 3 1, h mtx 3 2, h mtx 3 3, 0],
      [h mtx 0 1, h mtx 0 2, h mtx 0 3, 1]]"
  by (rule shift_mat4)

theorem gd_shift_mat_up_diagonal_witness:
  "mat4 (gd_shift_mat_up (Buf 2) counting_store) (Buf 2)
     = [[5, 6, 7, 0], [9, 10, 11, 0], [13, 14, 15, 0], [1, 2, 3, 1]]"
  using gd_shift_mat_up_diagonal [of "Buf 2" counting_store]
  by (simp add: counting_store_def)

subsection \<open>C4: the first row in the quaternion builder\<close>

text \<open>
  C4 says that \<^verbatim>\<open>gd_create_quat_rot_mat\<close> forces the first matrix row to \<open>(1,0,0,0)\<close>
  before the shift, so that the final matrix has a homogeneous last row and last
  column for every initial contents of the output matrix. The function writes only
  element \<open>[0][0]\<close> of that row; elements \<open>[0][1]\<close>, \<open>[0][2]\<close>, \<open>[0][3]\<close> keep what the
  buffer held and the shift makes them the last row. With the unit quaternion and a
  buffer whose first row is \<open>(0,1,2,3)\<close>, the last row of the result is \<open>(1,2,3,1)\<close>,
  not \<open>(0,0,0,1)\<close>; the last column is \<open>(0,0,0,1)\<close>.
\<close>

theorem gd_create_quat_rot_mat_last_row:
  "mat4 counting_store (Buf 0) ! 0 = [0, 1, 2, 3]
   \<and> mat4 (gd_create_quat_rot_mat unit_quat (Buf 0) counting_store) (Buf 0)
       = [[1, 0, 0, 0], [0, 1, 0, 0], [0, 0, 1, 0], [1, 2, 3, 1]]
   \<and> mat4 (gd_create_quat_rot_mat unit_quat (Buf 0) counting_store) (Buf 0) ! 3
       \<noteq> [0, 0, 0, 1]"
proof -
  have r: "mat4 counting_store (Buf 0) ! 0 = [0, 1, 2, 3]"
    by (simp add: mat4_def counting_store_def)
  have q: "mat4 (gd_create_quat_rot_mat unit_quat (Buf 0) counting_store) (Buf 0)
       = [[1, 0, 0, 0], [0, 1, 0, 0], [0, 0, 1, 0], [1, 2, 3, 1]]"
    by (simp add: quat_mat4 counting_store_def unit_quat_def sqr_def)
  show ?thesis
    by (simp add: r q)
qed

subsection \<open>C9: the vertical direction\<close>

text \<open>
  C9: for every purely vertical direction \<open>(0, y, 0)\<close>, in particular \<open>(0, 5, 0)\<close>, the
  horizontal magnitude \<^verbatim>\<open>hMag\<close> computed by \<^verbatim>\<open>gd_create_origin_lookat\<close> is exactly zero
  and the matrix written is the fixed one of the \<^verbatim>\<open>else\<close> branch, with rows
  \<open>(0,0,1,0)\<close>, \<open>(1,0,0,0)\<close>, \<open>(0,1,0,0)\<close>, \<open>(0,0,0,1)\<close>, whatever \<open>y\<close> and whatever the
  buffer held.
\<close>

theorem gd_create_origin_lookat_vertical:
  "origin_lookat_hMag \<lparr>vec_x = 0, vec_y = y, vec_z = 0\<rparr> = 0
   \<and> mat4 (gd_create_origin_lookat mtx \<lparr>vec_x = 0, vec_y = y, vec_z = 0\<rparr> h) mtx
       = [[0, 0, 1, 0], [1, 0, 0, 0], [0, 1, 0, 0], [0, 0, 0, 1]]"
proof -
  have z: "origin_lookat_hMag \<lparr>vec_x = 0, vec_y = y, vec_z = 0\<rparr> = 0"
    by (simp add: origin_lookat_hMag_def origin_lookat_unit_def gd_normalize_vec3f_def
        Let_def sqr_def)
  then show ?thesis
    by (simp add: gd_create_origin_lookat_def Let_def mat4_def)
qed

theorem gd_create_origin_lookat_vertical_witness:
  "fst (gd_normalize_vec3f \<lparr>vec_x = 0, vec_y = 5, vec_z = 0\<rparr>) = TRUE
   \<and> origin_lookat_unit \<lparr>vec_x = 0, vec_y = 5, vec_z = 0\<rparr> = \<lparr>vec_x = 0, vec_y = 1, vec_z = 0\<rparr>
   \<and> origin_lookat_hMag \<lparr>vec_x = 0, vec_y = 5, vec_z = 0\<rparr> = 0
   \<and> mat4 (gd_create_origin_lookat (Buf 0) \<lparr>vec_x = 0, vec_y = 5, vec_z = 0\<rparr> counting_store) (Buf 0)
       = [[0, 0, 1, 0], [1, 0, 0, 0], [0, 1, 0, 0], [0, 0, 0, 1]]"
proof -
  have n: "gd_normalize_vec3f \<lparr>vec_x = 0, vec_y = 5, vec_z = 0\<rparr>
             = (TRUE, \<lparr>vec_x = 0, vec_y = 1, vec_z = 0\<rparr>)"
    by (rule normalize_0_5_0)
  then have "origin_lookat_unit \<lparr>vec_x = 0, vec_y = 5, vec_z = 0\<rparr> = \<lparr>vec_x = 0, vec_y = 1, vec_z = 0\<rparr>"
    by (simp add: origin_lookat_unit_def)
  moreover from n have "fst (gd_normalize_vec3f \<lparr>vec_x = 0, vec_y = 5, vec_z = 0\<rparr>) = TRUE"
    by simp
  ultimately show ?thesis
    using gd_create_origin_lookat_vertical [of 5 "Buf 0" counting_store] by simp
qed

subsection \<open>C6: normalisation\<close>

text \<open>
  C6 says that for every vector with nonzero squared magnitude \<^verbatim>\<open>gd_normalize_vec3f\<close>
  returns success with a result of magnitude 1 within float tolerance. The vector
  \<open>(2\<^sup>1\<^sup>0\<^sup>0, 0, 0)\<close> is a finite binary32 vector whose squared magnitude \<open>2\<^sup>2\<^sup>0\<^sup>0\<close> is not
  zero. The \<^verbatim>\<open>f32\<close> product \<^verbatim>\<open>sqr(vec->x)\<close> overflows to \<open>+\<infinity>\<close>, the zero test fails,
  the scale factor \<^verbatim>\<open>1.0f / sqrtf(mag)\<close> is 0, and the function returns \<^verbatim>\<open>TRUE\<close> with
  the vector \<open>(0, 0, 0)\<close>, of magnitude 0.
\<close>

theorem gd_normalize_vec3f_overflow_not_unit:
  "sqr (2 ^ 100) + sqr 0 + sqr 0 \<noteq> (0::real)
   \<and> f32_squared_magnitude (2 ^ 100) 0 0 = Pos_inf
   \<and> gd_normalize_vec3f \<lparr>vec_x = 2 ^ 100, vec_y = 0, vec_z = 0\<rparr>
       = (TRUE, \<lparr>vec_x = 0, vec_y = 0, vec_z = 0\<rparr>)
   \<and> euclidean_norm (snd (gd_normalize_vec3f \<lparr>vec_x = 2 ^ 100, vec_y = 0, vec_z = 0\<rparr>)) = 0
   \<and> \<not> \<bar>euclidean_norm (snd (gd_normalize_vec3f \<lparr>vec_x = 2 ^ 100, vec_y = 0, vec_z = 0\<rparr>)) - 1\<bar>
          \<le> 1 / 10 ^ 5"
proof -
  have n: "gd_normalize_vec3f \<lparr>vec_x = 2 ^ 100, vec_y = 0, vec_z = 0\<rparr>
       = (TRUE, \<lparr>vec_x = 0, vec_y = 0, vec_z = 0\<rparr>)"
    by (rule normalize_overflow [OF squared_magnitude_huge])
  have z: "euclidean_norm \<lparr>vec_x = 0, vec_y = 0, vec_z = 0\<rparr> = 0"
    by (simp add: euclidean_norm_def)
  have s: "sqr (2 ^ 100) + sqr 0 + sqr 0 \<noteq> (0::real)"
    by (simp add: sqr_def)
  show ?thesis
    unfolding n snd_conv z using s squared_magnitude_huge by simp
qed

text \<open>
  C6 as amended. Let \<open>m\<close> be the squared magnitude as the code computes it: the three
  squares and the two sums, each rounded to binary32.

  \<^item> When \<open>m\<close> is exactly zero, which also happens for a nonzero vector whose squares
    underflow, the three components are set to 0 and the function returns \<^verbatim>\<open>FALSE\<close>.
    The test is exact, with no epsilon.
  \<^item> When \<open>m\<close> is finite and not zero, each component is multiplied by the rounded
    \<open>1 / sqrt m\<close>, the product is rounded, and the function returns \<^verbatim>\<open>TRUE\<close>.
  \<^item> When moreover \<open>m\<close> is a normal number, at least \<open>2\<^sup>-\<^sup>1\<^sup>2\<^sup>6\<close>, the magnitude of the
    result is 1 within \<open>10\<^sup>-\<^sup>5\<close>. This is the case of every vector whose components have
    an absolute value of at most \<open>2\<^sup>6\<^sup>0\<close>, one of them of at least \<open>2\<^sup>-\<^sup>6\<^sup>0\<close>.
  \<^item> When \<open>m\<close> has overflowed, the function returns \<^verbatim>\<open>TRUE\<close> and the vector is zero.
\<close>

theorem gd_normalize_vec3f_by_computed_magnitude:
  "(f32_squared_magnitude a b c = Finite 0 \<longrightarrow>
      gd_normalize_vec3f \<lparr>vec_x = a, vec_y = b, vec_z = c\<rparr>
        = (FALSE, \<lparr>vec_x = 0, vec_y = 0, vec_z = 0\<rparr>))
   \<and> (\<forall>m. f32_squared_magnitude a b c = Finite m \<and> m \<noteq> 0 \<longrightarrow>
      gd_normalize_vec3f \<lparr>vec_x = a, vec_y = b, vec_z = c\<rparr>
        = (TRUE, \<lparr>vec_x = f32_rnd (a * f32_rnd (1 / f32_rnd (sqrt m))),
                  vec_y = f32_rnd (b * f32_rnd (1 / f32_rnd (sqrt m))),
                  vec_z = f32_rnd (c * f32_rnd (1 / f32_rnd (sqrt m)))\<rparr>))
   \<and> (\<forall>m. f32_squared_magnitude a b c = Finite m \<and> f32_min_normal \<le> m \<longrightarrow>
      \<bar>euclidean_norm (snd (gd_normalize_vec3f \<lparr>vec_x = a, vec_y = b, vec_z = c\<rparr>)) - 1\<bar>
        \<le> 1 / 10 ^ 5)
   \<and> (\<bar>a\<bar> \<le> 2 ^ 60 \<and> \<bar>b\<bar> \<le> 2 ^ 60 \<and> \<bar>c\<bar> \<le> 2 ^ 60
        \<and> (1 / 2 ^ 60 \<le> \<bar>a\<bar> \<or> 1 / 2 ^ 60 \<le> \<bar>b\<bar> \<or> 1 / 2 ^ 60 \<le> \<bar>c\<bar>) \<longrightarrow>
      fst (gd_normalize_vec3f \<lparr>vec_x = a, vec_y = b, vec_z = c\<rparr>) = TRUE
      \<and> \<bar>euclidean_norm (snd (gd_normalize_vec3f \<lparr>vec_x = a, vec_y = b, vec_z = c\<rparr>)) - 1\<bar>
          \<le> 1 / 10 ^ 5)
   \<and> (f32_squared_magnitude a b c = Pos_inf \<longrightarrow>
      gd_normalize_vec3f \<lparr>vec_x = a, vec_y = b, vec_z = c\<rparr>
        = (TRUE, \<lparr>vec_x = 0, vec_y = 0, vec_z = 0\<rparr>))
   \<and> FALSE \<noteq> TRUE"
proof (intro conjI impI allI)
  assume "f32_squared_magnitude a b c = Finite 0"
  then show "gd_normalize_vec3f \<lparr>vec_x = a, vec_y = b, vec_z = c\<rparr>
        = (FALSE, \<lparr>vec_x = 0, vec_y = 0, vec_z = 0\<rparr>)"
    by (rule normalize_zero)
next
  fix m
  assume "f32_squared_magnitude a b c = Finite m \<and> m \<noteq> 0"
  then show "gd_normalize_vec3f \<lparr>vec_x = a, vec_y = b, vec_z = c\<rparr>
        = (TRUE, \<lparr>vec_x = f32_rnd (a * f32_rnd (1 / f32_rnd (sqrt m))),
                  vec_y = f32_rnd (b * f32_rnd (1 / f32_rnd (sqrt m))),
                  vec_z = f32_rnd (c * f32_rnd (1 / f32_rnd (sqrt m)))\<rparr>)"
    by (simp add: normalize_finite)
next
  fix m
  assume "f32_squared_magnitude a b c = Finite m \<and> f32_min_normal \<le> m"
  then show "\<bar>euclidean_norm (snd (gd_normalize_vec3f \<lparr>vec_x = a, vec_y = b, vec_z = c\<rparr>)) - 1\<bar>
        \<le> 1 / 10 ^ 5"
    by (simp only: normalize_unit)
next
  assume "\<bar>a\<bar> \<le> 2 ^ 60 \<and> \<bar>b\<bar> \<le> 2 ^ 60 \<and> \<bar>c\<bar> \<le> 2 ^ 60
        \<and> (1 / 2 ^ 60 \<le> \<bar>a\<bar> \<or> 1 / 2 ^ 60 \<le> \<bar>b\<bar> \<or> 1 / 2 ^ 60 \<le> \<bar>c\<bar>)"
  then show "fst (gd_normalize_vec3f \<lparr>vec_x = a, vec_y = b, vec_z = c\<rparr>) = TRUE"
    by (simp only: normalize_in_range(1))
next
  assume "\<bar>a\<bar> \<le> 2 ^ 60 \<and> \<bar>b\<bar> \<le> 2 ^ 60 \<and> \<bar>c\<bar> \<le> 2 ^ 60
        \<and> (1 / 2 ^ 60 \<le> \<bar>a\<bar> \<or> 1 / 2 ^ 60 \<le> \<bar>b\<bar> \<or> 1 / 2 ^ 60 \<le> \<bar>c\<bar>)"
  then show "\<bar>euclidean_norm (snd (gd_normalize_vec3f \<lparr>vec_x = a, vec_y = b, vec_z = c\<rparr>)) - 1\<bar>
          \<le> 1 / 10 ^ 5"
    by (simp only: normalize_in_range(2))
next
  assume "f32_squared_magnitude a b c = Pos_inf"
  then show "gd_normalize_vec3f \<lparr>vec_x = a, vec_y = b, vec_z = c\<rparr>
        = (TRUE, \<lparr>vec_x = 0, vec_y = 0, vec_z = 0\<rparr>)"
    by (rule normalize_overflow)
next
  show "FALSE \<noteq> TRUE"
    by (simp add: FALSE_def TRUE_def)
qed

theorem gd_normalize_vec3f_by_computed_magnitude_witness:
  "f32_squared_magnitude 0 0 0 = Finite 0
   \<and> gd_normalize_vec3f \<lparr>vec_x = 0, vec_y = 0, vec_z = 0\<rparr>
       = (FALSE, \<lparr>vec_x = 0, vec_y = 0, vec_z = 0\<rparr>)
   \<and> f32_squared_magnitude (1 / 2 ^ 100) 0 0 = Finite 0
   \<and> gd_normalize_vec3f \<lparr>vec_x = 1 / 2 ^ 100, vec_y = 0, vec_z = 0\<rparr>
       = (FALSE, \<lparr>vec_x = 0, vec_y = 0, vec_z = 0\<rparr>)
   \<and> f32_squared_magnitude 3 4 0 = Finite 25
   \<and> f32_min_normal \<le> 25
   \<and> gd_normalize_vec3f \<lparr>vec_x = 3, vec_y = 4, vec_z = 0\<rparr>
       = (TRUE, \<lparr>vec_x = 5033165 / 8388608, vec_y = 13421773 / 16777216, vec_z = 0\<rparr>)
   \<and> \<bar>euclidean_norm (snd (gd_normalize_vec3f \<lparr>vec_x = 3, vec_y = 4, vec_z = 0\<rparr>)) - 1\<bar>
       \<le> 1 / 10 ^ 5
   \<and> fst (gd_normalize_vec3f \<lparr>vec_x = 1 / 2, vec_y = - 7, vec_z = 1000\<rparr>) = TRUE
   \<and> \<bar>euclidean_norm (snd (gd_normalize_vec3f \<lparr>vec_x = 1 / 2, vec_y = - 7, vec_z = 1000\<rparr>)) - 1\<bar>
       \<le> 1 / 10 ^ 5
   \<and> f32_squared_magnitude (2 ^ 100) 0 0 = Pos_inf
   \<and> gd_normalize_vec3f \<lparr>vec_x = 2 ^ 100, vec_y = 0, vec_z = 0\<rparr>
       = (TRUE, \<lparr>vec_x = 0, vec_y = 0, vec_z = 0\<rparr>)"
proof -
  have n: "f32_min_normal \<le> 25"
    by (simp add: f32_min_normal_def)
  have r: "\<bar>1 / 2\<bar> \<le> (2 ^ 60 :: real) \<and> \<bar>- 7\<bar> \<le> (2 ^ 60 :: real) \<and> \<bar>1000\<bar> \<le> (2 ^ 60 :: real)
        \<and> (1 / 2 ^ 60 \<le> \<bar>1 / 2 :: real\<bar> \<or> 1 / 2 ^ 60 \<le> \<bar>- 7 :: real\<bar>
             \<or> 1 / 2 ^ 60 \<le> \<bar>1000 :: real\<bar>)"
    by simp
  from gd_normalize_vec3f_by_computed_magnitude [of "1 / 2" "- 7" 1000] r
  have F: "fst (gd_normalize_vec3f \<lparr>vec_x = 1 / 2, vec_y = - 7, vec_z = 1000\<rparr>) = TRUE
   \<and> \<bar>euclidean_norm (snd (gd_normalize_vec3f \<lparr>vec_x = 1 / 2, vec_y = - 7, vec_z = 1000\<rparr>)) - 1\<bar>
       \<le> 1 / 10 ^ 5"
    by blast
  from gd_normalize_vec3f_by_computed_magnitude [of 0 0 0] squared_magnitude_0_0_0
  have A: "gd_normalize_vec3f \<lparr>vec_x = 0, vec_y = 0, vec_z = 0\<rparr>
       = (FALSE, \<lparr>vec_x = 0, vec_y = 0, vec_z = 0\<rparr>)"
    by blast
  from gd_normalize_vec3f_by_computed_magnitude [of "1 / 2 ^ 100" 0 0] squared_magnitude_tiny
  have B: "gd_normalize_vec3f \<lparr>vec_x = 1 / 2 ^ 100, vec_y = 0, vec_z = 0\<rparr>
       = (FALSE, \<lparr>vec_x = 0, vec_y = 0, vec_z = 0\<rparr>)"
    by blast
  have "(25::real) \<noteq> 0"
    by simp
  with gd_normalize_vec3f_by_computed_magnitude [of 3 4 0] squared_magnitude_3_4_0
  have "gd_normalize_vec3f \<lparr>vec_x = 3, vec_y = 4, vec_z = 0\<rparr>
        = (TRUE, \<lparr>vec_x = f32_rnd (3 * f32_rnd (1 / f32_rnd (sqrt 25))),
                  vec_y = f32_rnd (4 * f32_rnd (1 / f32_rnd (sqrt 25))),
                  vec_z = f32_rnd (0 * f32_rnd (1 / f32_rnd (sqrt 25)))\<rparr>)"
    by blast
  then have C: "gd_normalize_vec3f \<lparr>vec_x = 3, vec_y = 4, vec_z = 0\<rparr>
       = (TRUE, \<lparr>vec_x = 5033165 / 8388608, vec_y = 13421773 / 16777216, vec_z = 0\<rparr>)"
    by (simp only: sqrt_25 f32_rnd_5 f32_rnd_fifth f32_rnd_3_fifths f32_rnd_4_fifths
        mult_zero_left f32_rnd_zero)
  from gd_normalize_vec3f_by_computed_magnitude [of 3 4 0] squared_magnitude_3_4_0 n
  have D: "\<bar>euclidean_norm (snd (gd_normalize_vec3f \<lparr>vec_x = 3, vec_y = 4, vec_z = 0\<rparr>)) - 1\<bar>
       \<le> 1 / 10 ^ 5"
    by blast
  from gd_normalize_vec3f_by_computed_magnitude [of "2 ^ 100" 0 0] squared_magnitude_huge
  have E: "gd_normalize_vec3f \<lparr>vec_x = 2 ^ 100, vec_y = 0, vec_z = 0\<rparr>
       = (TRUE, \<lparr>vec_x = 0, vec_y = 0, vec_z = 0\<rparr>)"
    by blast
  from F have F1: "fst (gd_normalize_vec3f \<lparr>vec_x = 1 / 2, vec_y = - 7, vec_z = 1000\<rparr>) = TRUE"
    and F2: "\<bar>euclidean_norm (snd (gd_normalize_vec3f
                  \<lparr>vec_x = 1 / 2, vec_y = - 7, vec_z = 1000\<rparr>)) - 1\<bar> \<le> 1 / 10 ^ 5"
    by blast+
  from squared_magnitude_0_0_0 A squared_magnitude_tiny B squared_magnitude_3_4_0 n C D F1 F2
    squared_magnitude_huge E
  show ?thesis
    by (intro conjI)
qed

subsection \<open>C7: the rotation matrix builder\<close>

text \<open>
  C7 says that the 3\<times>3 block written by \<^verbatim>\<open>gd_create_rot_matrix\<close> equals
  \<open>R = (1-c)\<cdot>axis\<cdot>axis\<^sup>t + c\<cdot>I + s\<cdot>[axis]\<^sub>\<times>\<close>. For the unit axis \<open>(0,0,1)\<close> and
  \<open>(s, c) = (1, 0)\<close> the block has \<open>[0][1] = 1\<close> and \<open>[1][0] = -1\<close>, where \<open>R\<close> has
  \<open>-1\<close> and \<open>1\<close>: the signs of the sine terms are the opposite ones.
\<close>

theorem gd_create_rot_matrix_not_rodrigues:
  "block3 (gd_create_rot_matrix (Buf 0) \<lparr>vec_x = 0, vec_y = 0, vec_z = 1\<rparr> 1 0 zero_store) (Buf 0)
     = [[0, 1, 0], [- 1, 0, 0], [0, 0, 1]]
   \<and> rodrigues \<lparr>vec_x = 0, vec_y = 0, vec_z = 1\<rparr> 1 0 = [[0, - 1, 0], [1, 0, 0], [0, 0, 1]]
   \<and> block3 (gd_create_rot_matrix (Buf 0) \<lparr>vec_x = 0, vec_y = 0, vec_z = 1\<rparr> 1 0 zero_store) (Buf 0)
     \<noteq> rodrigues \<lparr>vec_x = 0, vec_y = 0, vec_z = 1\<rparr> 1 0"
proof -
  have b: "block3 (gd_create_rot_matrix (Buf 0) \<lparr>vec_x = 0, vec_y = 0, vec_z = 1\<rparr> 1 0 zero_store) (Buf 0)
     = [[0, 1, 0], [- 1, 0, 0], [0, 0, 1]]"
    by (simp add: gd_create_rot_matrix_def Let_def block3_def sqr_def)
  have r: "rodrigues \<lparr>vec_x = 0, vec_y = 0, vec_z = 1\<rparr> 1 0 = [[0, - 1, 0], [1, 0, 0], [0, 0, 1]]"
    by (simp add: rodrigues_def vec_comp_def cross_matrix_def)
  show ?thesis
    by (simp add: b r)
qed

text \<open>
  C7 as amended: for every axis vector (unit or not) and every pair \<open>(s, c)\<close>, the 3\<times>3
  block written by \<^verbatim>\<open>gd_create_rot_matrix\<close> is the transpose of
  \<open>R = (1-c)\<cdot>axis\<cdot>axis\<^sup>t + c\<cdot>I + s\<cdot>[axis]\<^sub>\<times>\<close>, that is \<open>R\<close> with \<open>- s\<close> in place of
  \<open>s\<close>; the last row and the last column are \<open>(0,0,0,1)\<close>; and
  \<^verbatim>\<open>gd_create_rot_mat_angular\<close> passes \<open>deg * 2\<close> through \<^verbatim>\<open>degrees_to_angle\<close>, looks up
  the sine and the cosine of that angle and calls this builder with them.
\<close>

theorem gd_create_rot_matrix_transposed_rodrigues:
  "block3 (gd_create_rot_matrix mtx vec s c h) mtx = transpose3 (rodrigues vec s c)
   \<and> block3 (gd_create_rot_matrix mtx vec s c h) mtx = rodrigues vec (- s) c
   \<and> mat4 (gd_create_rot_matrix mtx vec s c h) mtx ! 3 = [0, 0, 0, 1]
   \<and> map (\<lambda>row. row ! 3) (mat4 (gd_create_rot_matrix mtx vec s c h) mtx) = [0, 0, 0, 1]
   \<and> gd_create_rot_mat_angular T mtx vec deg h
       = gd_create_rot_matrix mtx vec (sins T (degrees_to_angle T (deg * 2)))
           (coss T (degrees_to_angle T (deg * 2))) h"
proof -
  have "block3 (gd_create_rot_matrix mtx vec s c h) mtx = rodrigues vec (- s) c"
    by (simp add: gd_create_rot_matrix_def Let_def block3_def rodrigues_def
        vec_comp_def cross_matrix_def sqr_def algebra_simps)
  moreover have "gd_create_rot_mat_angular T mtx vec deg h
       = gd_create_rot_matrix mtx vec (sins T (degrees_to_angle T (deg * 2)))
           (coss T (degrees_to_angle T (deg * 2))) h"
    by (simp add: gd_create_rot_mat_angular_def Let_def)
  ultimately show ?thesis
    by (simp add: rot_matrix_block3 rot_matrix_mat4)
qed

theorem gd_create_rot_matrix_transposed_rodrigues_witness:
  "block3 (gd_create_rot_matrix (Buf 0) \<lparr>vec_x = 0, vec_y = 0, vec_z = 1\<rparr> 1 0 zero_store) (Buf 0)
     = transpose3 [[0, - 1, 0], [1, 0, 0], [0, 0, 1]]
   \<and> mat4 (gd_create_rot_mat_angular degree_adapter (Buf 0) \<lparr>vec_x = 1, vec_y = 0, vec_z = 0\<rparr> 45
            counting_store) (Buf 0)
     = [[1, 0, 0, 0], [0, 0, 1, 0], [0, - 1, 0, 0], [0, 0, 0, 1]]"
proof -
  have r: "rodrigues \<lparr>vec_x = 0, vec_y = 0, vec_z = 1\<rparr> 1 0 = [[0, - 1, 0], [1, 0, 0], [0, 0, 1]]"
    by (simp add: rodrigues_def vec_comp_def cross_matrix_def)
  have "gd_create_rot_mat_angular degree_adapter (Buf 0) \<lparr>vec_x = 1, vec_y = 0, vec_z = 0\<rparr> 45
            counting_store
        = gd_create_rot_matrix (Buf 0) \<lparr>vec_x = 1, vec_y = 0, vec_z = 0\<rparr> 1 0 counting_store"
    using gd_create_rot_matrix_transposed_rodrigues
      [of "Buf 0" "\<lparr>vec_x = 1, vec_y = 0, vec_z = 0\<rparr>" 1 0 counting_store degree_adapter 45]
    by (simp add: degree_adapter_def)
  then have a: "mat4 (gd_create_rot_mat_angular degree_adapter (Buf 0)
                  \<lparr>vec_x = 1, vec_y = 0, vec_z = 0\<rparr> 45 counting_store) (Buf 0)
     = [[1, 0, 0, 0], [0, 0, 1, 0], [0, - 1, 0, 0], [0, 0, 0, 1]]"
    by (simp add: rot_matrix_mat4 sqr_def)
  from gd_create_rot_matrix_transposed_rodrigues
      [of "Buf 0" "\<lparr>vec_x = 0, vec_y = 0, vec_z = 1\<rparr>" 1 0 zero_store]
  have "block3 (gd_create_rot_matrix (Buf 0) \<lparr>vec_x = 0, vec_y = 0, vec_z = 1\<rparr> 1 0 zero_store) (Buf 0)
     = transpose3 (rodrigues \<lparr>vec_x = 0, vec_y = 0, vec_z = 1\<rparr> 1 0)"
    by blast
  with r a show ?thesis
    by (simp only: simp_thms)
qed

subsection \<open>C8: the raw direction of the look-at matrix\<close>

text \<open>
  C8 says that \<^verbatim>\<open>gd_mat4f_lookat\<close> rescales its raw direction to magnitude 10000
  exactly when the sum of the absolute values of the components is outside
  \<open>[10, 10000]\<close>. With the eye on the target, here both at \<open>(1, 2, 3)\<close>, the sum is 0,
  which is outside the interval, and the direction after the rescaling step is the
  zero vector, of magnitude 0; no matrix of numbers is produced from it. With the eye
  at the origin and the target at \<open>(2\<^sup>-\<^sup>1\<^sup>0\<^sup>0, 0, 0)\<close> the raw direction is not zero, its
  squared magnitude underflows to zero, and the direction after the rescaling step
  is the zero vector again.
\<close>

theorem lookat_direction_zero_not_rescaled:
  "lookat_raw_direction 1 2 3 1 2 3 = Some \<lparr>vec_x = 0, vec_y = 0, vec_z = 0\<rparr>
   \<and> lookat_abs_sum \<lparr>vec_x = 0, vec_y = 0, vec_z = 0\<rparr> = Finite 0
   \<and> lookat_direction 1 2 3 1 2 3 = Some \<lparr>vec_x = 0, vec_y = 0, vec_z = 0\<rparr>
   \<and> gd_mat4f_lookat (Buf 0) 1 2 3 1 2 3 0 1 0 zero_store = None
   \<and> lookat_raw_direction 0 0 0 (1 / 2 ^ 100) 0 0
       = Some \<lparr>vec_x = 0, vec_y = 0, vec_z = 1 / 2 ^ 100\<rparr>
   \<and> lookat_abs_sum \<lparr>vec_x = 0, vec_y = 0, vec_z = 1 / 2 ^ 100\<rparr> = Finite (1 / 2 ^ 100)
   \<and> lookat_direction 0 0 0 (1 / 2 ^ 100) 0 0 = Some \<lparr>vec_x = 0, vec_y = 0, vec_z = 0\<rparr>
   \<and> euclidean_norm \<lparr>vec_x = 0, vec_y = 0, vec_z = 0\<rparr> = 0"
proof -
  have r1: "lookat_raw_direction 1 2 3 1 2 3 = Some \<lparr>vec_x = 0, vec_y = 0, vec_z = 0\<rparr>"
    by (simp add: lookat_raw_direction_def f32_sub_def f32_huge_def)
  have s1: "lookat_abs_sum \<lparr>vec_x = 0, vec_y = 0, vec_z = 0\<rparr> = Finite 0"
    by (simp only: lookat_abs_sum_def GdVec3f.select_convs absf_0 f32_add_0_0)
  have d1: "lookat_direction 1 2 3 1 2 3 = Some \<lparr>vec_x = 0, vec_y = 0, vec_z = 0\<rparr>"
    by (simp add: lookat_direction_def r1 s1 f32_gt_def f32_lt_def
        normalize_zero [OF squared_magnitude_0_0_0])
  have m1: "gd_mat4f_lookat (Buf 0) 1 2 3 1 2 3 0 1 0 zero_store = None"
    by (rule lookat_zero_direction [OF d1])
  have r2: "lookat_raw_direction 0 0 0 (1 / 2 ^ 100) 0 0
       = Some \<lparr>vec_x = 0, vec_y = 0, vec_z = 1 / 2 ^ 100\<rparr>"
    by (simp only: lookat_raw_direction_def f32_sub_two_minus_100 f32_sub_0_0 option.case)
  have s2: "lookat_abs_sum \<lparr>vec_x = 0, vec_y = 0, vec_z = 1 / 2 ^ 100\<rparr> = Finite (1 / 2 ^ 100)"
    by (simp only: lookat_abs_sum_def GdVec3f.select_convs absf_0 absf_two_minus_100
        f32_add_two_minus_100)
  have lt: "f32_lt (Finite (1 / 2 ^ 100)) 10"
    by (simp add: f32_lt_def)
  have n2: "snd (gd_normalize_vec3f \<lparr>vec_x = 0, vec_y = 0, vec_z = 1 / 2 ^ 100\<rparr>)
              = \<lparr>vec_x = 0, vec_y = 0, vec_z = 0\<rparr>"
    by (simp only: normalize_zero [OF squared_magnitude_tiny_z] snd_conv)
  have d2: "lookat_direction 0 0 0 (1 / 2 ^ 100) 0 0 = Some \<lparr>vec_x = 0, vec_y = 0, vec_z = 0\<rparr>"
    by (simp only: lookat_direction_def r2 option.case Let_def s2 lt n2 simp_thms if_True
        GdVec3f.select_convs GdVec3f.update_convs mult_zero_left f32_rnd_zero)
  have z: "euclidean_norm \<lparr>vec_x = 0, vec_y = 0, vec_z = 0\<rparr> = 0"
    by (simp add: euclidean_norm_def)
  from r1 s1 d1 m1 r2 s2 d2 z show ?thesis
    by (intro conjI)
qed

text \<open>
  C8 as amended, for an eye and a target whose three differences are finite. The raw
  direction is \<open>d.x = zTo - zFrom\<close>, \<open>d.y = yTo - yFrom\<close>, \<open>d.z = xTo - xFrom\<close>, each
  rounded to binary32, and \<open>s\<close> is the sum of the absolute values of its components as
  the code computes it.

  \<^item> When \<open>s\<close> lies in \<open>[10, 10000]\<close> the raw direction is used as it is.
  \<^item> When \<open>s\<close> lies outside, or has overflowed, the direction is normalised by
    \<^verbatim>\<open>gd_normalize_vec3f\<close> and each component is multiplied by 10000. Its magnitude is
    then 10000 within \<open>0.1\<close> if the squared magnitude of the raw direction, as the
    code computes it, is a normal number, which is the case when the components of
    the raw direction have an absolute value of at most \<open>2\<^sup>6\<^sup>0\<close>, one of them of at
    least \<open>2\<^sup>-\<^sup>6\<^sup>0\<close>; it is the zero vector if that squared magnitude is zero or has
    overflowed.
  \<^item> \<^verbatim>\<open>gd_mat4f_lookat\<close> produces no matrix of numbers from a zero direction. When it
    returns a matrix, the column \<open>mtx[0][2]\<close>, \<open>mtx[1][2]\<close>, \<open>mtx[2][2]\<close> is the
    direction \<open>(d.z, d.y, d.x)\<close> multiplied by \<open>-1 / sqrt m\<close>, where \<open>m\<close> is the squared
    magnitude of the direction, both rounded.
\<close>

theorem lookat_direction_rescale:
  "lookat_raw_direction xFrom yFrom zFrom xTo yTo zTo = Some raw \<Longrightarrow>
   raw = \<lparr>vec_x = f32_rnd (zTo - zFrom), vec_y = f32_rnd (yTo - yFrom),
          vec_z = f32_rnd (xTo - xFrom)\<rparr>
   \<and> (\<forall>s. lookat_abs_sum raw = Finite s \<and> 10 \<le> s \<and> s \<le> 10000 \<longrightarrow>
        lookat_direction xFrom yFrom zFrom xTo yTo zTo = Some raw)
   \<and> (lookat_abs_sum raw = Pos_inf
        \<or> (\<exists>s. lookat_abs_sum raw = Finite s \<and> (s < 10 \<or> 10000 < s)) \<longrightarrow>
        lookat_direction xFrom yFrom zFrom xTo yTo zTo
          = Some \<lparr>vec_x = f32_rnd (vec_x (snd (gd_normalize_vec3f raw)) * 10000),
                  vec_y = f32_rnd (vec_y (snd (gd_normalize_vec3f raw)) * 10000),
                  vec_z = f32_rnd (vec_z (snd (gd_normalize_vec3f raw)) * 10000)\<rparr>
        \<and> (\<forall>m. f32_squared_magnitude (vec_x raw) (vec_y raw) (vec_z raw) = Finite m
                \<and> f32_min_normal \<le> m \<longrightarrow>
             (\<exists>d. lookat_direction xFrom yFrom zFrom xTo yTo zTo = Some d
                \<and> \<bar>euclidean_norm d - 10000\<bar> \<le> 1 / 10))
        \<and> (\<bar>vec_x raw\<bar> \<le> 2 ^ 60 \<and> \<bar>vec_y raw\<bar> \<le> 2 ^ 60 \<and> \<bar>vec_z raw\<bar> \<le> 2 ^ 60
             \<and> (1 / 2 ^ 60 \<le> \<bar>vec_x raw\<bar> \<or> 1 / 2 ^ 60 \<le> \<bar>vec_y raw\<bar>
                  \<or> 1 / 2 ^ 60 \<le> \<bar>vec_z raw\<bar>) \<longrightarrow>
             (\<exists>d. lookat_direction xFrom yFrom zFrom xTo yTo zTo = Some d
                \<and> \<bar>euclidean_norm d - 10000\<bar> \<le> 1 / 10))
        \<and> (f32_squared_magnitude (vec_x raw) (vec_y raw) (vec_z raw) = Finite 0
             \<or> f32_squared_magnitude (vec_x raw) (vec_y raw) (vec_z raw) = Pos_inf \<longrightarrow>
             lookat_direction xFrom yFrom zFrom xTo yTo zTo
               = Some \<lparr>vec_x = 0, vec_y = 0, vec_z = 0\<rparr>))
   \<and> (lookat_direction xFrom yFrom zFrom xTo yTo zTo = Some \<lparr>vec_x = 0, vec_y = 0, vec_z = 0\<rparr> \<longrightarrow>
        gd_mat4f_lookat mtx xFrom yFrom zFrom xTo yTo zTo zColY yColY xColY h = None)
   \<and> (\<forall>h'. gd_mat4f_lookat mtx xFrom yFrom zFrom xTo yTo zTo zColY yColY xColY h = Some h' \<longrightarrow>
        (\<exists>d m. lookat_direction xFrom yFrom zFrom xTo yTo zTo = Some d
           \<and> f32_squared_magnitude (vec_z d) (vec_y d) (vec_x d) = Finite m \<and> m \<noteq> 0
           \<and> [h' mtx 0 2, h' mtx 1 2, h' mtx 2 2]
               = [f32_rnd (vec_z d * - f32_rnd (1 / f32_rnd (sqrt m))),
                  f32_rnd (vec_y d * - f32_rnd (1 / f32_rnd (sqrt m))),
                  f32_rnd (vec_x d * - f32_rnd (1 / f32_rnd (sqrt m)))]))"
proof (intro conjI impI allI)
  assume r: "lookat_raw_direction xFrom yFrom zFrom xTo yTo zTo = Some raw"
  then show "raw = \<lparr>vec_x = f32_rnd (zTo - zFrom), vec_y = f32_rnd (yTo - yFrom),
          vec_z = f32_rnd (xTo - xFrom)\<rparr>"
    by (rule lookat_raw_components)
next
  fix s
  assume r: "lookat_raw_direction xFrom yFrom zFrom xTo yTo zTo = Some raw"
    and "lookat_abs_sum raw = Finite s \<and> 10 \<le> s \<and> s \<le> 10000"
  then show "lookat_direction xFrom yFrom zFrom xTo yTo zTo = Some raw"
    by (simp add: lookat_inside)
next
  assume r: "lookat_raw_direction xFrom yFrom zFrom xTo yTo zTo = Some raw"
    and out: "lookat_abs_sum raw = Pos_inf
        \<or> (\<exists>s. lookat_abs_sum raw = Finite s \<and> (s < 10 \<or> 10000 < s))"
  show "lookat_direction xFrom yFrom zFrom xTo yTo zTo
          = Some \<lparr>vec_x = f32_rnd (vec_x (snd (gd_normalize_vec3f raw)) * 10000),
                  vec_y = f32_rnd (vec_y (snd (gd_normalize_vec3f raw)) * 10000),
                  vec_z = f32_rnd (vec_z (snd (gd_normalize_vec3f raw)) * 10000)\<rparr>"
    by (rule lookat_outside [OF r out])
next
  fix m
  assume r: "lookat_raw_direction xFrom yFrom zFrom xTo yTo zTo = Some raw"
    and out: "lookat_abs_sum raw = Pos_inf
        \<or> (\<exists>s. lookat_abs_sum raw = Finite s \<and> (s < 10 \<or> 10000 < s))"
    and m: "f32_squared_magnitude (vec_x raw) (vec_y raw) (vec_z raw) = Finite m
                \<and> f32_min_normal \<le> m"
  from m have "\<bar>euclidean_norm
            \<lparr>vec_x = f32_rnd (vec_x (snd (gd_normalize_vec3f raw)) * 10000),
             vec_y = f32_rnd (vec_y (snd (gd_normalize_vec3f raw)) * 10000),
             vec_z = f32_rnd (vec_z (snd (gd_normalize_vec3f raw)) * 10000)\<rparr> - 10000\<bar> \<le> 1 / 10"
    by (simp only: rescaled_unit)
  with lookat_outside [OF r out]
  show "\<exists>d. lookat_direction xFrom yFrom zFrom xTo yTo zTo = Some d
                \<and> \<bar>euclidean_norm d - 10000\<bar> \<le> 1 / 10"
    by blast
next
  assume r: "lookat_raw_direction xFrom yFrom zFrom xTo yTo zTo = Some raw"
    and out: "lookat_abs_sum raw = Pos_inf
        \<or> (\<exists>s. lookat_abs_sum raw = Finite s \<and> (s < 10 \<or> 10000 < s))"
    and b: "\<bar>vec_x raw\<bar> \<le> 2 ^ 60 \<and> \<bar>vec_y raw\<bar> \<le> 2 ^ 60 \<and> \<bar>vec_z raw\<bar> \<le> 2 ^ 60
             \<and> (1 / 2 ^ 60 \<le> \<bar>vec_x raw\<bar> \<or> 1 / 2 ^ 60 \<le> \<bar>vec_y raw\<bar>
                  \<or> 1 / 2 ^ 60 \<le> \<bar>vec_z raw\<bar>)"
  from b have "\<bar>euclidean_norm
            \<lparr>vec_x = f32_rnd (vec_x (snd (gd_normalize_vec3f raw)) * 10000),
             vec_y = f32_rnd (vec_y (snd (gd_normalize_vec3f raw)) * 10000),
             vec_z = f32_rnd (vec_z (snd (gd_normalize_vec3f raw)) * 10000)\<rparr> - 10000\<bar> \<le> 1 / 10"
    by (simp only: rescaled_in_range)
  with lookat_outside [OF r out]
  show "\<exists>d. lookat_direction xFrom yFrom zFrom xTo yTo zTo = Some d
                \<and> \<bar>euclidean_norm d - 10000\<bar> \<le> 1 / 10"
    by blast
next
  assume r: "lookat_raw_direction xFrom yFrom zFrom xTo yTo zTo = Some raw"
    and out: "lookat_abs_sum raw = Pos_inf
        \<or> (\<exists>s. lookat_abs_sum raw = Finite s \<and> (s < 10 \<or> 10000 < s))"
    and z: "f32_squared_magnitude (vec_x raw) (vec_y raw) (vec_z raw) = Finite 0
             \<or> f32_squared_magnitude (vec_x raw) (vec_y raw) (vec_z raw) = Pos_inf"
  show "lookat_direction xFrom yFrom zFrom xTo yTo zTo = Some \<lparr>vec_x = 0, vec_y = 0, vec_z = 0\<rparr>"
    unfolding lookat_outside [OF r out] rescaled_zero [OF z] ..
next
  assume "lookat_direction xFrom yFrom zFrom xTo yTo zTo = Some \<lparr>vec_x = 0, vec_y = 0, vec_z = 0\<rparr>"
  then show "gd_mat4f_lookat mtx xFrom yFrom zFrom xTo yTo zTo zColY yColY xColY h = None"
    by (rule lookat_zero_direction)
next
  fix h'
  assume "gd_mat4f_lookat mtx xFrom yFrom zFrom xTo yTo zTo zColY yColY xColY h = Some h'"
  then show "\<exists>d m. lookat_direction xFrom yFrom zFrom xTo yTo zTo = Some d
           \<and> f32_squared_magnitude (vec_z d) (vec_y d) (vec_x d) = Finite m \<and> m \<noteq> 0
           \<and> [h' mtx 0 2, h' mtx 1 2, h' mtx 2 2]
               = [f32_rnd (vec_z d * - f32_rnd (1 / f32_rnd (sqrt m))),
                  f32_rnd (vec_y d * - f32_rnd (1 / f32_rnd (sqrt m))),
                  f32_rnd (vec_x d * - f32_rnd (1 / f32_rnd (sqrt m)))]"
    by (rule lookat_forward_axis)
qed

theorem lookat_direction_rescale_witness:
  "lookat_raw_direction 0 0 0 16 0 0 = Some \<lparr>vec_x = 0, vec_y = 0, vec_z = 16\<rparr>
   \<and> lookat_abs_sum \<lparr>vec_x = 0, vec_y = 0, vec_z = 16\<rparr> = Finite 16
   \<and> lookat_direction 0 0 0 16 0 0 = Some \<lparr>vec_x = 0, vec_y = 0, vec_z = 16\<rparr>
   \<and> map_option (\<lambda>h'. [h' (Buf 0) 0 2, h' (Buf 0) 1 2, h' (Buf 0) 2 2])
        (gd_mat4f_lookat (Buf 0) 0 0 0 16 0 0 0 1 0 zero_store) = Some [- 1, 0, 0]
   \<and> lookat_raw_direction 0 0 0 3 4 0 = Some \<lparr>vec_x = 0, vec_y = 4, vec_z = 3\<rparr>
   \<and> lookat_abs_sum \<lparr>vec_x = 0, vec_y = 4, vec_z = 3\<rparr> = Finite 7
   \<and> f32_squared_magnitude 0 4 3 = Finite 25
   \<and> lookat_direction 0 0 0 3 4 0 = Some \<lparr>vec_x = 0, vec_y = 8000, vec_z = 6000\<rparr>
   \<and> \<bar>euclidean_norm \<lparr>vec_x = 0, vec_y = 8000, vec_z = 6000\<rparr> - 10000\<bar> \<le> 1 / 10
   \<and> \<bar>4\<bar> \<le> (2 ^ 60 :: real) \<and> 1 / 2 ^ 60 \<le> \<bar>4 :: real\<bar>
   \<and> lookat_raw_direction 0 0 0 (2 ^ 100) 0 0 = Some \<lparr>vec_x = 0, vec_y = 0, vec_z = 2 ^ 100\<rparr>
   \<and> lookat_abs_sum \<lparr>vec_x = 0, vec_y = 0, vec_z = 2 ^ 100\<rparr> = Finite (2 ^ 100)
   \<and> f32_squared_magnitude 0 0 (2 ^ 100) = Pos_inf
   \<and> lookat_direction 0 0 0 (2 ^ 100) 0 0 = Some \<lparr>vec_x = 0, vec_y = 0, vec_z = 0\<rparr>
   \<and> gd_mat4f_lookat (Buf 0) 0 0 0 (2 ^ 100) 0 0 0 1 0 zero_store = None"
proof -
  have r16: "lookat_raw_direction 0 0 0 16 0 0 = Some \<lparr>vec_x = 0, vec_y = 0, vec_z = 16\<rparr>"
    by (simp add: lookat_raw_direction_def f32_sub_def f32_huge_def f32_rnd_16)
  have s16: "lookat_abs_sum \<lparr>vec_x = 0, vec_y = 0, vec_z = 16\<rparr> = Finite 16"
    by (simp add: lookat_abs_sum_def f32_add_def f32_nonneg_def absf_def f32_huge_def f32_rnd_16)
  have b16: "(10::real) \<le> 16" "(16::real) \<le> 10000"
    by simp_all
  note T16 = lookat_direction_rescale
      [where xFrom = 0 and yFrom = 0 and zFrom = 0 and xTo = 16 and yTo = 0 and zTo = 0
        and mtx = "Buf 0" and zColY = 0 and yColY = 1 and xColY = 0 and h = zero_store, OF r16]
  from T16 s16 b16
  have d16: "lookat_direction 0 0 0 16 0 0 = Some \<lparr>vec_x = 0, vec_y = 0, vec_z = 16\<rparr>"
    by blast
  have "\<exists>h'. gd_mat4f_lookat (Buf 0) 0 0 0 16 0 0 0 1 0 zero_store = Some h'"
    by (simp add: gd_mat4f_lookat_def d16 squared_magnitude_16_0_0 f32_inv_sqrtf_def sqrt_256
        f32_rnd_16 f32_rnd_sixteenth f32_rnd_minus_1 inv_sqrtf_def sqr_def Let_def)
  then obtain h16 where h16: "gd_mat4f_lookat (Buf 0) 0 0 0 16 0 0 0 1 0 zero_store = Some h16" ..
  from T16 h16 obtain d m where dm: "lookat_direction 0 0 0 16 0 0 = Some d"
    "f32_squared_magnitude (vec_z d) (vec_y d) (vec_x d) = Finite m"
    "[h16 (Buf 0) 0 2, h16 (Buf 0) 1 2, h16 (Buf 0) 2 2]
       = [f32_rnd (vec_z d * - f32_rnd (1 / f32_rnd (sqrt m))),
          f32_rnd (vec_y d * - f32_rnd (1 / f32_rnd (sqrt m))),
          f32_rnd (vec_x d * - f32_rnd (1 / f32_rnd (sqrt m)))]"
    by blast
  from dm(1) d16 have d: "d = \<lparr>vec_x = 0, vec_y = 0, vec_z = 16\<rparr>"
    by simp
  from dm(2) have m: "m = 256"
    by (simp add: d squared_magnitude_16_0_0)
  have q: "16 * - (1 / 16) = (- 1::real)"
    by simp
  have "[h16 (Buf 0) 0 2, h16 (Buf 0) 1 2, h16 (Buf 0) 2 2] = [- 1, 0, 0]"
    unfolding dm(3) d m
    by (simp only: GdVec3f.select_convs sqrt_256 f32_rnd_16 f32_rnd_sixteenth q f32_rnd_minus_1
        mult_zero_left f32_rnd_zero)
  with h16
  have c16: "map_option (\<lambda>h'. [h' (Buf 0) 0 2, h' (Buf 0) 1 2, h' (Buf 0) 2 2])
        (gd_mat4f_lookat (Buf 0) 0 0 0 16 0 0 0 1 0 zero_store) = Some [- 1, 0, 0]"
    by simp
  have r34: "lookat_raw_direction 0 0 0 3 4 0 = Some \<lparr>vec_x = 0, vec_y = 4, vec_z = 3\<rparr>"
    by (simp add: lookat_raw_direction_def f32_sub_def f32_huge_def f32_rnd_3 f32_rnd_4)
  have s34: "lookat_abs_sum \<lparr>vec_x = 0, vec_y = 4, vec_z = 3\<rparr> = Finite 7"
    by (simp add: lookat_abs_sum_def f32_add_def f32_nonneg_def absf_def f32_huge_def f32_rnd_7)
  have "(7::real) < 10"
    by simp
  with s34
  have out34: "lookat_abs_sum \<lparr>vec_x = 0, vec_y = 4, vec_z = 3\<rparr> = Pos_inf
     \<or> (\<exists>s. lookat_abs_sum \<lparr>vec_x = 0, vec_y = 4, vec_z = 3\<rparr> = Finite s \<and> (s < 10 \<or> 10000 < s))"
    by blast
  have n34: "f32_squared_magnitude (vec_x \<lparr>vec_x = 0, vec_y = 4, vec_z = 3\<rparr>)
        (vec_y \<lparr>vec_x = 0, vec_y = 4, vec_z = 3\<rparr>) (vec_z \<lparr>vec_x = 0, vec_y = 4, vec_z = 3\<rparr>)
        = Finite 25 \<and> f32_min_normal \<le> 25"
    by (simp add: squared_magnitude_0_4_3 f32_min_normal_def)
  note T34 = lookat_direction_rescale
      [where xFrom = 0 and yFrom = 0 and zFrom = 0 and xTo = 3 and yTo = 4 and zTo = 0
        and mtx = "Buf 0" and zColY = 0 and yColY = 1 and xColY = 0 and h = zero_store, OF r34]
  from T34 out34
  have "lookat_direction 0 0 0 3 4 0
          = Some \<lparr>vec_x = f32_rnd (vec_x (snd (gd_normalize_vec3f
                        \<lparr>vec_x = 0, vec_y = 4, vec_z = 3\<rparr>)) * 10000),
                  vec_y = f32_rnd (vec_y (snd (gd_normalize_vec3f
                        \<lparr>vec_x = 0, vec_y = 4, vec_z = 3\<rparr>)) * 10000),
                  vec_z = f32_rnd (vec_z (snd (gd_normalize_vec3f
                        \<lparr>vec_x = 0, vec_y = 4, vec_z = 3\<rparr>)) * 10000)\<rparr>"
    by blast
  then have d34: "lookat_direction 0 0 0 3 4 0 = Some \<lparr>vec_x = 0, vec_y = 8000, vec_z = 6000\<rparr>"
    by (simp only: normalize_0_4_3 snd_conv GdVec3f.select_convs mult_zero_left f32_rnd_zero
        f32_rnd_8000 f32_rnd_6000)
  from T34 out34 n34 obtain d' where "lookat_direction 0 0 0 3 4 0 = Some d'"
    and "\<bar>euclidean_norm d' - 10000\<bar> \<le> 1 / 10"
    by blast
  have b34: "\<bar>vec_x \<lparr>vec_x = 0, vec_y = 4, vec_z = 3\<rparr>\<bar> \<le> 2 ^ 60
      \<and> \<bar>vec_y \<lparr>vec_x = 0, vec_y = 4, vec_z = 3\<rparr>\<bar> \<le> 2 ^ 60
      \<and> \<bar>vec_z \<lparr>vec_x = 0, vec_y = 4, vec_z = 3\<rparr>\<bar> \<le> 2 ^ 60
      \<and> (1 / 2 ^ 60 \<le> \<bar>vec_x \<lparr>vec_x = 0, vec_y = 4, vec_z = 3\<rparr>\<bar>
           \<or> 1 / 2 ^ 60 \<le> \<bar>vec_y \<lparr>vec_x = 0, vec_y = 4, vec_z = 3\<rparr>\<bar>
           \<or> 1 / 2 ^ 60 \<le> \<bar>vec_z \<lparr>vec_x = 0, vec_y = 4, vec_z = 3\<rparr>\<bar>)"
    by simp
  from T34 out34 b34 obtain d'' where "lookat_direction 0 0 0 3 4 0 = Some d''"
    and "\<bar>euclidean_norm d'' - 10000\<bar> \<le> 1 / 10"
    by blast
  have r34b: "\<bar>4\<bar> \<le> (2 ^ 60 :: real)" "1 / 2 ^ 60 \<le> \<bar>4 :: real\<bar>"
    by simp_all
  from \<open>lookat_direction 0 0 0 3 4 0 = Some d'\<close> \<open>\<bar>euclidean_norm d' - 10000\<bar> \<le> 1 / 10\<close>
    d34 have e34: "\<bar>euclidean_norm \<lparr>vec_x = 0, vec_y = 8000, vec_z = 6000\<rparr> - 10000\<bar> \<le> 1 / 10"
    by simp
  have rH: "lookat_raw_direction 0 0 0 (2 ^ 100) 0 0
              = Some \<lparr>vec_x = 0, vec_y = 0, vec_z = 2 ^ 100\<rparr>"
    by (simp only: lookat_raw_direction_def f32_sub_two_100 f32_sub_0_0 option.case)
  have sH: "lookat_abs_sum \<lparr>vec_x = 0, vec_y = 0, vec_z = 2 ^ 100\<rparr> = Finite (2 ^ 100)"
    by (simp only: lookat_abs_sum_def GdVec3f.select_convs absf_0 absf_two_100 f32_add_two_100)
  have "(10000::real) < 2 ^ 100"
    by simp
  with sH
  have outH: "lookat_abs_sum \<lparr>vec_x = 0, vec_y = 0, vec_z = 2 ^ 100\<rparr> = Pos_inf
     \<or> (\<exists>s. lookat_abs_sum \<lparr>vec_x = 0, vec_y = 0, vec_z = 2 ^ 100\<rparr> = Finite s
           \<and> (s < 10 \<or> 10000 < s))"
    by blast
  have zH: "f32_squared_magnitude (vec_x \<lparr>vec_x = 0, vec_y = 0, vec_z = 2 ^ 100\<rparr>)
        (vec_y \<lparr>vec_x = 0, vec_y = 0, vec_z = 2 ^ 100\<rparr>)
        (vec_z \<lparr>vec_x = 0, vec_y = 0, vec_z = 2 ^ 100\<rparr>) = Finite 0
     \<or> f32_squared_magnitude (vec_x \<lparr>vec_x = 0, vec_y = 0, vec_z = 2 ^ 100\<rparr>)
        (vec_y \<lparr>vec_x = 0, vec_y = 0, vec_z = 2 ^ 100\<rparr>)
        (vec_z \<lparr>vec_x = 0, vec_y = 0, vec_z = 2 ^ 100\<rparr>) = Pos_inf"
    by (simp only: GdVec3f.select_convs squared_magnitude_huge_z simp_thms)
  note TH = lookat_direction_rescale
      [where xFrom = 0 and yFrom = 0 and zFrom = 0 and xTo = "2 ^ 100" and yTo = 0 and zTo = 0
        and mtx = "Buf 0" and zColY = 0 and yColY = 1 and xColY = 0 and h = zero_store, OF rH]
  from TH outH zH
  have dH: "lookat_direction 0 0 0 (2 ^ 100) 0 0 = Some \<lparr>vec_x = 0, vec_y = 0, vec_z = 0\<rparr>"
    by blast
  from TH dH
  have mH: "gd_mat4f_lookat (Buf 0) 0 0 0 (2 ^ 100) 0 0 0 1 0 zero_store = None"
    by blast
  from r16 s16 d16 c16 r34 s34 squared_magnitude_0_4_3 d34 e34 r34b rH sH
    squared_magnitude_huge_z dH mH
  show ?thesis
    by (intro conjI)
qed

subsection \<open>C2: rotation about a principal axis\<close>

text \<open>
  C2 says that \<^verbatim>\<open>gd_absrot_mat4\<close> replaces \<^verbatim>\<open>mtx\<close> with the left product
  \<open>rotation \<cdot> mtx\<close>. The call is \<^verbatim>\<open>gd_mult_mat4f(mtx, &rMat, mtx)\<close>, whose first factor
  is \<^verbatim>\<open>mtx\<close>. With the matrix of elements \<open>4 i + j\<close>, the x axis and 90 degrees (sine 1,
  cosine 0), the function leaves \<open>mtx \<cdot> rotation\<close>, whose first row is \<open>(0,-2,1,3)\<close>;
  the first row of \<open>rotation \<cdot> mtx\<close> is \<open>(0,1,2,3)\<close>.
\<close>

theorem gd_absrot_mat4_not_left_product:
  "\<not> isl (gd_absrot_mat4 degree_adapter axes_012 (Buf 0) 0 90 counting_store)
   \<and> mat4 (projr (gd_absrot_mat4 degree_adapter axes_012 (Buf 0) 0 90 counting_store)) (Buf 0)
       = [[0, - 2, 1, 3], [4, - 6, 5, 7], [8, - 10, 9, 11], [12, - 14, 13, 15]]
   \<and> mat_mul (mat4 (gd_create_rot_mat_angular degree_adapter (Buf 2)
                      \<lparr>vec_x = 1, vec_y = 0, vec_z = 0\<rparr> (90 / 2) zero_store) (Buf 2))
         (mat4 counting_store (Buf 0))
       = [[0, 1, 2, 3], [8, 9, 10, 11], [- 4, - 5, - 6, - 7], [12, 13, 14, 15]]
   \<and> mat4 (projr (gd_absrot_mat4 degree_adapter axes_012 (Buf 0) 0 90 counting_store)) (Buf 0)
       \<noteq> mat_mul (mat4 (gd_create_rot_mat_angular degree_adapter (Buf 2)
                          \<lparr>vec_x = 1, vec_y = 0, vec_z = 0\<rparr> (90 / 2) zero_store) (Buf 2))
             (mat4 counting_store (Buf 0))"
proof -
  let ?R = "mat4 (gd_create_rot_mat_angular degree_adapter (Buf 2)
                    \<lparr>vec_x = 1, vec_y = 0, vec_z = 0\<rparr> (90 / 2) zero_store) (Buf 2)"
  have R: "?R = [[1, 0, 0, 0], [0, 0, 1, 0], [0, - 1, 0, 0], [0, 0, 0, 1]]"
    by (rule rot_mat_angular_quarter_x)
  have M: "mat4 counting_store (Buf 0)
             = [[0, 1, 2, 3], [4, 5, 6, 7], [8, 9, 10, 11], [12, 13, 14, 15]]"
    by (simp add: mat4_def counting_store_def)
  have "absrot_axis axes_012 0 = Inr \<lparr>vec_x = 1, vec_y = 0, vec_z = 0\<rparr>"
    by (simp add: absrot_axis_def axes_012_def)
  from absrot_ok [OF this, of degree_adapter 0 90 counting_store 2 zero_store]
  obtain h' where h': "gd_absrot_mat4 degree_adapter axes_012 (Buf 0) 0 90 counting_store = Inr h'"
    and p: "mat4 h' (Buf 0) = mat_mul (mat4 counting_store (Buf 0)) ?R"
    by blast
  have right: "mat4 h' (Buf 0)
       = [[0, - 2, 1, 3], [4, - 6, 5, 7], [8, - 10, 9, 11], [12, - 14, 13, 15]]"
    unfolding p R M by (simp add: mat_mul_def)
  have left: "mat_mul ?R (mat4 counting_store (Buf 0))
       = [[0, 1, 2, 3], [8, 9, 10, 11], [- 4, - 5, - 6, - 7], [12, 13, 14, 15]]"
    unfolding R M by (simp add: mat_mul_def)
  show ?thesis
    unfolding h' left by (simp add: right)
qed

text \<open>
  C2 as amended: for every matrix \<^verbatim>\<open>mtx\<close> in a caller's buffer, every recognised axis
  selector and every angle \<^verbatim>\<open>ang\<close>, \<^verbatim>\<open>gd_absrot_mat4\<close> takes the unit basis vector of that
  axis (\<open>(1,0,0)\<close>, \<open>(0,1,0)\<close> or \<open>(0,0,1)\<close>), builds the rotation matrix with
  \<^verbatim>\<open>gd_create_rot_mat_angular\<close> at \<open>ang / 2\<close>, and replaces \<^verbatim>\<open>mtx\<close> with the right
  product \<open>mtx \<cdot> rotation\<close>, leaving the caller's other buffers as they were; for any
  other selector value it reaches the fatal error reporter and writes no result. The
  three selectors are distinct, as the labels of a C \<^verbatim>\<open>switch\<close> are.
\<close>

theorem gd_absrot_mat4_right_product:
  assumes "distinct [GD_X_AXIS E, GD_Y_AXIS E, GD_Z_AXIS E]"
  shows
   "(axisnum = GD_X_AXIS E \<longrightarrow>
       (\<exists>h'. gd_absrot_mat4 T E (Buf n) axisnum ang h = Inr h'
          \<and> mat4 h' (Buf n) =
              mat_mul (mat4 h (Buf n))
                (mat4 (gd_create_rot_mat_angular T (Buf m) \<lparr>vec_x = 1, vec_y = 0, vec_z = 0\<rparr>
                         (ang / 2) g) (Buf m))
          \<and> (\<forall>k. k \<noteq> n \<longrightarrow> h' (Buf k) = h (Buf k))))
    \<and> (axisnum = GD_Y_AXIS E \<longrightarrow>
       (\<exists>h'. gd_absrot_mat4 T E (Buf n) axisnum ang h = Inr h'
          \<and> mat4 h' (Buf n) =
              mat_mul (mat4 h (Buf n))
                (mat4 (gd_create_rot_mat_angular T (Buf m) \<lparr>vec_x = 0, vec_y = 1, vec_z = 0\<rparr>
                         (ang / 2) g) (Buf m))
          \<and> (\<forall>k. k \<noteq> n \<longrightarrow> h' (Buf k) = h (Buf k))))
    \<and> (axisnum = GD_Z_AXIS E \<longrightarrow>
       (\<exists>h'. gd_absrot_mat4 T E (Buf n) axisnum ang h = Inr h'
          \<and> mat4 h' (Buf n) =
              mat_mul (mat4 h (Buf n))
                (mat4 (gd_create_rot_mat_angular T (Buf m) \<lparr>vec_x = 0, vec_y = 0, vec_z = 1\<rparr>
                         (ang / 2) g) (Buf m))
          \<and> (\<forall>k. k \<noteq> n \<longrightarrow> h' (Buf k) = h (Buf k))))
    \<and> (axisnum \<noteq> GD_X_AXIS E \<and> axisnum \<noteq> GD_Y_AXIS E \<and> axisnum \<noteq> GD_Z_AXIS E \<longrightarrow>
       gd_absrot_mat4 T E (Buf n) axisnum ang h = Inl Bad_axis_num)"
proof (intro conjI impI)
  assume "axisnum = GD_X_AXIS E"
  then have "absrot_axis E axisnum = Inr \<lparr>vec_x = 1, vec_y = 0, vec_z = 0\<rparr>"
    by (rule absrot_axis_cases(1) [OF assms])
  then show "\<exists>h'. gd_absrot_mat4 T E (Buf n) axisnum ang h = Inr h'
          \<and> mat4 h' (Buf n) =
              mat_mul (mat4 h (Buf n))
                (mat4 (gd_create_rot_mat_angular T (Buf m) \<lparr>vec_x = 1, vec_y = 0, vec_z = 0\<rparr>
                         (ang / 2) g) (Buf m))
          \<and> (\<forall>k. k \<noteq> n \<longrightarrow> h' (Buf k) = h (Buf k))"
    by (rule absrot_ok)
next
  assume "axisnum = GD_Y_AXIS E"
  then have "absrot_axis E axisnum = Inr \<lparr>vec_x = 0, vec_y = 1, vec_z = 0\<rparr>"
    by (rule absrot_axis_cases(2) [OF assms])
  then show "\<exists>h'. gd_absrot_mat4 T E (Buf n) axisnum ang h = Inr h'
          \<and> mat4 h' (Buf n) =
              mat_mul (mat4 h (Buf n))
                (mat4 (gd_create_rot_mat_angular T (Buf m) \<lparr>vec_x = 0, vec_y = 1, vec_z = 0\<rparr>
                         (ang / 2) g) (Buf m))
          \<and> (\<forall>k. k \<noteq> n \<longrightarrow> h' (Buf k) = h (Buf k))"
    by (rule absrot_ok)
next
  assume "axisnum = GD_Z_AXIS E"
  then have "absrot_axis E axisnum = Inr \<lparr>vec_x = 0, vec_y = 0, vec_z = 1\<rparr>"
    by (rule absrot_axis_cases(3) [OF assms])
  then show "\<exists>h'. gd_absrot_mat4 T E (Buf n) axisnum ang h = Inr h'
          \<and> mat4 h' (Buf n) =
              mat_mul (mat4 h (Buf n))
                (mat4 (gd_create_rot_mat_angular T (Buf m) \<lparr>vec_x = 0, vec_y = 0, vec_z = 1\<rparr>
                         (ang / 2) g) (Buf m))
          \<and> (\<forall>k. k \<noteq> n \<longrightarrow> h' (Buf k) = h (Buf k))"
    by (rule absrot_ok)
next
  assume "axisnum \<noteq> GD_X_AXIS E \<and> axisnum \<noteq> GD_Y_AXIS E \<and> axisnum \<noteq> GD_Z_AXIS E"
  then show "gd_absrot_mat4 T E (Buf n) axisnum ang h = Inl Bad_axis_num"
    by (simp add: absrot_fatal)
qed

theorem gd_absrot_mat4_right_product_witness:
  "distinct [GD_X_AXIS axes_012, GD_Y_AXIS axes_012, GD_Z_AXIS axes_012]
   \<and> (\<exists>h'. gd_absrot_mat4 degree_adapter axes_012 (Buf 0) 0 90 counting_store = Inr h'
         \<and> mat4 h' (Buf 0)
             = [[0, - 2, 1, 3], [4, - 6, 5, 7], [8, - 10, 9, 11], [12, - 14, 13, 15]])
   \<and> gd_absrot_mat4 degree_adapter axes_012 (Buf 0) 7 90 counting_store = Inl Bad_axis_num"
proof -
  let ?R = "mat4 (gd_create_rot_mat_angular degree_adapter (Buf 2)
                    \<lparr>vec_x = 1, vec_y = 0, vec_z = 0\<rparr> (90 / 2) zero_store) (Buf 2)"
  have dist: "distinct [GD_X_AXIS axes_012, GD_Y_AXIS axes_012, GD_Z_AXIS axes_012]"
    by (simp add: axes_012_def)
  have x: "(0::int) = GD_X_AXIS axes_012"
    and o: "(7::int) \<noteq> GD_X_AXIS axes_012 \<and> 7 \<noteq> GD_Y_AXIS axes_012 \<and> 7 \<noteq> GD_Z_AXIS axes_012"
    by (simp_all add: axes_012_def)
  have R: "?R = [[1, 0, 0, 0], [0, 0, 1, 0], [0, - 1, 0, 0], [0, 0, 0, 1]]"
    by (rule rot_mat_angular_quarter_x)
  have M: "mat4 counting_store (Buf 0)
             = [[0, 1, 2, 3], [4, 5, 6, 7], [8, 9, 10, 11], [12, 13, 14, 15]]"
    by (simp add: mat4_def counting_store_def)
  from gd_absrot_mat4_right_product
      [OF dist, where axisnum = 0 and T = degree_adapter and n = 0 and ang = 90
        and h = counting_store and m = 2 and g = zero_store] x
  obtain h' where h': "gd_absrot_mat4 degree_adapter axes_012 (Buf 0) 0 90 counting_store = Inr h'"
    and p: "mat4 h' (Buf 0) = mat_mul (mat4 counting_store (Buf 0)) ?R"
    by blast
  have "mat4 h' (Buf 0)
       = [[0, - 2, 1, 3], [4, - 6, 5, 7], [8, - 10, 9, 11], [12, - 14, 13, 15]]"
    unfolding p R M by (simp add: mat_mul_def)
  with h' have e: "\<exists>h'. gd_absrot_mat4 degree_adapter axes_012 (Buf 0) 0 90 counting_store = Inr h'
         \<and> mat4 h' (Buf 0)
             = [[0, - 2, 1, 3], [4, - 6, 5, 7], [8, - 10, 9, 11], [12, - 14, 13, 15]]"
    by blast
  from gd_absrot_mat4_right_product
      [OF dist, where axisnum = 7 and T = degree_adapter and n = 0 and ang = 90
        and h = counting_store] o
  have f: "gd_absrot_mat4 degree_adapter axes_012 (Buf 0) 7 90 counting_store = Inl Bad_axis_num"
    by blast
  from dist e f show ?thesis
    by (intro conjI)
qed

end
